theory Spec2Isabelle
  imports Main "HOL-Library.Multiset"
begin

section \<open>Data model\<close>

text \<open>
  The service of \<^verbatim>\<open>src/unnamed/part_001\<close> keeps two collections in a document store.
  A document is a record; the \<^verbatim>\<open>_id\<close> that the store assigns is a field of its own.
  Strings are \<^typ>\<open>string\<close> and are read as ASCII text, JavaScript numbers that the
  handlers only count with are \<^typ>\<open>int\<close>, a date is its timestamp. The store is a pair of
  lists in insertion order and handles one request at a time; its operations fail only
  for what their arguments are (a malformed id, a failed validation, a duplicate key, a
  negative skip), not for a lost connection.
\<close>

record user =
  user_id :: string
  name :: string
  email :: string
  password :: string
  accessToken :: string

record thought =
  thought_id :: string
  message :: string
  hearts :: int
  createdAt :: int
  userId :: string

record db =
  users :: "user list"
  thoughts :: "thought list"

text \<open>
  What the handlers call outside the repository: the ObjectId cast of the store driver
  (\<open>None\<close> is its CastError, \<open>Some\<close> the canonical id), the regular expression engine
  (\<open>None\<close> is the SyntaxError of \<^verbatim>\<open>new RegExp(m, 'i')\<close>, \<open>Some\<close> the matcher the store
  applies for \<^verbatim>\<open>$regex\<close>), bcrypt, and the values that are fresh at each request.
\<close>

record env =
  castObjectId :: "string \<Rightarrow> string option"
  newRegExp :: "string \<Rightarrow> (string \<Rightarrow> bool) option"
  hashSync :: "string \<Rightarrow> string"
  compareSync :: "string \<Rightarrow> string \<Rightarrow> bool"
  newObjectId :: string
  randomBytesHex :: string
  newDate :: int

datatype store_error = CastError | ValidationError | DuplicateKey | SkipError | BcryptError

record page =
  totalResults :: nat
  currentPage :: int
  resultsPerPage :: nat
  page_thoughts :: "thought list"

datatype payload =
    Null
  | ErrorObj store_error
  | ThoughtDoc thought
  | ThoughtPage page
  | UserInfo string string string "string option"
  | Secret string
  | ApiInfo

text \<open>The envelope \<^verbatim>\<open>{success, response, message}\<close> sent with \<^verbatim>\<open>res.status(n).json\<close>.\<close>

record reply =
  status :: nat
  success :: bool
  response :: payload
  notice :: string

definition json :: "nat \<Rightarrow> bool \<Rightarrow> payload \<Rightarrow> string \<Rightarrow> reply" where
  "json n s r m = \<lparr>status = n, success = s, response = r, notice = m\<rparr>"

text \<open>
  A handler answers, or throws outside its \<^verbatim>\<open>try\<close> block, in which case it writes no
  reply and the framework is left with a rejected promise.
\<close>

datatype outcome = Responded reply | Unhandled

text \<open>A request succeeded when a reply was written and its envelope says so.\<close>

definition succeeded :: "outcome \<Rightarrow> bool" where
  "succeeded out = (case out of Responded r \<Rightarrow> success r | Unhandled \<Rightarrow> False)"

section \<open>JavaScript string primitives\<close>

fun startsWith :: "string \<Rightarrow> string \<Rightarrow> bool" where
  "startsWith s [] = True"
| "startsWith [] (p # ps) = False"
| "startsWith (c # cs) (p # ps) = (c = p \<and> startsWith cs ps)"

text \<open>
  \<^verbatim>\<open>s.replace(pat, rep)\<close> with a string pattern: the first occurrence only. The
  replacement is taken as it is (the handlers replace by the empty string).
\<close>

fun replace :: "string \<Rightarrow> string \<Rightarrow> string \<Rightarrow> string" where
  "replace [] pat rep = (if pat = [] then rep else [])"
| "replace (c # cs) pat rep =
     (if startsWith (c # cs) pat then rep @ drop (length pat) (c # cs)
      else c # replace cs pat rep)"

section \<open>Authentication middleware\<close>

definition no_token_reply :: reply where
  "no_token_reply = json 401 False Null ''Unauthorized: No access token provided.''"

definition bad_token_reply :: reply where
  "bad_token_reply = json 401 False Null ''Unauthorized: Access token invalid or missing.''"

text \<open>\<^verbatim>\<open>req.header("Authorization")?.replace("Bearer ", "")\<close>\<close>

definition header_token :: "string option \<Rightarrow> string option" where
  "header_token h = (case h of None \<Rightarrow> None | Some v \<Rightarrow> Some (replace v ''Bearer '' ''''))"

text \<open>
  \<open>Inl\<close> is the reply the middleware sends itself; \<open>Inr u\<close> is \<^verbatim>\<open>req.user = u; next()\<close>.
  The \<^verbatim>\<open>catch\<close> of the middleware answers a lost store connection, which the
  in-memory store does not have.
\<close>

definition authenticateUser :: "db \<Rightarrow> string option \<Rightarrow> reply + user" where
  "authenticateUser d h =
     (case header_token h of
        None \<Rightarrow> Inl no_token_reply
      | Some tok \<Rightarrow>
          if tok = [] then Inl no_token_reply
          else (case find (\<lambda>u. accessToken u = tok) (users d) of
                  Some u \<Rightarrow> Inr u
                | None \<Rightarrow> Inl bad_token_reply))"

text \<open>A route registered as \<^verbatim>\<open>app.verb(path, authenticateUser, handler)\<close>.\<close>

definition protected :: "db \<Rightarrow> string option \<Rightarrow> (user \<Rightarrow> outcome \<times> db) \<Rightarrow> outcome \<times> db" where
  "protected d h handler =
     (case authenticateUser d h of
        Inl r \<Rightarrow> (Responded r, d)
      | Inr u \<Rightarrow> handler u)"

section \<open>Schema validation\<close>

definition isWhiteSpace :: "char \<Rightarrow> bool" where
  "isWhiteSpace c = (c \<in> set [CHR 0x09, CHR 0x0A, CHR 0x0B, CHR 0x0C, CHR 0x0D, CHR 0x20])"

text \<open>The \<^verbatim>\<open>trim: true\<close> setter of the message path (the whitespace of one-byte characters).\<close>

definition trim :: "string \<Rightarrow> string" where
  "trim s = rev (dropWhile isWhiteSpace (rev (dropWhile isWhiteSpace s)))"

text \<open>
  The validators of the message path, run on the trimmed value:
  \<^verbatim>\<open>required: true, minlength: 5, maxlength: 140\<close>. An absent message fails \<^verbatim>\<open>required\<close>.
\<close>

definition validate_message :: "string option \<Rightarrow> store_error + string" where
  "validate_message m =
     (case m of
        None \<Rightarrow> Inl ValidationError
      | Some s \<Rightarrow>
          let v = trim s in
          if v = [] \<or> length v < 5 \<or> 140 < length v then Inl ValidationError else Inr v)"

definition required :: "string option \<Rightarrow> bool" where
  "required v = (case v of None \<Rightarrow> False | Some s \<Rightarrow> s \<noteq> [])"

section \<open>Store operations\<close>

fun update_first :: "('a \<Rightarrow> bool) \<Rightarrow> ('a \<Rightarrow> 'a) \<Rightarrow> 'a list \<Rightarrow> 'a list" where
  "update_first P f [] = []"
| "update_first P f (x # xs) = (if P x then f x # xs else x # update_first P f xs)"

fun remove_first :: "('a \<Rightarrow> bool) \<Rightarrow> 'a list \<Rightarrow> 'a list" where
  "remove_first P [] = []"
| "remove_first P (x # xs) = (if P x then xs else x # remove_first P xs)"

definition has_id :: "string \<Rightarrow> thought \<Rightarrow> bool" where
  "has_id i t = (thought_id t = i)"

text \<open>\<^verbatim>\<open>Thought.findById(id)\<close>: the id is cast first, and a malformed one throws.\<close>

definition findById :: "env \<Rightarrow> db \<Rightarrow> string \<Rightarrow> store_error + thought option" where
  "findById e d i =
     (case castObjectId e i of
        None \<Rightarrow> Inl CastError
      | Some oid \<Rightarrow> Inr (find (has_id oid) (thoughts d)))"

text \<open>
  \<^verbatim>\<open>Thought.findByIdAndUpdate(id, update, {new: true})\<close>: the updated document, or null
  when no document has the id. The update is a function on the document.
\<close>

definition findByIdAndUpdate ::
  "env \<Rightarrow> db \<Rightarrow> string \<Rightarrow> (thought \<Rightarrow> thought) \<Rightarrow> store_error + (thought option \<times> db)" where
  "findByIdAndUpdate e d i f =
     (case castObjectId e i of
        None \<Rightarrow> Inl CastError
      | Some oid \<Rightarrow>
          (case find (has_id oid) (thoughts d) of
             None \<Rightarrow> Inr (None, d)
           | Some t \<Rightarrow> Inr (Some (f t), d\<lparr>thoughts := update_first (has_id oid) f (thoughts d)\<rparr>)))"

text \<open>\<^verbatim>\<open>Thought.findByIdAndDelete(id)\<close>: the deleted document, or null.\<close>

definition findByIdAndDelete :: "env \<Rightarrow> db \<Rightarrow> string \<Rightarrow> store_error + (thought option \<times> db)" where
  "findByIdAndDelete e d i =
     (case castObjectId e i of
        None \<Rightarrow> Inl CastError
      | Some oid \<Rightarrow>
          (case find (has_id oid) (thoughts d) of
             None \<Rightarrow> Inr (None, d)
           | Some t \<Rightarrow> Inr (Some t, d\<lparr>thoughts := remove_first (has_id oid) (thoughts d)\<rparr>)))"

text \<open>
  \<^verbatim>\<open>new Thought({message, userId}).save()\<close>: validation, then the insert with the
  defaults of the schema (\<^verbatim>\<open>hearts: 0\<close>, \<^verbatim>\<open>createdAt: new Date()\<close>) and a fresh \<^verbatim>\<open>_id\<close>,
  which the store refuses when it is taken.
\<close>

definition save_thought :: "env \<Rightarrow> db \<Rightarrow> string option \<Rightarrow> string \<Rightarrow> store_error + (thought \<times> db)" where
  "save_thought e d m uid =
     (case validate_message m of
        Inl err \<Rightarrow> Inl err
      | Inr v \<Rightarrow>
          if list_ex (has_id (newObjectId e)) (thoughts d) then Inl DuplicateKey
          else
            let t = \<lparr>thought_id = newObjectId e, message = v, hearts = 0,
                     createdAt = newDate e, userId = uid\<rparr>
            in Inr (t, d\<lparr>thoughts := thoughts d @ [t]\<rparr>))"

text \<open>
  \<^verbatim>\<open>new User({name, email, password}).save()\<close>: the three paths are required, name and
  email are unique, the access token defaults to \<^verbatim>\<open>crypto.randomBytes(128).toString("hex")\<close>.
\<close>

definition save_user ::
  "env \<Rightarrow> db \<Rightarrow> string option \<Rightarrow> string option \<Rightarrow> string \<Rightarrow> store_error + (user \<times> db)" where
  "save_user e d n em pw =
     (if \<not> required n \<or> \<not> required em \<or> pw = [] then Inl ValidationError
      else if list_ex (\<lambda>u. user_id u = newObjectId e \<or> name u = the n \<or> email u = the em) (users d)
      then Inl DuplicateKey
      else
        let u = \<lparr>user_id = newObjectId e, name = the n, email = the em, password = pw,
                 accessToken = randomBytesHex e\<rparr>
        in Inr (u, d\<lparr>users := users d @ [u]\<rparr>))"

text \<open>
  The update document of \<^verbatim>\<open>PATCH /thoughts/:id\<close>: each field is set or left out.
  With \<^verbatim>\<open>runValidators: true\<close> the message is cast (trimmed) and validated before
  anything is written.
\<close>

record updateFields =
  uf_message :: "string option"
  uf_hearts :: "int option"

definition set_fields :: "string option \<Rightarrow> int option \<Rightarrow> thought \<Rightarrow> thought" where
  "set_fields m h t =
     (let t1 = (case m of None \<Rightarrow> t | Some v \<Rightarrow> t\<lparr>message := v\<rparr>)
      in (case h of None \<Rightarrow> t1 | Some n \<Rightarrow> t1\<lparr>hearts := n\<rparr>))"

definition findByIdAndUpdate_validated ::
  "env \<Rightarrow> db \<Rightarrow> string \<Rightarrow> updateFields \<Rightarrow> store_error + (thought option \<times> db)" where
  "findByIdAndUpdate_validated e d i uf =
     (case castObjectId e i of
        None \<Rightarrow> Inl CastError
      | Some oid \<Rightarrow>
          (case uf_message uf of
             None \<Rightarrow> findByIdAndUpdate e d i (set_fields None (uf_hearts uf))
           | Some m \<Rightarrow>
               (case validate_message (Some m) of
                  Inl err \<Rightarrow> Inl err
                | Inr v \<Rightarrow> findByIdAndUpdate e d i (set_fields (Some v) (uf_hearts uf)))))"

section \<open>Handlers of users, sessions and the root\<close>

definition get_root :: "db \<Rightarrow> outcome \<times> db" where
  "get_root d = (Responded (json 200 True ApiInfo ''API information retrieved successfully.''), d)"

text \<open>
  \<^verbatim>\<open>POST /users\<close>. \<^verbatim>\<open>bcrypt.hashSync\<close> throws on an absent password, inside the
  \<^verbatim>\<open>try\<close>; the \<^verbatim>\<open>catch\<close> looks at the duplicate key code first.
\<close>

definition post_users ::
  "env \<Rightarrow> db \<Rightarrow> string option \<Rightarrow> string option \<Rightarrow> string option \<Rightarrow> outcome \<times> db" where
  "post_users e d n em pw =
     (case (case pw of None \<Rightarrow> Inl BcryptError | Some p \<Rightarrow> save_user e d n em (hashSync e p)) of
        Inr (u, d') \<Rightarrow>
          (Responded (json 201 True
             (UserInfo (user_id u) (accessToken u) (name u) (Some (email u)))
             ''User created successfully''), d')
      | Inl err \<Rightarrow>
          if err = DuplicateKey then
            (Responded (json 409 False (ErrorObj err)
               ''User with this name or email already exists.''), d)
          else if err = ValidationError then
            (Responded (json 400 False (ErrorObj err) ''Validation failed for user creation.''), d)
          else (Responded (json 500 False (ErrorObj err) ''Failed to create user.''), d))"

definition get_secrets :: "db \<Rightarrow> user \<Rightarrow> outcome \<times> db" where
  "get_secrets d u =
     (Responded (json 200 True
        (Secret (''This is a secret, accessible only to authenticated user: '' @ name u))
        ''Secret retrieved successfully.''), d)"

text \<open>
  \<^verbatim>\<open>POST /sessions\<close>, for a body whose email is a string. \<^verbatim>\<open>bcrypt.compareSync\<close> is
  reached only when a user has the email, and throws on an absent password.
\<close>

definition post_sessions :: "env \<Rightarrow> db \<Rightarrow> string \<Rightarrow> string option \<Rightarrow> outcome \<times> db" where
  "post_sessions e d em pw =
     (case find (\<lambda>u. email u = em) (users d) of
        None \<Rightarrow>
          (Responded (json 401 False Null ''Login failed: Invalid email or password.''), d)
      | Some u \<Rightarrow>
          (case pw of
             None \<Rightarrow>
               (Responded (json 500 False (ErrorObj BcryptError) ''Server error during login.''), d)
           | Some p \<Rightarrow>
               if compareSync e p (password u) then
                 (Responded (json 200 True (UserInfo (user_id u) (accessToken u) (name u) None)
                    ''Login successful.''), d)
               else
                 (Responded (json 401 False Null ''Login failed: Invalid email or password.''), d)))"

section \<open>Handlers of single thoughts\<close>

definition get_thought :: "env \<Rightarrow> db \<Rightarrow> string \<Rightarrow> outcome \<times> db" where
  "get_thought e d i =
     (case findById e d i of
        Inl err \<Rightarrow> (Responded (json 400 False (ErrorObj err) ''Invalid thought ID format.''), d)
      | Inr None \<Rightarrow>
          (Responded (json 404 False Null
             (''Thought with id '' @ [CHR 0x27] @ i @ [CHR 0x27] @ '' not found.'')), d)
      | Inr (Some t) \<Rightarrow>
          (Responded (json 200 True (ThoughtDoc t)
             (''Thought with id '' @ [CHR 0x27] @ i @ [CHR 0x27] @ '' retrieved successfully.'')), d))"

definition post_thoughts :: "env \<Rightarrow> db \<Rightarrow> string option \<Rightarrow> user \<Rightarrow> outcome \<times> db" where
  "post_thoughts e d m u =
     (case save_thought e d m (user_id u) of
        Inr (t, d') \<Rightarrow>
          (Responded (json 201 True (ThoughtDoc t) ''Thought created successfully''), d')
      | Inl err \<Rightarrow>
          if err = ValidationError then
            (Responded (json 400 False (ErrorObj err) ''Validation failed for thought creation.''), d)
          else (Responded (json 500 False (ErrorObj err) ''Failed to create thought.''), d))"

definition delete_thought :: "env \<Rightarrow> db \<Rightarrow> string \<Rightarrow> user \<Rightarrow> outcome \<times> db" where
  "delete_thought e d i u =
     (case findById e d i of
        Inl err \<Rightarrow> (Responded (json 500 False (ErrorObj err) ''Failed to delete thought.''), d)
      | Inr None \<Rightarrow>
          (Responded (json 404 False Null ''Thought could not be found, can't delete.''), d)
      | Inr (Some thoughtToDelete) \<Rightarrow>
          if userId thoughtToDelete \<noteq> user_id u then
            (Responded (json 403 False Null ''You are not authorized to delete this thought.''), d)
          else
            (case findByIdAndDelete e d i of
               Inl err \<Rightarrow>
                 (Responded (json 500 False (ErrorObj err) ''Failed to delete thought.''), d)
             | Inr (deletedThought, d') \<Rightarrow>
                 (Responded (json 200 True
                    (case deletedThought of None \<Rightarrow> Null | Some t \<Rightarrow> ThoughtDoc t)
                    ''Thought was successfully deleted.''), d')))"

definition like_thought :: "env \<Rightarrow> db \<Rightarrow> string \<Rightarrow> outcome \<times> db" where
  "like_thought e d i =
     (case findByIdAndUpdate e d i (\<lambda>t. t\<lparr>hearts := hearts t + 1\<rparr>) of
        Inl err \<Rightarrow>
          (Responded (json 400 False (ErrorObj err)
             ''Failed to like thought due to invalid ID or server error.''), d)
      | Inr (None, d') \<Rightarrow>
          (Responded (json 404 False Null ''Thought could not be found to like.''), d')
      | Inr (Some updatedThought, d') \<Rightarrow>
          (Responded (json 200 True (ThoughtDoc updatedThought) ''Thought successfully liked.''), d'))"

text \<open>
  \<^verbatim>\<open>PATCH /thoughts/:id\<close>, after the middleware. The body's \<^verbatim>\<open>message\<close> is a string or
  absent (\<^verbatim>\<open>undefined\<close>), \<^verbatim>\<open>unlike\<close> is read for its truth value.
\<close>

definition patch_thought ::
  "env \<Rightarrow> db \<Rightarrow> string \<Rightarrow> string option \<Rightarrow> bool \<Rightarrow> user \<Rightarrow> outcome \<times> db" where
  "patch_thought e d i m unlike u =
     (case findById e d i of
        Inl err \<Rightarrow> (Responded (json 500 False (ErrorObj err) ''Could not edit thought.''), d)
      | Inr None \<Rightarrow> (Responded (json 404 False Null ''Thought could not be found.''), d)
      | Inr (Some t) \<Rightarrow>
          if m \<noteq> None \<and> userId t \<noteq> user_id u then
            (Responded (json 403 False Null
               ''You are not authorized to edit this thought's message.''), d)
          else
            let newHearts = (if unlike then max 0 (hearts t - 1) else hearts t);
                updateFields = \<lparr>uf_message = m,
                  uf_hearts = (if unlike \<and> newHearts \<noteq> hearts t then Some newHearts else None)\<rparr>;
                performUpdate = (m \<noteq> None \<or> (unlike \<and> newHearts \<noteq> hearts t))
            in
            if \<not> performUpdate then
              (Responded (json 200 True (ThoughtDoc t)
                 ''No valid update fields provided, thought not modified.''), d)
            else
              (case findByIdAndUpdate_validated e d i updateFields of
                 Inl err \<Rightarrow>
                   if err = ValidationError then
                     (Responded (json 400 False (ErrorObj err)
                        ''Validation failed for thought update.''), d)
                   else (Responded (json 500 False (ErrorObj err) ''Could not edit thought.''), d)
               | Inr (None, d') \<Rightarrow>
                   (Responded (json 404 False Null
                      ''Thought could not be found after update attempt.''), d')
               | Inr (Some updatedThought, d') \<Rightarrow>
                   (Responded (json 200 True (ThoughtDoc updatedThought)
                      ''Thought was successfully updated.''), d')))"

section \<open>The list of thoughts\<close>

subsection \<open>Reading the query string\<close>

text \<open>A query parameter is absent (\<^verbatim>\<open>undefined\<close>) or a string; \<^verbatim>\<open>if (p)\<close> is its truthiness.\<close>

definition truthy :: "string option \<Rightarrow> bool" where
  "truthy p = (case p of None \<Rightarrow> False | Some s \<Rightarrow> s \<noteq> [])"

definition isDigit :: "char \<Rightarrow> bool" where
  "isDigit c = (48 \<le> (of_char c :: nat) \<and> (of_char c :: nat) \<le> 57)"

definition digitsValue :: "string \<Rightarrow> int" where
  "digitsValue z = foldl (\<lambda>a c. 10 * a + (int (of_char c) - 48)) 0 z"

text \<open>
  \<^verbatim>\<open>parseInt(s, 10)\<close>: leading whitespace is skipped, one sign is read, then the longest
  run of decimal digits; \<open>None\<close> is \<^verbatim>\<open>NaN\<close>. The value is exact (no rounding to a double).
\<close>

definition parseInt :: "string \<Rightarrow> int option" where
  "parseInt s =
     (let S = dropWhile isWhiteSpace s;
          neg = (S \<noteq> [] \<and> hd S = CHR ''-'');
          S' = (if S \<noteq> [] \<and> (hd S = CHR ''+'' \<or> hd S = CHR ''-'') then tl S else S);
          Z = takeWhile isDigit S'
      in if Z = [] then None else Some ((if neg then - 1 else 1) * digitsValue Z))"

text \<open>\<^verbatim>\<open>parseInt(p, 10) || dflt\<close>: \<^verbatim>\<open>NaN\<close> and \<open>0\<close> are falsy; an absent \<open>p\<close> parses to \<^verbatim>\<open>NaN\<close>.\<close>

definition parseInt_or :: "string option \<Rightarrow> int \<Rightarrow> int" where
  "parseInt_or p dflt =
     (case (case p of None \<Rightarrow> None | Some s \<Rightarrow> parseInt s) of
        None \<Rightarrow> dflt
      | Some n \<Rightarrow> if n = 0 then dflt else n)"

record query =
  q_hearts :: "string option"
  q_message :: "string option"
  q_page :: "string option"
  q_limit :: "string option"
  q_sort :: "string option"
  q_id :: "string option"

subsection \<open>The store's find\<close>

text \<open>The filter document \<^verbatim>\<open>query\<close>: \<^verbatim>\<open>_id\<close>, \<^verbatim>\<open>hearts: {$gte}\<close>, \<^verbatim>\<open>message: {$regex}\<close>.\<close>

record filter =
  f_id :: "string option"
  f_hearts :: "int option"
  f_message :: "(string \<Rightarrow> bool) option"

datatype sortOptions = NoSort | CreatedAtDesc | CreatedAtAsc | HeartsDesc

definition matches :: "string option \<Rightarrow> filter \<Rightarrow> thought \<Rightarrow> bool" where
  "matches oid f t =
     ((case oid of None \<Rightarrow> True | Some i \<Rightarrow> thought_id t = i) \<and>
      (case f_hearts f of None \<Rightarrow> True | Some n \<Rightarrow> n \<le> hearts t) \<and>
      (case f_message f of None \<Rightarrow> True | Some rx \<Rightarrow> rx (message t)))"

text \<open>Casting the filter: a malformed \<^verbatim>\<open>_id\<close> throws before the store is asked.\<close>

definition cast_filter :: "env \<Rightarrow> filter \<Rightarrow> store_error + string option" where
  "cast_filter e f =
     (case f_id f of
        None \<Rightarrow> Inr None
      | Some i \<Rightarrow> (case castObjectId e i of None \<Rightarrow> Inl CastError | Some oid \<Rightarrow> Inr (Some oid)))"

definition countDocuments :: "env \<Rightarrow> db \<Rightarrow> filter \<Rightarrow> store_error + nat" where
  "countDocuments e d f =
     (case cast_filter e f of
        Inl err \<Rightarrow> Inl err
      | Inr oid \<Rightarrow> Inr (length (filter (matches oid f) (thoughts d))))"

text \<open>
  Sorting is stable on the storage order, which is also the order without a sort
  specification.
\<close>

definition sort_by :: "sortOptions \<Rightarrow> thought list \<Rightarrow> thought list" where
  "sort_by so ts =
     (case so of
        NoSort \<Rightarrow> ts
      | CreatedAtDesc \<Rightarrow> sort_key (\<lambda>t. - createdAt t) ts
      | CreatedAtAsc \<Rightarrow> sort_key createdAt ts
      | HeartsDesc \<Rightarrow> sort_key (\<lambda>t. - hearts t) ts)"

text \<open>
  \<^verbatim>\<open>Thought.find(query).sort(sortOptions).skip(startIndex).limit(limitNum)\<close>. The store
  refuses a negative skip; a negative limit is sent as its absolute value.
\<close>

definition find_page ::
  "env \<Rightarrow> db \<Rightarrow> filter \<Rightarrow> sortOptions \<Rightarrow> int \<Rightarrow> int \<Rightarrow> store_error + thought list" where
  "find_page e d f so startIndex limitNum =
     (case cast_filter e f of
        Inl err \<Rightarrow> Inl err
      | Inr oid \<Rightarrow>
          if startIndex < 0 then Inl SkipError
          else Inr (take (nat \<bar>limitNum\<bar>)
                      (drop (nat startIndex) (sort_by so (filter (matches oid f) (thoughts d))))))"

subsection \<open>GET /thoughts\<close>

definition invalid_hearts_reply :: reply where
  "invalid_hearts_reply = json 400 False Null ''Invalid 'hearts' parameter. Must be a number.''"

definition invalid_sort_reply :: reply where
  "invalid_sort_reply = json 400 False Null
     ''Invalid 'sort' parameter. Valid options are 'createdAt_desc', 'createdAt_asc', or 'hearts'.''"

text \<open>The sort options of \<^verbatim>\<open>src/unnamed/part_001\<close>; \<open>None\<close> is the early 400 return.\<close>

definition sort_options :: "string option \<Rightarrow> sortOptions option" where
  "sort_options s =
     (if truthy s then
        (if s = Some ''createdAt_desc'' \<or> s = Some ''createdAt'' then Some CreatedAtDesc
         else if s = Some ''createdAt_asc'' then Some CreatedAtAsc
         else if s = Some ''hearts'' then Some HeartsDesc
         else None)
      else Some NoSort)"

text \<open>
  What follows the sort handling: the page arithmetic and the two store calls inside
  the \<^verbatim>\<open>try\<close>, the same text in \<^verbatim>\<open>src/unnamed/part_001\<close> and \<^verbatim>\<open>src/server.js\<close>.
\<close>

definition respond_page :: "env \<Rightarrow> db \<Rightarrow> query \<Rightarrow> filter \<Rightarrow> sortOptions \<Rightarrow> outcome \<times> db" where
  "respond_page e d q f so =
     (let pageNum = parseInt_or (q_page q) 1;
          limitNum = parseInt_or (q_limit q) 10;
          startIndex = (pageNum - 1) * limitNum
      in
      (case countDocuments e d f of
         Inl err \<Rightarrow> (Responded (json 500 False (ErrorObj err) ''Failed to retrieve thoughts.''), d)
       | Inr totalCount \<Rightarrow>
           (case find_page e d f so startIndex limitNum of
              Inl err \<Rightarrow>
                (Responded (json 500 False (ErrorObj err) ''Failed to retrieve thoughts.''), d)
            | Inr ts \<Rightarrow>
                (Responded (json 200 True
                   (ThoughtPage \<lparr>totalResults = totalCount, currentPage = pageNum,
                                 resultsPerPage = length ts, page_thoughts = ts\<rparr>)
                   ''Thoughts retrieved successfully.''), d))))"

text \<open>
  \<^verbatim>\<open>app.get("/thoughts")\<close> of \<^verbatim>\<open>src/unnamed/part_001\<close>. \<^verbatim>\<open>new RegExp\<close> is called
  before the \<^verbatim>\<open>try\<close>.
\<close>

definition get_thoughts :: "env \<Rightarrow> db \<Rightarrow> query \<Rightarrow> outcome \<times> db" where
  "get_thoughts e d q =
     (let f0 = \<lparr>f_id = (if truthy (q_id q) then q_id q else None),
                f_hearts = None, f_message = None\<rparr>
      in
      if truthy (q_hearts q) \<and> parseInt (the (q_hearts q)) = None then
        (Responded invalid_hearts_reply, d)
      else
        let f1 = (if truthy (q_hearts q) then f0\<lparr>f_hearts := parseInt (the (q_hearts q))\<rparr> else f0)
        in
        if truthy (q_message q) \<and> newRegExp e (the (q_message q)) = None then (Unhandled, d)
        else
          let f2 = (if truthy (q_message q) then f1\<lparr>f_message := newRegExp e (the (q_message q))\<rparr>
                    else f1)
          in
          (case sort_options (q_sort q) of
             None \<Rightarrow> (Responded invalid_sort_reply, d)
           | Some so \<Rightarrow> respond_page e d q f2 so))"

subsection \<open>GET /thoughts of src/server.js\<close>

text \<open>
  The handler of \<^verbatim>\<open>src/server.js\<close> has no \<^verbatim>\<open>id\<close> filter and two sort values; a
  \<^verbatim>\<open>q_id\<close> in the query is not read.
\<close>

definition invalid_sort_reply_server :: reply where
  "invalid_sort_reply_server = json 400 False Null
     ''Invalid 'sort' parameter. Valid options are 'createdAt' or 'hearts'.''"

definition sort_options_server :: "string option \<Rightarrow> sortOptions option" where
  "sort_options_server s =
     (if truthy s then
        (if s = Some ''createdAt'' then Some CreatedAtDesc
         else if s = Some ''hearts'' then Some HeartsDesc
         else None)
      else Some NoSort)"

definition get_thoughts_server :: "env \<Rightarrow> db \<Rightarrow> query \<Rightarrow> outcome \<times> db" where
  "get_thoughts_server e d q =
     (let f0 = \<lparr>f_id = None, f_hearts = None, f_message = None\<rparr>
      in
      if truthy (q_hearts q) \<and> parseInt (the (q_hearts q)) = None then
        (Responded invalid_hearts_reply, d)
      else
        let f1 = (if truthy (q_hearts q) then f0\<lparr>f_hearts := parseInt (the (q_hearts q))\<rparr> else f0)
        in
        if truthy (q_message q) \<and> newRegExp e (the (q_message q)) = None then (Unhandled, d)
        else
          let f2 = (if truthy (q_message q) then f1\<lparr>f_message := newRegExp e (the (q_message q))\<rparr>
                    else f1)
          in
          (case sort_options_server (q_sort q) of
             None \<Rightarrow> (Responded invalid_sort_reply_server, d)
           | Some so \<Rightarrow> respond_page e d q f2 so))"

subsection \<open>GET /thoughts of src/unnamed/part_000\<close>

text \<open>
  The oldest handler works on the array \<^verbatim>\<open>thoughtData\<close> read from the seed file and
  answers without the envelope: \<^verbatim>\<open>{error: msg}\<close> with status 400, or the page.
\<close>

datatype legacy_reply = LegacyError nat string | LegacyPage page

definition toLowerCase :: "string \<Rightarrow> string" where
  "toLowerCase s =
     map (\<lambda>c. if 65 \<le> (of_char c :: nat) \<and> (of_char c :: nat) \<le> 90
               then char_of ((of_char c :: nat) + 32) else c) s"

fun includes_str :: "string \<Rightarrow> string \<Rightarrow> bool" where
  "includes_str [] p = (p = [])"
| "includes_str (c # cs) p = (startsWith (c # cs) p \<or> includes_str cs p)"

text \<open>
  \<^verbatim>\<open>xs.slice(start, end)\<close>: a negative index counts from the end, both are clamped to
  the array.
\<close>

definition slice :: "'a list \<Rightarrow> int \<Rightarrow> int \<Rightarrow> 'a list" where
  "slice xs start finish =
     (let len = int (length xs);
          k = (if start < 0 then max (len + start) 0 else min start len);
          final = (if finish < 0 then max (len + finish) 0 else min finish len)
      in take (nat (max (final - k) 0)) (drop (nat k) xs))"

definition get_thoughts_legacy :: "thought list \<Rightarrow> query \<Rightarrow> legacy_reply" where
  "get_thoughts_legacy thoughtData q =
     (if truthy (q_hearts q) \<and> parseInt (the (q_hearts q)) = None then
        LegacyError 400 ''Invalid hearts parameter. Must be a number''
      else
        let filtered1 = (if truthy (q_hearts q)
                         then filter (\<lambda>t. the (parseInt (the (q_hearts q))) \<le> hearts t) thoughtData
                         else thoughtData);
            filtered2 = (if truthy (q_message q)
                         then filter (\<lambda>t. includes_str (toLowerCase (message t))
                                                     (toLowerCase (the (q_message q)))) filtered1
                         else filtered1)
        in
        if truthy (q_sort q) \<and> q_sort q \<noteq> Some ''createdAt'' \<and> q_sort q \<noteq> Some ''hearts'' then
          LegacyError 400 ''Invalid 'sort' parameter. Valid options are 'createdAt' or 'hearts'.''
        else
          let filteredThoughts =
                (if q_sort q = Some ''createdAt'' then sort_key (\<lambda>t. - createdAt t) filtered2
                 else if q_sort q = Some ''hearts'' then sort_key (\<lambda>t. - hearts t) filtered2
                 else filtered2);
              pageNum = parseInt_or (q_page q) 1;
              limitNum = parseInt_or (q_limit q) 10;
              startIndex = (pageNum - 1) * limitNum;
              endIndex = pageNum * limitNum;
              paginatedThoughts = slice filteredThoughts startIndex endIndex
          in LegacyPage \<lparr>totalResults = length filteredThoughts, currentPage = pageNum,
                          resultsPerPage = length paginatedThoughts,
                          page_thoughts = paginatedThoughts\<rparr>)"

section \<open>The application\<close>

datatype request =
    GetRoot
  | PostUsers "string option" "string option" "string option"
  | GetSecrets "string option"
  | PostSessions string "string option"
  | GetThoughts query
  | GetThought string
  | PostThoughts "string option" "string option"
  | DeleteThought "string option" string
  | LikeThought string
  | PatchThought "string option" string "string option" bool

text \<open>
  The routes of \<^verbatim>\<open>src/unnamed/part_001\<close>. The first argument of a protected route is
  the Authorization header.
\<close>

fun handle :: "env \<Rightarrow> db \<Rightarrow> request \<Rightarrow> outcome \<times> db" where
  "handle e d GetRoot = get_root d"
| "handle e d (PostUsers n em pw) = post_users e d n em pw"
| "handle e d (GetSecrets h) = protected d h (get_secrets d)"
| "handle e d (PostSessions em pw) = post_sessions e d em pw"
| "handle e d (GetThoughts q) = get_thoughts e d q"
| "handle e d (GetThought i) = get_thought e d i"
| "handle e d (PostThoughts h m) = protected d h (post_thoughts e d m)"
| "handle e d (DeleteThought h i) = protected d h (delete_thought e d i)"
| "handle e d (LikeThought i) = like_thought e d i"
| "handle e d (PatchThought h i m unlike) = protected d h (patch_thought e d i m unlike)"

section \<open>The page window of the specification\<close>

text \<open>
  The specification's words, to compare the handlers with: the window of page \<open>p\<close> with
  limit \<open>l\<close> holds the records at the indices \<open>i\<close> with \<open>(p - 1) * l \<le> i < p * l\<close>, in
  their order.
\<close>

definition spec_window :: "int \<Rightarrow> int \<Rightarrow> 'a list \<Rightarrow> 'a list" where
  "spec_window p l xs =
     map (\<lambda>i. xs ! i) (filter (\<lambda>i. (p - 1) * l \<le> int i \<and> int i < p * l) [0..<length xs])"

text \<open>
  The specification's words for the records that a query selects: the identifier is
  the one asked for, the heart count is at least the value of \<^verbatim>\<open>hearts\<close>, the message
  matches the pattern (in \<^verbatim>\<open>src/unnamed/part_000\<close>: contains the text, whatever the
  case of the letters). A parameter that is absent or empty selects nothing out.
\<close>

definition spec_matches :: "env \<Rightarrow> query \<Rightarrow> thought \<Rightarrow> bool" where
  "spec_matches e q t =
     ((if truthy (q_id q) then castObjectId e (the (q_id q)) = Some (thought_id t) else True) \<and>
      (if truthy (q_hearts q)
       then (case parseInt (the (q_hearts q)) of None \<Rightarrow> False | Some n \<Rightarrow> n \<le> hearts t)
       else True) \<and>
      (if truthy (q_message q)
       then (case newRegExp e (the (q_message q)) of None \<Rightarrow> False | Some rx \<Rightarrow> rx (message t))
       else True))"

definition spec_matches_legacy :: "query \<Rightarrow> thought \<Rightarrow> bool" where
  "spec_matches_legacy q t =
     ((if truthy (q_hearts q)
       then (case parseInt (the (q_hearts q)) of None \<Rightarrow> False | Some n \<Rightarrow> n \<le> hearts t)
       else True) \<and>
      (if truthy (q_message q)
       then includes_str (toLowerCase (message t)) (toLowerCase (the (q_message q)))
       else True))"

text \<open>
  The specification's words for the order: \<^verbatim>\<open>createdAt\<close> and \<^verbatim>\<open>createdAt_desc\<close> newest
  first, \<^verbatim>\<open>createdAt_asc\<close> oldest first, \<^verbatim>\<open>hearts\<close> highest heart count first.
\<close>

definition spec_ordered :: "string option \<Rightarrow> thought list \<Rightarrow> bool" where
  "spec_ordered s ts =
     (if s = Some ''createdAt'' \<or> s = Some ''createdAt_desc''
      then sorted_wrt (\<lambda>a b. createdAt b \<le> createdAt a) ts
      else if s = Some ''createdAt_asc'' then sorted_wrt (\<lambda>a b. createdAt a \<le> createdAt b) ts
      else if s = Some ''hearts'' then sorted_wrt (\<lambda>a b. hearts b \<le> hearts a) ts
      else True)"

section \<open>A small store for concrete runs\<close>

text \<open>
  Ids are two characters long here, the pattern \<^verbatim>\<open>(\<close> does not compile, and every other
  pattern matches as a case-insensitive substring.
\<close>

definition env0 :: env where
  "env0 = \<lparr>castObjectId = (\<lambda>s. if length s = 2 then Some s else None),
           newRegExp = (\<lambda>p. if p = ''('' then None
                             else Some (\<lambda>s. includes_str (toLowerCase s) (toLowerCase p))),
           hashSync = (\<lambda>p. ''#'' @ p),
           compareSync = (\<lambda>p h. h = ''#'' @ p),
           newObjectId = ''t9'', randomBytesHex = ''c0ffee'', newDate = 100\<rparr>"

definition alice :: user where
  "alice = \<lparr>user_id = ''u1'', name = ''alice'', email = ''a@x.com'',
            password = ''#secret123'', accessToken = ''abc''\<rparr>"

definition bob :: user where
  "bob = \<lparr>user_id = ''u2'', name = ''bob'', email = ''b@x.com'',
          password = ''#hunter2'', accessToken = ''def''\<rparr>"

definition t1 :: thought where
  "t1 = \<lparr>thought_id = ''t1'', message = ''hello world'', hearts = 0, createdAt = 10,
         userId = ''u1''\<rparr>"

definition t2 :: thought where
  "t2 = \<lparr>thought_id = ''t2'', message = ''Happy days'', hearts = 3, createdAt = 20,
         userId = ''u2''\<rparr>"

definition db0 :: db where
  "db0 = \<lparr>users = [alice, bob], thoughts = [t1, t2]\<rparr>"

text \<open>The query string without parameters.\<close>

definition q0 :: query where
  "q0 = \<lparr>q_hearts = None, q_message = None, q_page = None, q_limit = None, q_sort = None,
          q_id = None\<rparr>"

section \<open>The middleware\<close>

lemma authenticateUser_Inl:
  "authenticateUser d h = Inl r \<Longrightarrow> r = no_token_reply \<or> r = bad_token_reply"
  by (auto simp: authenticateUser_def split: option.splits if_splits)

lemma authenticateUser_status: "authenticateUser d h = Inl r \<Longrightarrow> status r = 401 \<and> \<not> success r"
  by (auto dest!: authenticateUser_Inl simp: no_token_reply_def bad_token_reply_def json_def)

lemma find_None_set: "(find P xs = None) = (\<forall>x\<in>set xs. \<not> P x)"
  by (induction xs) auto

lemma find_Some_set: "find P xs = Some x \<Longrightarrow> x \<in> set xs \<and> P x"
  by (induction xs) (auto split: if_splits)

lemma header_token_abc: "header_token (Some ''Bearer abc'') = Some ''abc''"
  by (simp add: header_token_def)

lemma header_token_zzz: "header_token (Some ''Bearer zzz'') = Some ''zzz''"
  by (simp add: header_token_def)

text \<open>
  C2. On a protected route: without an Authorization header the middleware answers 401
  \<^verbatim>\<open>{success: false, response: null, message: "Unauthorized: No access token provided."}\<close>
  and the handler is not run; with a token that no user has as its access token it
  answers 401 "Unauthorized: Access token invalid or missing."; with a token that a user
  has, that user is attached and the handler is run with it.
\<close>

theorem authenticateUser_contract:
  "protected d None handler =
     (Responded (json 401 False Null ''Unauthorized: No access token provided.''), d) \<and>
   (header_token (Some h) = Some tok \<and> tok \<noteq> [] \<and> (\<forall>u\<in>set (users d). accessToken u \<noteq> tok) \<longrightarrow>
      protected d (Some h) handler =
        (Responded (json 401 False Null ''Unauthorized: Access token invalid or missing.''), d)) \<and>
   (header_token (Some h) = Some tok \<and> tok \<noteq> [] \<and> (\<exists>u\<in>set (users d). accessToken u = tok) \<longrightarrow>
      (\<exists>u\<in>set (users d). accessToken u = tok \<and> authenticateUser d (Some h) = Inr u \<and>
         protected d (Some h) handler = handler u))"
proof (intro conjI impI)
  show "protected d None handler =
     (Responded (json 401 False Null ''Unauthorized: No access token provided.''), d)"
    by (simp add: protected_def authenticateUser_def header_token_def no_token_reply_def)
next
  assume a: "header_token (Some h) = Some tok \<and> tok \<noteq> [] \<and>
    (\<forall>u\<in>set (users d). accessToken u \<noteq> tok)"
  then have "find (\<lambda>u. accessToken u = tok) (users d) = None"
    by (simp add: find_None_set)
  with a show "protected d (Some h) handler =
        (Responded (json 401 False Null ''Unauthorized: Access token invalid or missing.''), d)"
    by (simp add: protected_def authenticateUser_def bad_token_reply_def)
next
  assume a: "header_token (Some h) = Some tok \<and> tok \<noteq> [] \<and>
    (\<exists>u\<in>set (users d). accessToken u = tok)"
  then obtain u where u: "find (\<lambda>u. accessToken u = tok) (users d) = Some u"
    by (cases "find (\<lambda>u. accessToken u = tok) (users d)") (auto simp: find_None_set)
  from u have "u \<in> set (users d) \<and> accessToken u = tok" by (rule find_Some_set)
  moreover from a u have "authenticateUser d (Some h) = Inr u"
    by (simp add: authenticateUser_def)
  ultimately show "\<exists>u\<in>set (users d). accessToken u = tok \<and>
         authenticateUser d (Some h) = Inr u \<and> protected d (Some h) handler = handler u"
    by (auto simp: protected_def)
qed

theorem authenticateUser_contract_witness:
  "protected db0 None (get_secrets db0) = (Responded no_token_reply, db0) \<and>
   protected db0 (Some ''Bearer zzz'') (get_secrets db0) = (Responded bad_token_reply, db0) \<and>
   protected db0 (Some ''Bearer abc'') (get_secrets db0) = get_secrets db0 alice"
  using authenticateUser_contract [of db0 "get_secrets db0" "''Bearer zzz''" "''zzz''"]
        authenticateUser_contract [of db0 "get_secrets db0" "''Bearer abc''" "''abc''"]
  by (simp add: header_token_abc header_token_zzz db0_def alice_def bob_def
        no_token_reply_def bad_token_reply_def)


section \<open>Store lemmas\<close>

lemma find_update_first:
  "(\<And>x. P x \<Longrightarrow> P (f x)) \<Longrightarrow> find P (update_first P f xs) = map_option f (find P xs)"
  by (induction xs) auto

lemma set_update_first:
  "x \<in> set (update_first P f xs) \<Longrightarrow> x \<in> set xs \<or> (\<exists>y\<in>set xs. P y \<and> x = f y)"
  by (induction xs) (auto split: if_splits)

lemma set_remove_first: "x \<in> set (remove_first P xs) \<Longrightarrow> x \<in> set xs"
  by (induction xs) (auto split: if_splits)

lemma findById_SomeD:
  "findById e d i = Inr (Some t) \<Longrightarrow>
     \<exists>oid. castObjectId e i = Some oid \<and> find (has_id oid) (thoughts d) = Some t \<and> thought_id t = oid"
proof -
  assume a: "findById e d i = Inr (Some t)"
  then obtain oid where o: "castObjectId e i = Some oid" "find (has_id oid) (thoughts d) = Some t"
    by (auto simp: findById_def split: option.splits)
  from o(2) have "has_id oid t" by (simp add: find_Some_set)
  with o show ?thesis by (simp add: has_id_def)
qed

section \<open>The token of a header without the scheme\<close>

lemma replace_no_occurrence: "p \<noteq> [] \<Longrightarrow> \<not> includes_str s p \<Longrightarrow> replace s p r = s"
  by (induction s) auto

text \<open>
  C10, as amended. When the Authorization header does not contain \<^verbatim>\<open>"Bearer "\<close> anywhere,
  the middleware takes the whole header value as the token, so a bare access token
  that a user has authenticates as that user. (Where \<^verbatim>\<open>"Bearer "\<close> occurs, at the front or
  not, \<^verbatim>\<open>replace\<close> removes its first occurrence.)
\<close>

theorem bare_token:
  "\<not> includes_str h ''Bearer '' \<longrightarrow>
     header_token (Some h) = Some h \<and>
     (h \<noteq> [] \<and> find (\<lambda>u. accessToken u = h) (users d) = Some u \<longrightarrow>
        authenticateUser d (Some h) = Inr u \<and> protected d (Some h) handler = handler u)"
  by (simp add: header_token_def authenticateUser_def protected_def replace_no_occurrence)

theorem bare_token_witness:
  "\<not> includes_str ''abc'' ''Bearer '' \<and> header_token (Some ''abc'') = Some ''abc'' \<and>
   authenticateUser db0 (Some ''abc'') = Inr alice \<and>
   protected db0 (Some ''abc'') (get_secrets db0) = get_secrets db0 alice"
  using bare_token [of "''abc''" db0 alice "get_secrets db0"]
  by (simp add: db0_def alice_def bob_def)

text \<open>
  C10 as stated fails: the header \<^verbatim>\<open>aBearer bc\<close> does not begin with \<^verbatim>\<open>"Bearer "\<close>, yet
  the token looked up is \<^verbatim>\<open>abc\<close>, not the header value, and the request authenticates.
\<close>

theorem header_not_entire_counterexample:
  "\<not> startsWith ''aBearer bc'' ''Bearer '' \<and>
   header_token (Some ''aBearer bc'') = Some ''abc'' \<and>
   authenticateUser db0 (Some ''aBearer bc'') = Inr alice \<and>
   accessToken alice \<noteq> ''aBearer bc''"
  by (simp add: header_token_def authenticateUser_def db0_def alice_def bob_def)

section \<open>Ownership\<close>

lemma delete_not_owner:
  "findById e d i = Inr (Some t) \<Longrightarrow> user_id u \<noteq> userId t \<Longrightarrow>
   delete_thought e d i u =
     (Responded (json 403 False Null ''You are not authorized to delete this thought.''), d)"
  by (auto simp: delete_thought_def)

lemma delete_owner:
  "findById e d i = Inr (Some t) \<Longrightarrow> user_id u = userId t \<Longrightarrow>
   delete_thought e d i u =
     (Responded (json 200 True (ThoughtDoc t) ''Thought was successfully deleted.''),
      d\<lparr>thoughts := remove_first (has_id (thought_id t)) (thoughts d)\<rparr>)"
  by (auto simp: delete_thought_def findByIdAndDelete_def dest!: findById_SomeD)

lemma patch_not_owner:
  "findById e d i = Inr (Some t) \<Longrightarrow> user_id u \<noteq> userId t \<Longrightarrow>
   patch_thought e d i (Some m) unlike u =
     (Responded (json 403 False Null ''You are not authorized to edit this thought's message.''), d)"
  by (auto simp: patch_thought_def)

lemma protected_Inl: "authenticateUser d h = Inl r \<Longrightarrow> protected d h handler = (Responded r, d)"
  by (simp add: protected_def)

lemma protected_Inr: "authenticateUser d h = Inr u \<Longrightarrow> protected d h handler = handler u"
  by (simp add: protected_def)

text \<open>
  C1. For a stored thought \<open>t\<close>: a caller without a valid token gets the 401 of the
  middleware on DELETE and on PATCH, and the handler with its ownership check is not
  run; an authenticated caller who is not the owner gets 403 on DELETE and on a
  PATCH that carries a message, and the store is unchanged; DELETE and a PATCH with a
  message succeed only for the owner; the owner's DELETE removes the thought.
\<close>

theorem owner_only:
  assumes t: "findById e d i = Inr (Some t)"
  shows "(authenticateUser d h = Inl r \<longrightarrow>
            status r = 401 \<and> handle e d (DeleteThought h i) = (Responded r, d) \<and>
            handle e d (PatchThought h i (Some m) unlike) = (Responded r, d)) \<and>
         (authenticateUser d h = Inr u \<and> user_id u \<noteq> userId t \<longrightarrow>
            handle e d (DeleteThought h i) =
              (Responded (json 403 False Null ''You are not authorized to delete this thought.''), d) \<and>
            handle e d (PatchThought h i (Some m) unlike) =
              (Responded (json 403 False Null
                 ''You are not authorized to edit this thought's message.''), d)) \<and>
         (authenticateUser d h = Inr u \<and> succeeded (fst (handle e d (DeleteThought h i))) \<longrightarrow>
            user_id u = userId t) \<and>
         (authenticateUser d h = Inr u \<and>
            succeeded (fst (handle e d (PatchThought h i (Some m) unlike))) \<longrightarrow>
            user_id u = userId t) \<and>
         (authenticateUser d h = Inr u \<and> user_id u = userId t \<longrightarrow>
            handle e d (DeleteThought h i) =
              (Responded (json 200 True (ThoughtDoc t) ''Thought was successfully deleted.''),
               d\<lparr>thoughts := remove_first (has_id (thought_id t)) (thoughts d)\<rparr>))"
proof -
  have c1: "authenticateUser d h = Inl r \<longrightarrow>
            status r = 401 \<and> handle e d (DeleteThought h i) = (Responded r, d) \<and>
            handle e d (PatchThought h i (Some m) unlike) = (Responded r, d)"
    by (simp add: protected_Inl authenticateUser_status)
  have c2: "authenticateUser d h = Inr u \<and> user_id u \<noteq> userId t \<longrightarrow>
            handle e d (DeleteThought h i) =
              (Responded (json 403 False Null ''You are not authorized to delete this thought.''), d) \<and>
            handle e d (PatchThought h i (Some m) unlike) =
              (Responded (json 403 False Null
                 ''You are not authorized to edit this thought's message.''), d)"
    using t by (simp add: protected_Inr delete_not_owner patch_not_owner)
  have c3: "authenticateUser d h = Inr u \<and> succeeded (fst (handle e d (DeleteThought h i))) \<longrightarrow>
            user_id u = userId t"
  proof (cases "user_id u = userId t")
    case False
    with t show ?thesis
      by (simp add: protected_Inr delete_not_owner succeeded_def json_def)
  qed simp
  have c4: "authenticateUser d h = Inr u \<and>
            succeeded (fst (handle e d (PatchThought h i (Some m) unlike))) \<longrightarrow>
            user_id u = userId t"
  proof (cases "user_id u = userId t")
    case False
    with t show ?thesis
      by (simp add: protected_Inr patch_not_owner succeeded_def json_def)
  qed simp
  have c5: "authenticateUser d h = Inr u \<and> user_id u = userId t \<longrightarrow>
            handle e d (DeleteThought h i) =
              (Responded (json 200 True (ThoughtDoc t) ''Thought was successfully deleted.''),
               d\<lparr>thoughts := remove_first (has_id (thought_id t)) (thoughts d)\<rparr>)"
    using t by (simp add: protected_Inr delete_owner)
  show ?thesis by (intro conjI c1 c2 c3 c4 c5)
qed

lemma findById_t1: "findById env0 db0 ''t1'' = Inr (Some t1)"
  by (simp add: findById_def env0_def db0_def has_id_def t1_def)

lemma auth_alice: "authenticateUser db0 (Some ''Bearer abc'') = Inr alice"
  by (simp add: authenticateUser_def header_token_def db0_def alice_def)

lemma auth_bob: "authenticateUser db0 (Some ''Bearer def'') = Inr bob"
  by (simp add: authenticateUser_def header_token_def db0_def alice_def bob_def)

lemma auth_none: "authenticateUser db0 None = Inl no_token_reply"
  by (simp add: authenticateUser_def header_token_def)


lemma bob_not_owner: "user_id bob \<noteq> userId t1"
  by (simp add: bob_def t1_def)

lemma alice_owner: "user_id alice = userId t1"
  by (simp add: alice_def t1_def)

lemma remove_t1: "db0\<lparr>thoughts := remove_first (has_id (thought_id t1)) (thoughts db0)\<rparr> =
   \<lparr>users = [alice, bob], thoughts = [t2]\<rparr>"
  by (simp add: db0_def has_id_def)

theorem owner_only_witness:
  "findById env0 db0 ''t1'' = Inr (Some t1) \<and>
   handle env0 db0 (DeleteThought None ''t1'') = (Responded no_token_reply, db0) \<and>
   handle env0 db0 (PatchThought None ''t1'' (Some ''new message'') False) =
     (Responded no_token_reply, db0) \<and>
   handle env0 db0 (DeleteThought (Some ''Bearer def'') ''t1'') =
     (Responded (json 403 False Null ''You are not authorized to delete this thought.''), db0) \<and>
   handle env0 db0 (PatchThought (Some ''Bearer def'') ''t1'' (Some ''new message'') False) =
     (Responded (json 403 False Null
        ''You are not authorized to edit this thought's message.''), db0) \<and>
   handle env0 db0 (DeleteThought (Some ''Bearer abc'') ''t1'') =
     (Responded (json 200 True (ThoughtDoc t1) ''Thought was successfully deleted.''),
      \<lparr>users = [alice, bob], thoughts = [t2]\<rparr>)"
proof -
  note w = owner_only [OF findById_t1]
  have a: "handle env0 db0 (DeleteThought None ''t1'') = (Responded no_token_reply, db0) \<and>
     handle env0 db0 (PatchThought None ''t1'' (Some ''new message'') False) =
       (Responded no_token_reply, db0)"
    using w [THEN conjunct1, of None no_token_reply "''new message''" False] auth_none by blast
  have b: "handle env0 db0 (DeleteThought (Some ''Bearer def'') ''t1'') =
       (Responded (json 403 False Null ''You are not authorized to delete this thought.''), db0) \<and>
     handle env0 db0 (PatchThought (Some ''Bearer def'') ''t1'' (Some ''new message'') False) =
       (Responded (json 403 False Null
          ''You are not authorized to edit this thought's message.''), db0)"
    using w [THEN conjunct2, THEN conjunct1, of "Some ''Bearer def''" bob "''new message''" False]
      auth_bob bob_not_owner by blast
  have c: "handle env0 db0 (DeleteThought (Some ''Bearer abc'') ''t1'') =
     (Responded (json 200 True (ThoughtDoc t1) ''Thought was successfully deleted.''),
      \<lparr>users = [alice, bob], thoughts = [t2]\<rparr>)"
    using w [THEN conjunct2, THEN conjunct2, THEN conjunct2, THEN conjunct2,
          of "Some ''Bearer abc''" alice] auth_alice alice_owner remove_t1 by simp
  from a b c findById_t1 show ?thesis by blast
qed


section \<open>Likes and unlikes\<close>

lemma findByIdAndUpdate_Some:
  assumes t: "findById e d i = Inr (Some t)" and f: "\<And>x. thought_id (f x) = thought_id x"
  shows "\<exists>d'. findByIdAndUpdate e d i f = Inr (Some (f t), d') \<and> users d' = users d \<and>
           findById e d' i = Inr (Some (f t))"
proof -
  from t obtain oid where o: "castObjectId e i = Some oid"
      "find (has_id oid) (thoughts d) = Some t"
    using findById_SomeD by blast
  have "\<And>x. has_id oid x \<Longrightarrow> has_id oid (f x)"
    by (simp add: has_id_def f)
  then have "find (has_id oid) (update_first (has_id oid) f (thoughts d)) = Some (f t)"
    using o(2) by (simp add: find_update_first)
  with o show ?thesis
    by (simp add: findByIdAndUpdate_def findById_def)
qed

lemma like_thought_Some:
  assumes t: "findById e d i = Inr (Some t)"
  shows "\<exists>d'. like_thought e d i =
           (Responded (json 200 True (ThoughtDoc (t\<lparr>hearts := hearts t + 1\<rparr>))
              ''Thought successfully liked.''), d') \<and>
         findById e d' i = Inr (Some (t\<lparr>hearts := hearts t + 1\<rparr>))"
proof -
  from findByIdAndUpdate_Some [OF t, of "\<lambda>t. t\<lparr>hearts := hearts t + 1\<rparr>"]
  obtain d' where "findByIdAndUpdate e d i (\<lambda>t. t\<lparr>hearts := hearts t + 1\<rparr>) =
      Inr (Some (t\<lparr>hearts := hearts t + 1\<rparr>), d')"
    "findById e d' i = Inr (Some (t\<lparr>hearts := hearts t + 1\<rparr>))"
    by auto
  then show ?thesis by (simp add: like_thought_def)
qed

lemma set_fields_id: "thought_id (set_fields m h x) = thought_id x"
  by (simp add: set_fields_def split: option.splits)

lemma patch_thought_found:
  assumes "findById e d i = Inr (Some t)"
  shows "patch_thought e d i m unlike u =
     (if m \<noteq> None \<and> userId t \<noteq> user_id u then
        (Responded (json 403 False Null
           ''You are not authorized to edit this thought's message.''), d)
      else if m = None \<and> \<not> (unlike \<and> max 0 (hearts t - 1) \<noteq> hearts t) then
        (Responded (json 200 True (ThoughtDoc t)
           ''No valid update fields provided, thought not modified.''), d)
      else
        (case findByIdAndUpdate_validated e d i
                \<lparr>uf_message = m,
                  uf_hearts = (if unlike \<and> max 0 (hearts t - 1) \<noteq> hearts t
                               then Some (max 0 (hearts t - 1)) else None)\<rparr> of
           Inl err \<Rightarrow>
             if err = ValidationError then
               (Responded (json 400 False (ErrorObj err)
                  ''Validation failed for thought update.''), d)
             else (Responded (json 500 False (ErrorObj err) ''Could not edit thought.''), d)
         | Inr (None, d') \<Rightarrow>
             (Responded (json 404 False Null
                ''Thought could not be found after update attempt.''), d')
         | Inr (Some updatedThought, d') \<Rightarrow>
             (Responded (json 200 True (ThoughtDoc updatedThought)
                ''Thought was successfully updated.''), d')))"
  using assms by (cases unlike; cases m) (simp_all add: patch_thought_def Let_def)

text \<open>What a PATCH does to a thought that passes the ownership and validation checks.\<close>

lemma patch_thought_result:
  assumes t: "findById e d i = Inr (Some t)"
    and own: "m = None \<or> user_id u = userId t"
    and val: "m = None \<or> validate_message m = Inr v"
  shows "\<exists>d'. patch_thought e d i m unlike u =
           (Responded (json 200 True
              (ThoughtDoc (t\<lparr>message := (if m = None then message t else v),
                             hearts := (if unlike then max 0 (hearts t - 1) else hearts t)\<rparr>))
              (if m = None \<and> \<not> (unlike \<and> max 0 (hearts t - 1) \<noteq> hearts t)
               then ''No valid update fields provided, thought not modified.''
               else ''Thought was successfully updated.'')), d') \<and>
         users d' = users d \<and>
         findById e d' i =
           Inr (Some (t\<lparr>message := (if m = None then message t else v),
                         hearts := (if unlike then max 0 (hearts t - 1) else hearts t)\<rparr>))"
proof -
  from t obtain oid where o: "castObjectId e i = Some oid"
    using findById_SomeD by blast
  let ?h = "if unlike \<and> max 0 (hearts t - 1) \<noteq> hearts t then Some (max 0 (hearts t - 1)) else None"
  let ?t' = "t\<lparr>message := (if m = None then message t else v),
                hearts := (if unlike then max 0 (hearts t - 1) else hearts t)\<rparr>"
  show ?thesis
  proof (cases "m = None \<and> \<not> (unlike \<and> max 0 (hearts t - 1) \<noteq> hearts t)")
    case True
    then have "?t' = t" by auto
    moreover from True have "patch_thought e d i m unlike u =
        (Responded (json 200 True (ThoughtDoc t)
           ''No valid update fields provided, thought not modified.''), d)"
      by (simp add: patch_thought_found [OF t])
    ultimately show ?thesis using t True by simp
  next
    case False
    let ?f = "set_fields (if m = None then None else Some v) ?h"
    have ft: "?f t = ?t'"
      by (auto simp: set_fields_def)
    from findByIdAndUpdate_Some [OF t, of ?f]
    obtain d' where d': "findByIdAndUpdate e d i ?f = Inr (Some (?f t), d')"
      "users d' = users d" "findById e d' i = Inr (Some (?f t))"
      using set_fields_id by blast
    have "findByIdAndUpdate_validated e d i \<lparr>uf_message = m, uf_hearts = ?h\<rparr> =
        Inr (Some ?t', d')"
      using o val d'(1) ft
      by (cases m) (auto simp: findByIdAndUpdate_validated_def)
    with False own have "patch_thought e d i m unlike u =
        (Responded (json 200 True (ThoughtDoc ?t') ''Thought was successfully updated.''), d')"
      by (auto simp: patch_thought_found [OF t])
    moreover from False have
      "(if m = None \<and> \<not> (unlike \<and> max 0 (hearts t - 1) \<noteq> hearts t)
        then ''No valid update fields provided, thought not modified.''
        else ''Thought was successfully updated.'') = ''Thought was successfully updated.''"
      by (simp only: if_False)
    ultimately show ?thesis using d'(2,3) ft by (intro exI [of _ d']) (simp only: simp_thms)
  qed
qed

lemma patch_thought_invalid:
  assumes t: "findById e d i = Inr (Some t)"
    and own: "user_id u = userId t"
    and val: "validate_message (Some s) = Inl err"
  shows "patch_thought e d i (Some s) unlike u =
           (Responded (json 400 False (ErrorObj ValidationError)
              ''Validation failed for thought update.''), d)"
proof -
  from t obtain oid where o: "castObjectId e i = Some oid"
    using findById_SomeD by blast
  from val have "err = ValidationError"
    by (auto simp: validate_message_def Let_def split: if_splits)
  with t own val o show ?thesis
    by (simp add: patch_thought_def Let_def findByIdAndUpdate_validated_def)
qed


section \<open>What each handler leaves in the store\<close>

lemma findByIdAndUpdate_cases:
  "findByIdAndUpdate e d i f = Inr (r, d') \<Longrightarrow>
     (r = None \<and> d' = d) \<or>
     (\<exists>oid. r \<noteq> None \<and> d' = d\<lparr>thoughts := update_first (has_id oid) f (thoughts d)\<rparr>)"
  by (auto simp: findByIdAndUpdate_def split: option.splits)

lemma findByIdAndDelete_cases:
  "findByIdAndDelete e d i = Inr (r, d') \<Longrightarrow>
     (r = None \<and> d' = d) \<or>
     (\<exists>oid. r \<noteq> None \<and> d' = d\<lparr>thoughts := remove_first (has_id oid) (thoughts d)\<rparr>)"
  by (auto simp: findByIdAndDelete_def split: option.splits)

lemma findByIdAndUpdate_validated_cases:
  "findByIdAndUpdate_validated e d i uf = Inr (r, d') \<Longrightarrow>
     (r = None \<and> d' = d) \<or>
     (\<exists>oid m. r \<noteq> None \<and>
        d' = d\<lparr>thoughts := update_first (has_id oid) (set_fields m (uf_hearts uf)) (thoughts d)\<rparr>)"
  by (auto simp: findByIdAndUpdate_validated_def split: option.splits sum.splits
      dest!: findByIdAndUpdate_cases)

lemma success_json: "success (json n s r m) = s"
  by (simp add: json_def)

lemma get_root_atomic: "succeeded (fst (get_root d)) \<or> snd (get_root d) = d"
  by (simp add: get_root_def)

lemma post_users_atomic: "succeeded (fst (post_users e d n em pw)) \<or> snd (post_users e d n em pw) = d"
  by (simp add: post_users_def succeeded_def json_def split: sum.splits prod.splits option.splits)

lemma post_sessions_same: "snd (post_sessions e d em pw) = d"
  by (simp add: post_sessions_def split: option.splits)

lemma get_secrets_same: "snd (get_secrets d u) = d"
  by (simp add: get_secrets_def)

lemma respond_page_same: "snd (respond_page e d q f so) = d"
  by (simp add: respond_page_def Let_def split: sum.splits)

lemma get_thoughts_same: "snd (get_thoughts e d q) = d"
  by (simp add: get_thoughts_def Let_def respond_page_same split: option.splits)

lemma get_thought_same: "snd (get_thought e d i) = d"
  by (simp add: get_thought_def split: sum.splits option.splits)

lemma post_thoughts_atomic:
  "succeeded (fst (post_thoughts e d m u)) \<or> snd (post_thoughts e d m u) = d"
  by (simp add: post_thoughts_def succeeded_def json_def split: sum.splits prod.splits)

lemma delete_thought_atomic:
  "succeeded (fst (delete_thought e d i u)) \<or> snd (delete_thought e d i u) = d"
  by (simp add: delete_thought_def succeeded_def json_def
      split: sum.splits prod.splits option.splits)

lemma like_thought_atomic:
  "succeeded (fst (like_thought e d i)) \<or> snd (like_thought e d i) = d"
  by (auto simp: like_thought_def succeeded_def json_def
      split: sum.splits prod.splits option.splits dest!: findByIdAndUpdate_cases)

lemma patch_thought_atomic:
  "succeeded (fst (patch_thought e d i m unlike u)) \<or> snd (patch_thought e d i m unlike u) = d"
proof (cases "findById e d i")
  case (Inl err)
  then show ?thesis by (simp add: patch_thought_def)
next
  case (Inr found)
  show ?thesis
  proof (cases found)
    case None
    with Inr show ?thesis by (simp add: patch_thought_def)
  next
    case (Some t)
    define uf where "uf = \<lparr>uf_message = m,
      uf_hearts = (if unlike \<and> max 0 (hearts t - 1) \<noteq> hearts t
                   then Some (max 0 (hearts t - 1)) else None)\<rparr>"
    from Inr Some have f: "findById e d i = Inr (Some t)" by simp
    note eq = patch_thought_found [OF f, of m unlike u, folded uf_def]
    show ?thesis
    proof (cases "findByIdAndUpdate_validated e d i uf")
      case (Inl err)
      then show ?thesis
        by (simp add: eq succeeded_def success_json)
    next
      case upd: (Inr res)
      obtain r d' where res: "res = (r, d')" by (cases res)
      show ?thesis
      proof (cases r)
        case None
        with upd res have "d' = d"
          using findByIdAndUpdate_validated_cases by blast
        with upd res None show ?thesis
          by (simp add: eq succeeded_def success_json)
      next
        case (Some t')
        with upd res show ?thesis
          by (simp add: eq succeeded_def success_json)
      qed
    qed
  qed
qed

lemma protected_atomic:
  "(\<And>u. succeeded (fst (handler u)) \<or> snd (handler u) = d) \<Longrightarrow>
   succeeded (fst (protected d h handler)) \<or> snd (protected d h handler) = d"
  by (simp add: protected_def split: sum.splits)

lemma protected_same: "(\<And>u. snd (handler u) = d) \<Longrightarrow> snd (protected d h handler) = d"
  by (simp add: protected_def split: sum.splits)

text \<open>
  A request that is not answered with a success changes nothing in the store.
\<close>

lemma handle_atomic: "succeeded (fst (handle e d req)) \<or> snd (handle e d req) = d"
proof (cases req)
  case GetRoot
  then show ?thesis by (simp add: get_root_atomic)
next
  case (PostUsers n em pw)
  then show ?thesis by (simp add: post_users_atomic)
next
  case (GetSecrets h)
  then show ?thesis by (simp add: protected_same get_secrets_same)
next
  case (PostSessions em pw)
  then show ?thesis by (simp add: post_sessions_same)
next
  case (GetThoughts q)
  then show ?thesis by (simp add: get_thoughts_same)
next
  case (GetThought i)
  then show ?thesis by (simp add: get_thought_same)
next
  case (PostThoughts h m)
  then show ?thesis using protected_atomic [of "post_thoughts e d m" d h]
    by (simp add: post_thoughts_atomic)
next
  case (DeleteThought h i)
  then show ?thesis using protected_atomic [of "delete_thought e d i" d h]
    by (simp add: delete_thought_atomic)
next
  case (LikeThought i)
  then show ?thesis by (simp add: like_thought_atomic)
next
  case (PatchThought h i m unlike)
  then show ?thesis using protected_atomic [of "patch_thought e d i m unlike" d h]
    by (simp add: patch_thought_atomic)
qed


section \<open>The heart count\<close>

lemma nonneg_update_first:
  "\<forall>x\<in>set xs. 0 \<le> hearts x \<Longrightarrow> (\<And>x. 0 \<le> hearts x \<Longrightarrow> 0 \<le> hearts (f x)) \<Longrightarrow>
   \<forall>x\<in>set (update_first P f xs). 0 \<le> hearts x"
  by (induction xs) auto

lemma nonneg_remove_first:
  "\<forall>x\<in>set xs. 0 \<le> hearts x \<Longrightarrow> \<forall>x\<in>set (remove_first P xs). 0 \<le> hearts x"
  by (induction xs) auto

lemma like_thought_nonneg:
  assumes "\<forall>x\<in>set (thoughts d). 0 \<le> hearts x"
  shows "\<forall>x\<in>set (thoughts (snd (like_thought e d i))). 0 \<le> hearts x"
proof (cases "findByIdAndUpdate e d i (\<lambda>t. t\<lparr>hearts := hearts t + 1\<rparr>)")
  case (Inl err)
  with assms show ?thesis by (simp add: like_thought_def)
next
  case (Inr res)
  obtain r d' where res: "res = (r, d')" by (cases res)
  with Inr have "d' = d \<or>
      (\<exists>oid. d' = d\<lparr>thoughts := update_first (has_id oid) (\<lambda>t. t\<lparr>hearts := hearts t + 1\<rparr>)
                                (thoughts d)\<rparr>)"
    using findByIdAndUpdate_cases by blast
  then have "\<forall>x\<in>set (thoughts d'). 0 \<le> hearts x"
  proof
    assume "d' = d"
    with assms show ?thesis by simp
  next
    assume "\<exists>oid. d' = d\<lparr>thoughts :=
      update_first (has_id oid) (\<lambda>t. t\<lparr>hearts := hearts t + 1\<rparr>) (thoughts d)\<rparr>"
    then obtain oid where d': "d' = d\<lparr>thoughts :=
      update_first (has_id oid) (\<lambda>t. t\<lparr>hearts := hearts t + 1\<rparr>) (thoughts d)\<rparr>"
      by blast
    have "\<forall>x\<in>set (update_first (has_id oid) (\<lambda>t. t\<lparr>hearts := hearts t + 1\<rparr>) (thoughts d)).
        0 \<le> hearts x"
      using assms by (rule nonneg_update_first) simp
    with d' show ?thesis by simp
  qed
  moreover from Inr res have "snd (like_thought e d i) = d'"
    by (simp add: like_thought_def split: option.splits)
  ultimately show ?thesis by simp
qed

lemma set_fields_nonneg:
  "0 \<le> hearts x \<Longrightarrow> (case h of None \<Rightarrow> True | Some n \<Rightarrow> 0 \<le> n) \<Longrightarrow>
   0 \<le> hearts (set_fields m h x)"
  by (simp add: set_fields_def split: option.splits)

lemma patch_thought_nonneg:
  assumes "\<forall>x\<in>set (thoughts d). 0 \<le> hearts x"
  shows "\<forall>x\<in>set (thoughts (snd (patch_thought e d i m unlike u))). 0 \<le> hearts x"
proof (cases "succeeded (fst (patch_thought e d i m unlike u))")
  case False
  with patch_thought_atomic [of e d i m unlike u] assms show ?thesis by simp
next
  case True
  show ?thesis
  proof (cases "findById e d i")
    case (Inl err)
    with assms show ?thesis by (simp add: patch_thought_def)
  next
    case (Inr found)
    show ?thesis
    proof (cases found)
      case None
      with Inr assms show ?thesis by (simp add: patch_thought_def)
    next
      case (Some t)
      define uf where "uf = \<lparr>uf_message = m,
        uf_hearts = (if unlike \<and> max 0 (hearts t - 1) \<noteq> hearts t
                     then Some (max 0 (hearts t - 1)) else None)\<rparr>"
      from Inr Some have f: "findById e d i = Inr (Some t)" by simp
      note eq = patch_thought_found [OF f, of m unlike u, folded uf_def]
      have h: "case uf_hearts uf of None \<Rightarrow> True | Some n \<Rightarrow> 0 \<le> n"
        by (simp add: uf_def)
      show ?thesis
      proof (cases "findByIdAndUpdate_validated e d i uf")
        case (Inl err)
        with assms show ?thesis by (simp add: eq)
      next
        case upd: (Inr res)
        obtain r d' where res: "res = (r, d')" by (cases res)
        with upd have "d' = d \<or>
          (\<exists>oid m'. d' = d\<lparr>thoughts := update_first (has_id oid) (set_fields m' (uf_hearts uf))
                                      (thoughts d)\<rparr>)"
          using findByIdAndUpdate_validated_cases by blast
        then have "\<forall>x\<in>set (thoughts d'). 0 \<le> hearts x"
        proof
          assume "d' = d"
          with assms show ?thesis by simp
        next
          assume "\<exists>oid m'. d' = d\<lparr>thoughts :=
            update_first (has_id oid) (set_fields m' (uf_hearts uf)) (thoughts d)\<rparr>"
          then obtain oid m' where d': "d' = d\<lparr>thoughts :=
            update_first (has_id oid) (set_fields m' (uf_hearts uf)) (thoughts d)\<rparr>"
            by blast
          have "\<forall>x\<in>set (update_first (has_id oid) (set_fields m' (uf_hearts uf)) (thoughts d)).
              0 \<le> hearts x"
            using assms by (rule nonneg_update_first) (simp add: set_fields_nonneg h)
          with d' show ?thesis by simp
        qed
        moreover from upd res have "snd (patch_thought e d i m unlike u) = d' \<or>
            snd (patch_thought e d i m unlike u) = d"
          by (simp add: eq split: option.splits)
        ultimately show ?thesis using assms by auto
      qed
    qed
  qed
qed

lemma delete_thought_nonneg:
  assumes "\<forall>x\<in>set (thoughts d). 0 \<le> hearts x"
  shows "\<forall>x\<in>set (thoughts (snd (delete_thought e d i u))). 0 \<le> hearts x"
proof -
  have "snd (delete_thought e d i u) = d \<or>
     (\<exists>oid. snd (delete_thought e d i u) =
        d\<lparr>thoughts := remove_first (has_id oid) (thoughts d)\<rparr>)"
    by (auto simp: delete_thought_def split: sum.splits option.splits prod.splits
        dest!: findByIdAndDelete_cases)
  then show ?thesis
  proof
    assume "snd (delete_thought e d i u) = d"
    with assms show ?thesis by simp
  next
    assume "\<exists>oid. snd (delete_thought e d i u) =
        d\<lparr>thoughts := remove_first (has_id oid) (thoughts d)\<rparr>"
    then obtain oid where "snd (delete_thought e d i u) =
        d\<lparr>thoughts := remove_first (has_id oid) (thoughts d)\<rparr>"
      by blast
    with nonneg_remove_first [OF assms, of "has_id oid"] show ?thesis by simp
  qed
qed

lemma post_thoughts_nonneg:
  assumes "\<forall>x\<in>set (thoughts d). 0 \<le> hearts x"
  shows "\<forall>x\<in>set (thoughts (snd (post_thoughts e d m u))). 0 \<le> hearts x"
proof (cases "save_thought e d m (user_id u)")
  case (Inl err)
  with assms show ?thesis by (simp add: post_thoughts_def)
next
  case (Inr res)
  obtain t d' where res: "res = (t, d')" by (cases res)
  with Inr have "hearts t = 0 \<and> d' = d\<lparr>thoughts := thoughts d @ [t]\<rparr>"
    by (auto simp: save_thought_def Let_def split: sum.splits if_splits)
  with Inr res assms show ?thesis by (simp add: post_thoughts_def)
qed

lemma post_users_thoughts: "thoughts (snd (post_users e d n em pw)) = thoughts d"
  by (auto simp: post_users_def save_user_def Let_def
      split: sum.splits prod.splits option.splits if_splits)

lemma protected_nonneg:
  assumes "\<forall>x\<in>set (thoughts d). 0 \<le> hearts x"
    and "\<And>u. \<forall>x\<in>set (thoughts (snd (handler u))). 0 \<le> hearts x"
  shows "\<forall>x\<in>set (thoughts (snd (protected d h handler))). 0 \<le> hearts x"
  using assms by (simp add: protected_def split: sum.splits)

lemma handle_nonneg:
  assumes inv: "\<forall>x\<in>set (thoughts d). 0 \<le> hearts x"
  shows "\<forall>x\<in>set (thoughts (snd (handle e d req))). 0 \<le> hearts x"
proof (cases req)
  case GetRoot
  with inv show ?thesis by (simp add: get_root_def)
next
  case (PostUsers n em pw)
  with inv show ?thesis by (simp add: post_users_thoughts)
next
  case (GetSecrets h)
  with inv show ?thesis by (simp add: protected_same get_secrets_same)
next
  case (PostSessions em pw)
  with inv show ?thesis by (simp add: post_sessions_same)
next
  case (GetThoughts q)
  with inv show ?thesis by (simp add: get_thoughts_same)
next
  case (GetThought i)
  with inv show ?thesis by (simp add: get_thought_same)
next
  case (PostThoughts h m)
  then show ?thesis using protected_nonneg [OF inv post_thoughts_nonneg [OF inv]] by simp
next
  case (DeleteThought h i)
  then show ?thesis using protected_nonneg [OF inv delete_thought_nonneg [OF inv]] by simp
next
  case (LikeThought i)
  then show ?thesis using like_thought_nonneg [OF inv] by simp
next
  case (PatchThought h i m unlike)
  then show ?thesis using protected_nonneg [OF inv patch_thought_nonneg [OF inv]] by simp
qed

lemma patch_succeeded_checks:
  assumes t: "findById e d i = Inr (Some t)"
    and s: "succeeded (fst (patch_thought e d i m unlike u))"
  shows "(m = None \<or> user_id u = userId t) \<and> (m = None \<or> (\<exists>v. validate_message m = Inr v))"
proof (cases m)
  case None
  then show ?thesis by simp
next
  case (Some s')
  have own: "user_id u = userId t"
  proof (rule ccontr)
    assume "user_id u \<noteq> userId t"
    with t s Some show False
      by (simp add: patch_thought_found succeeded_def success_json)
  qed
  have "\<exists>v. validate_message m = Inr v"
  proof (cases "validate_message m")
    case (Inl err)
    with patch_thought_invalid [OF t own, of s' err unlike] s Some show ?thesis
      by (simp add: succeeded_def success_json)
  qed simp
  with own show ?thesis by simp
qed

lemma unlike_hearts:
  assumes t: "findById e d i = Inr (Some t)"
    and s: "succeeded (fst (patch_thought e d i m True u))"
  shows "\<exists>t'. findById e (snd (patch_thought e d i m True u)) i = Inr (Some t') \<and>
               hearts t' = max 0 (hearts t - 1)"
proof -
  from patch_succeeded_checks [OF t s] obtain v where
    "m = None \<or> user_id u = userId t" "m = None \<or> validate_message m = Inr v"
    by blast
  from patch_thought_result [OF t this, of True] show ?thesis by auto
qed

text \<open>The store after an unlike, written out.\<close>

lemma update_first_const:
  "find P xs = Some t \<Longrightarrow> update_first P f xs = update_first P (\<lambda>_. f t) xs"
  by (induction xs) (auto split: if_splits)

lemma update_first_same: "find P xs = Some t \<Longrightarrow> update_first P (\<lambda>_. t) xs = xs"
  by (induction xs) (auto split: if_splits)

lemma findByIdAndUpdate_found:
  assumes t: "findById e d i = Inr (Some t)"
  shows "findByIdAndUpdate e d i f =
     Inr (Some (f t),
          d\<lparr>thoughts := update_first (has_id (thought_id t)) (\<lambda>_. f t) (thoughts d)\<rparr>)"
proof -
  from findById_SomeD [OF t] obtain oid where o: "castObjectId e i = Some oid"
    "find (has_id oid) (thoughts d) = Some t" "thought_id t = oid"
    by blast
  from o(2) have "update_first (has_id oid) f (thoughts d) =
      update_first (has_id oid) (\<lambda>_. f t) (thoughts d)"
    by (rule update_first_const)
  with o show ?thesis by (simp add: findByIdAndUpdate_def)
qed

lemma findById_after_update:
  assumes t: "findById e d i = Inr (Some t)" and i: "thought_id t' = thought_id t"
  shows "findById e (d\<lparr>thoughts := update_first (has_id (thought_id t)) (\<lambda>_. t') (thoughts d)\<rparr>) i =
     Inr (Some t')"
proof -
  from findById_SomeD [OF t] obtain oid where o: "castObjectId e i = Some oid"
    "find (has_id oid) (thoughts d) = Some t" "thought_id t = oid"
    by blast
  have "\<And>x. has_id oid x \<Longrightarrow> has_id oid ((\<lambda>_. t') x)"
    using i o(3) by (simp add: has_id_def)
  then have "find (has_id oid) (update_first (has_id oid) (\<lambda>_. t') (thoughts d)) = Some t'"
    using o(2) by (simp add: find_update_first)
  with o show ?thesis by (simp add: findById_def)
qed

text \<open>The reply and the store after a PATCH that passes the ownership and validation checks.\<close>

lemma patch_thought_store:
  assumes t: "findById e d i = Inr (Some t)"
    and own: "m = None \<or> user_id u = userId t"
    and val: "m = None \<or> validate_message m = Inr v"
  shows "patch_thought e d i m unlike u =
     (Responded (json 200 True
        (ThoughtDoc (t\<lparr>message := (if m = None then message t else v),
                       hearts := (if unlike then max 0 (hearts t - 1) else hearts t)\<rparr>))
        (if m = None \<and> \<not> (unlike \<and> max 0 (hearts t - 1) \<noteq> hearts t)
         then ''No valid update fields provided, thought not modified.''
         else ''Thought was successfully updated.'')),
      d\<lparr>thoughts := update_first (has_id (thought_id t))
         (\<lambda>_. t\<lparr>message := (if m = None then message t else v),
                 hearts := (if unlike then max 0 (hearts t - 1) else hearts t)\<rparr>)
         (thoughts d)\<rparr>)"
proof -
  from findById_SomeD [OF t] obtain oid where o: "castObjectId e i = Some oid"
    "find (has_id oid) (thoughts d) = Some t" "thought_id t = oid"
    by blast
  let ?h = "if unlike \<and> max 0 (hearts t - 1) \<noteq> hearts t then Some (max 0 (hearts t - 1)) else None"
  let ?t' = "t\<lparr>message := (if m = None then message t else v),
                hearts := (if unlike then max 0 (hearts t - 1) else hearts t)\<rparr>"
  show ?thesis
  proof (cases "m = None \<and> \<not> (unlike \<and> max 0 (hearts t - 1) \<noteq> hearts t)")
    case True
    then have tt: "?t' = t" by auto
    have "d\<lparr>thoughts := update_first (has_id (thought_id t)) (\<lambda>_. t) (thoughts d)\<rparr> = d"
      using o(2,3) by (simp add: update_first_same)
    moreover from True have "patch_thought e d i m unlike u =
        (Responded (json 200 True (ThoughtDoc t)
           ''No valid update fields provided, thought not modified.''), d)"
      by (simp add: patch_thought_found [OF t])
    moreover from True have
      "(if m = None \<and> \<not> (unlike \<and> max 0 (hearts t - 1) \<noteq> hearts t)
        then ''No valid update fields provided, thought not modified.''
        else ''Thought was successfully updated.'') =
       ''No valid update fields provided, thought not modified.''"
      by simp
    ultimately show ?thesis by (simp only: tt)
  next
    case False
    let ?f = "set_fields (if m = None then None else Some v) ?h"
    have ft: "?f t = ?t'"
      by (auto simp: set_fields_def)
    have "findByIdAndUpdate_validated e d i \<lparr>uf_message = m, uf_hearts = ?h\<rparr> =
        Inr (Some ?t',
          d\<lparr>thoughts := update_first (has_id (thought_id t)) (\<lambda>_. ?t') (thoughts d)\<rparr>)"
      using o(1) val findByIdAndUpdate_found [OF t, of ?f] ft
      by (cases m) (auto simp: findByIdAndUpdate_validated_def)
    with False own have "patch_thought e d i m unlike u =
        (Responded (json 200 True (ThoughtDoc ?t') ''Thought was successfully updated.''),
         d\<lparr>thoughts := update_first (has_id (thought_id t)) (\<lambda>_. ?t') (thoughts d)\<rparr>)"
      by (auto simp: patch_thought_found [OF t])
    moreover from False have
      "(if m = None \<and> \<not> (unlike \<and> max 0 (hearts t - 1) \<noteq> hearts t)
        then ''No valid update fields provided, thought not modified.''
        else ''Thought was successfully updated.'') = ''Thought was successfully updated.''"
      by (simp only: if_False)
    ultimately show ?thesis by (simp only:)
  qed
qed

lemma unlike_store:
  assumes t: "findById e d i = Inr (Some t)"
    and own: "m = None \<or> user_id u = userId t"
    and val: "m = None \<or> validate_message m = Inr v"
  shows "patch_thought e d i m True u =
     (Responded (json 200 True
        (ThoughtDoc (t\<lparr>message := (if m = None then message t else v),
                       hearts := max 0 (hearts t - 1)\<rparr>))
        (if m = None \<and> hearts t = 0
         then ''No valid update fields provided, thought not modified.''
         else ''Thought was successfully updated.'')),
      d\<lparr>thoughts := update_first (has_id (thought_id t))
         (\<lambda>_. t\<lparr>message := (if m = None then message t else v),
                 hearts := max 0 (hearts t - 1)\<rparr>)
         (thoughts d)\<rparr>)"
proof -
  have c: "(m = None \<and> \<not> (True \<and> max 0 (hearts t - 1) \<noteq> hearts t)) = (m = None \<and> hearts t = 0)"
    by auto
  from patch_thought_store [OF t own val, of True] show ?thesis
    unfolding c by (simp only: if_True)
qed

text \<open>
  C3. No handler makes a heart count negative. A like of a stored thought adds
  exactly 1 to its hearts, two likes add exactly 2. An unlike through
  \<^verbatim>\<open>PATCH /thoughts/:id\<close>, by any authenticated user when no message is sent and by the
  owner together with a valid message, is answered 200 with the thought at
  \<open>max 0 (hearts - 1)\<close> hearts, and the store holds that thought in place of the old
  one and is otherwise the same. Every PATCH with \<^verbatim>\<open>unlike\<close> that succeeds leaves the
  hearts at \<open>max 0 (hearts - 1)\<close>, and on a thought with no hearts it leaves the thought
  as it was.
\<close>

theorem hearts_never_negative:
  "((\<forall>x\<in>set (thoughts d). 0 \<le> hearts x) \<longrightarrow>
      (\<forall>x\<in>set (thoughts (snd (handle e d req))). 0 \<le> hearts x)) \<and>
   (findById e d i = Inr (Some t) \<longrightarrow>
      (\<exists>d1 d2.
         handle e d (LikeThought i) =
           (Responded (json 200 True (ThoughtDoc (t\<lparr>hearts := hearts t + 1\<rparr>))
              ''Thought successfully liked.''), d1) \<and>
         findById e d1 i = Inr (Some (t\<lparr>hearts := hearts t + 1\<rparr>)) \<and>
         handle e d1 (LikeThought i) =
           (Responded (json 200 True (ThoughtDoc (t\<lparr>hearts := hearts t + 2\<rparr>))
              ''Thought successfully liked.''), d2) \<and>
         findById e d2 i = Inr (Some (t\<lparr>hearts := hearts t + 2\<rparr>))) \<and>
      (authenticateUser d h = Inr u \<and>
         (m = None \<or> (user_id u = userId t \<and> validate_message m = Inr v)) \<longrightarrow>
         handle e d (PatchThought h i m True) =
           (Responded (json 200 True
              (ThoughtDoc (t\<lparr>message := (if m = None then message t else v),
                             hearts := max 0 (hearts t - 1)\<rparr>))
              (if m = None \<and> hearts t = 0
               then ''No valid update fields provided, thought not modified.''
               else ''Thought was successfully updated.'')),
            d\<lparr>thoughts := update_first (has_id (thought_id t))
               (\<lambda>_. t\<lparr>message := (if m = None then message t else v),
                       hearts := max 0 (hearts t - 1)\<rparr>)
               (thoughts d)\<rparr>) \<and>
         findById e
           (d\<lparr>thoughts := update_first (has_id (thought_id t))
               (\<lambda>_. t\<lparr>message := (if m = None then message t else v),
                       hearts := max 0 (hearts t - 1)\<rparr>)
               (thoughts d)\<rparr>) i =
           Inr (Some (t\<lparr>message := (if m = None then message t else v),
                         hearts := max 0 (hearts t - 1)\<rparr>))) \<and>
      (authenticateUser d h = Inr u \<and> succeeded (fst (handle e d (PatchThought h i m True))) \<longrightarrow>
         (\<exists>t'. findById e (snd (handle e d (PatchThought h i m True))) i = Inr (Some t') \<and>
               hearts t' = max 0 (hearts t - 1))) \<and>
      (authenticateUser d h = Inr u \<and> hearts t = 0 \<longrightarrow>
         handle e d (PatchThought h i None True) =
           (Responded (json 200 True (ThoughtDoc t)
              ''No valid update fields provided, thought not modified.''), d)))"
proof -
  have c1: "(\<forall>x\<in>set (thoughts d). 0 \<le> hearts x) \<longrightarrow>
      (\<forall>x\<in>set (thoughts (snd (handle e d req))). 0 \<le> hearts x)"
    using handle_nonneg by blast
  have c2: "\<exists>d1 d2.
         handle e d (LikeThought i) =
           (Responded (json 200 True (ThoughtDoc (t\<lparr>hearts := hearts t + 1\<rparr>))
              ''Thought successfully liked.''), d1) \<and>
         findById e d1 i = Inr (Some (t\<lparr>hearts := hearts t + 1\<rparr>)) \<and>
         handle e d1 (LikeThought i) =
           (Responded (json 200 True (ThoughtDoc (t\<lparr>hearts := hearts t + 2\<rparr>))
              ''Thought successfully liked.''), d2) \<and>
         findById e d2 i = Inr (Some (t\<lparr>hearts := hearts t + 2\<rparr>))"
    if t: "findById e d i = Inr (Some t)"
  proof -
    from like_thought_Some [OF t] obtain d1 where d1:
      "like_thought e d i = (Responded (json 200 True (ThoughtDoc (t\<lparr>hearts := hearts t + 1\<rparr>))
              ''Thought successfully liked.''), d1)"
      "findById e d1 i = Inr (Some (t\<lparr>hearts := hearts t + 1\<rparr>))"
      by blast
    have eq: "(t\<lparr>hearts := hearts t + 1\<rparr>)\<lparr>hearts := hearts (t\<lparr>hearts := hearts t + 1\<rparr>) + 1\<rparr> =
        t\<lparr>hearts := hearts t + 2\<rparr>"
      by simp
    from like_thought_Some [OF d1(2)] obtain d2 where d2:
      "like_thought e d1 i = (Responded (json 200 True (ThoughtDoc (t\<lparr>hearts := hearts t + 2\<rparr>))
              ''Thought successfully liked.''), d2)"
      "findById e d2 i = Inr (Some (t\<lparr>hearts := hearts t + 2\<rparr>))"
      unfolding eq by blast
    from d1 d2 show ?thesis by simp
  qed
  have c3: "authenticateUser d h = Inr u \<and> succeeded (fst (handle e d (PatchThought h i m True))) \<longrightarrow>
         (\<exists>t'. findById e (snd (handle e d (PatchThought h i m True))) i = Inr (Some t') \<and>
               hearts t' = max 0 (hearts t - 1))"
    if t: "findById e d i = Inr (Some t)"
  proof (intro impI, elim conjE)
    assume a: "authenticateUser d h = Inr u"
      and s: "succeeded (fst (handle e d (PatchThought h i m True)))"
    from a have eq: "handle e d (PatchThought h i m True) = patch_thought e d i m True u"
      by (simp add: protected_Inr)
    from s unlike_hearts [OF t, of m u] show
      "\<exists>t'. findById e (snd (handle e d (PatchThought h i m True))) i = Inr (Some t') \<and>
               hearts t' = max 0 (hearts t - 1)"
      unfolding eq by blast
  qed
  have c4: "authenticateUser d h = Inr u \<and> hearts t = 0 \<longrightarrow>
         handle e d (PatchThought h i None True) =
           (Responded (json 200 True (ThoughtDoc t)
              ''No valid update fields provided, thought not modified.''), d)"
    if t: "findById e d i = Inr (Some t)"
  proof (intro impI, elim conjE)
    assume a: "authenticateUser d h = Inr u" and z: "hearts t = 0"
    from a have eq: "handle e d (PatchThought h i None True) = patch_thought e d i None True u"
      by (simp add: protected_Inr)
    from z show "handle e d (PatchThought h i None True) =
           (Responded (json 200 True (ThoughtDoc t)
              ''No valid update fields provided, thought not modified.''), d)"
      unfolding eq by (simp add: patch_thought_found [OF t])
  qed
  have c5: "authenticateUser d h = Inr u \<and>
         (m = None \<or> (user_id u = userId t \<and> validate_message m = Inr v)) \<longrightarrow>
         handle e d (PatchThought h i m True) =
           (Responded (json 200 True
              (ThoughtDoc (t\<lparr>message := (if m = None then message t else v),
                             hearts := max 0 (hearts t - 1)\<rparr>))
              (if m = None \<and> hearts t = 0
               then ''No valid update fields provided, thought not modified.''
               else ''Thought was successfully updated.'')),
            d\<lparr>thoughts := update_first (has_id (thought_id t))
               (\<lambda>_. t\<lparr>message := (if m = None then message t else v),
                       hearts := max 0 (hearts t - 1)\<rparr>)
               (thoughts d)\<rparr>) \<and>
         findById e
           (d\<lparr>thoughts := update_first (has_id (thought_id t))
               (\<lambda>_. t\<lparr>message := (if m = None then message t else v),
                       hearts := max 0 (hearts t - 1)\<rparr>)
               (thoughts d)\<rparr>) i =
           Inr (Some (t\<lparr>message := (if m = None then message t else v),
                         hearts := max 0 (hearts t - 1)\<rparr>))"
    if t: "findById e d i = Inr (Some t)"
  proof (intro impI, elim conjE)
    assume a: "authenticateUser d h = Inr u"
      and ok: "m = None \<or> (user_id u = userId t \<and> validate_message m = Inr v)"
    from a have eq: "handle e d (PatchThought h i m True) = patch_thought e d i m True u"
      by (simp add: protected_Inr)
    from ok have own: "m = None \<or> user_id u = userId t"
      and val: "m = None \<or> validate_message m = Inr v"
      by blast+
    have i: "thought_id (t\<lparr>message := (if m = None then message t else v),
        hearts := max 0 (hearts t - 1)\<rparr>) = thought_id t"
      by simp
    show "handle e d (PatchThought h i m True) =
           (Responded (json 200 True
              (ThoughtDoc (t\<lparr>message := (if m = None then message t else v),
                             hearts := max 0 (hearts t - 1)\<rparr>))
              (if m = None \<and> hearts t = 0
               then ''No valid update fields provided, thought not modified.''
               else ''Thought was successfully updated.'')),
            d\<lparr>thoughts := update_first (has_id (thought_id t))
               (\<lambda>_. t\<lparr>message := (if m = None then message t else v),
                       hearts := max 0 (hearts t - 1)\<rparr>)
               (thoughts d)\<rparr>) \<and>
         findById e
           (d\<lparr>thoughts := update_first (has_id (thought_id t))
               (\<lambda>_. t\<lparr>message := (if m = None then message t else v),
                       hearts := max 0 (hearts t - 1)\<rparr>)
               (thoughts d)\<rparr>) i =
           Inr (Some (t\<lparr>message := (if m = None then message t else v),
                         hearts := max 0 (hearts t - 1)\<rparr>))"
      unfolding eq
      by (intro conjI unlike_store [OF t own val] findById_after_update [OF t i])
  qed
  show ?thesis
    apply (rule conjI [OF c1])
    apply (rule impI)
    subgoal premises t
      by (intro conjI c2 [OF t] c5 [OF t] c3 [OF t] c4 [OF t])
    done
qed


lemma nonneg_db0: "\<forall>x\<in>set (thoughts db0). 0 \<le> hearts x"
  by (simp add: db0_def t1_def t2_def)

theorem hearts_never_negative_witness:
  "list_all (\<lambda>x. 0 \<le> hearts x) (thoughts db0) \<and>
   list_all (\<lambda>x. 0 \<le> hearts x) (thoughts (snd (handle env0 db0 (LikeThought ''t1'')))) \<and>
   findById env0 db0 ''t1'' = Inr (Some t1) \<and> hearts t1 = 0 \<and>
   authenticateUser db0 (Some ''Bearer def'') = Inr bob \<and>
   (\<exists>d1 d2. handle env0 db0 (LikeThought ''t1'') =
        (Responded (json 200 True (ThoughtDoc (t1\<lparr>hearts := 1\<rparr>))
           ''Thought successfully liked.''), d1) \<and>
      handle env0 d1 (LikeThought ''t1'') =
        (Responded (json 200 True (ThoughtDoc (t1\<lparr>hearts := 2\<rparr>))
           ''Thought successfully liked.''), d2)) \<and>
   handle env0 db0 (PatchThought (Some ''Bearer def'') ''t1'' None True) =
     (Responded (json 200 True (ThoughtDoc t1)
        ''No valid update fields provided, thought not modified.''), db0) \<and>
   findById env0 db0 ''t2'' = Inr (Some t2) \<and> hearts t2 = 3 \<and>
   authenticateUser db0 (Some ''Bearer abc'') = Inr alice \<and>
   handle env0 db0 (PatchThought (Some ''Bearer abc'') ''t2'' None True) =
     (Responded (json 200 True (ThoughtDoc (t2\<lparr>hearts := 2\<rparr>))
        ''Thought was successfully updated.''),
      \<lparr>users = [alice, bob], thoughts = [t1, t2\<lparr>hearts := 2\<rparr>]\<rparr>) \<and>
   findById env0 \<lparr>users = [alice, bob], thoughts = [t1, t2\<lparr>hearts := 2\<rparr>]\<rparr> ''t2'' =
     Inr (Some (t2\<lparr>hearts := 2\<rparr>)) \<and>
   succeeded (fst (handle env0 db0 (PatchThought (Some ''Bearer abc'') ''t2'' None True))) \<and>
   (\<exists>t'. findById env0 (snd (handle env0 db0 (PatchThought (Some ''Bearer abc'') ''t2'' None True)))
            ''t2'' = Inr (Some t') \<and> hearts t' = 2)"
proof -
  have h0: "hearts t1 = 0" by (simp add: t1_def)
  have h3: "hearts t2 = 3" by (simp add: t2_def)
  have f2: "findById env0 db0 ''t2'' = Inr (Some t2)"
    by (simp add: findById_def env0_def db0_def has_id_def t1_def t2_def)
  note w = hearts_never_negative [where d = db0 and e = env0 and req = "LikeThought ''t1''"
      and i = "''t1''" and t = t1 and h = "Some ''Bearer def''" and u = bob and m = None
      and v = "[]"]
  note w2 = hearts_never_negative [where d = db0 and e = env0
      and req = "LikeThought ''t1''" and i = "''t2''" and t = t2
      and h = "Some ''Bearer abc''" and u = alice and m = None and v = "[]",
      THEN conjunct2, THEN mp, OF f2]
  from w nonneg_db0 have a:
    "\<forall>x\<in>set (thoughts (snd (handle env0 db0 (LikeThought ''t1'')))). 0 \<le> hearts x"
    by blast
  note w1 = w [THEN conjunct2, THEN mp, OF findById_t1]
  from w1 [THEN conjunct1] obtain d1 d2 where
      "handle env0 db0 (LikeThought ''t1'') =
        (Responded (json 200 True (ThoughtDoc (t1\<lparr>hearts := hearts t1 + 1\<rparr>))
           ''Thought successfully liked.''), d1)"
      "handle env0 d1 (LikeThought ''t1'') =
        (Responded (json 200 True (ThoughtDoc (t1\<lparr>hearts := hearts t1 + 2\<rparr>))
           ''Thought successfully liked.''), d2)"
    by blast
  then have b: "\<exists>d1 d2. handle env0 db0 (LikeThought ''t1'') =
        (Responded (json 200 True (ThoughtDoc (t1\<lparr>hearts := 1\<rparr>))
           ''Thought successfully liked.''), d1) \<and>
      handle env0 d1 (LikeThought ''t1'') =
        (Responded (json 200 True (ThoughtDoc (t1\<lparr>hearts := 2\<rparr>))
           ''Thought successfully liked.''), d2)"
    using h0 by auto
  from w1 [THEN conjunct2, THEN conjunct2, THEN conjunct2] auth_bob h0 have c:
    "handle env0 db0 (PatchThought (Some ''Bearer def'') ''t1'' None True) =
     (Responded (json 200 True (ThoughtDoc t1)
        ''No valid update fields provided, thought not modified.''), db0)"
    by blast
  have r2: "t2\<lparr>message := (if (None :: string option) = None then message t2 else []),
        hearts := max 0 (hearts t2 - 1)\<rparr> = t2\<lparr>hearts := 2\<rparr>"
    by (simp add: t2_def)
  have s2: "db0\<lparr>thoughts := update_first (has_id (thought_id t2)) (\<lambda>_. t2\<lparr>hearts := 2\<rparr>)
      (thoughts db0)\<rparr> = \<lparr>users = [alice, bob], thoughts = [t1, t2\<lparr>hearts := 2\<rparr>]\<rparr>"
    by (simp add: db0_def has_id_def t1_def t2_def)
  have m2: "(if (None :: string option) = None \<and> hearts t2 = 0
      then ''No valid update fields provided, thought not modified.''
      else ''Thought was successfully updated.'') = ''Thought was successfully updated.''"
    by (simp add: t2_def)
  have pre: "authenticateUser db0 (Some ''Bearer abc'') = Inr alice \<and>
      ((None :: string option) = None \<or>
       (user_id alice = userId t2 \<and> validate_message None = Inr []))"
    using auth_alice by simp
  note u2 = w2 [THEN conjunct2, THEN conjunct1, THEN mp, OF pre, unfolded r2 s2 m2]
  have su: "succeeded (fst (handle env0 db0 (PatchThought (Some ''Bearer abc'') ''t2'' None True)))"
    unfolding u2 [THEN conjunct1] by (simp add: succeeded_def success_json)
  from w2 [THEN conjunct2, THEN conjunct2, THEN conjunct1, THEN mp, OF conjI [OF auth_alice su]]
  have e2: "\<exists>t'. findById env0 (snd (handle env0 db0
      (PatchThought (Some ''Bearer abc'') ''t2'' None True))) ''t2'' = Inr (Some t') \<and>
      hearts t' = 2"
    by (simp add: h3)
  from a nonneg_db0 have l:
    "list_all (\<lambda>x. 0 \<le> hearts x) (thoughts db0)"
    "list_all (\<lambda>x. 0 \<le> hearts x) (thoughts (snd (handle env0 db0 (LikeThought ''t1''))))"
    by (simp_all only: list_all_iff simp_thms)
  show ?thesis
    by (intro conjI l findById_t1 h0 auth_bob b c f2 h3 auth_alice u2 [THEN conjunct1]
        u2 [THEN conjunct2] su e2)
qed

section \<open>The combined update\<close>

text \<open>
  C8. \<^verbatim>\<open>PATCH /thoughts/:id\<close> by an authenticated caller on a stored thought. With
  neither a message nor \<^verbatim>\<open>unlike\<close> the reply is 200 with the record as it is. A
  message from a caller who is not the owner is answered 403 and nothing changes. An
  \<^verbatim>\<open>unlike\<close> alone is applied for every authenticated caller. The owner's valid
  message is stored (trimmed), together with the unlike when both are sent; the
  owner's invalid message is answered 400 and nothing changes.
\<close>

theorem patch_suboperations:
  assumes t: "findById e d i = Inr (Some t)" and a: "authenticateUser d h = Inr u"
  shows "handle e d (PatchThought h i None False) =
           (Responded (json 200 True (ThoughtDoc t)
              ''No valid update fields provided, thought not modified.''), d) \<and>
         (user_id u \<noteq> userId t \<longrightarrow>
            handle e d (PatchThought h i (Some s) unlike) =
              (Responded (json 403 False Null
                 ''You are not authorized to edit this thought's message.''), d)) \<and>
         (\<exists>msg d'. handle e d (PatchThought h i None True) =
              (Responded (json 200 True (ThoughtDoc (t\<lparr>hearts := max 0 (hearts t - 1)\<rparr>)) msg), d') \<and>
            users d' = users d \<and>
            findById e d' i = Inr (Some (t\<lparr>hearts := max 0 (hearts t - 1)\<rparr>))) \<and>
         (user_id u = userId t \<and> validate_message (Some s) = Inr v \<longrightarrow>
            (\<exists>d'. handle e d (PatchThought h i (Some s) unlike) =
               (Responded (json 200 True
                  (ThoughtDoc (t\<lparr>message := v,
                     hearts := (if unlike then max 0 (hearts t - 1) else hearts t)\<rparr>))
                  ''Thought was successfully updated.''), d') \<and>
             users d' = users d \<and>
             findById e d' i =
               Inr (Some (t\<lparr>message := v,
                     hearts := (if unlike then max 0 (hearts t - 1) else hearts t)\<rparr>)))) \<and>
         (user_id u = userId t \<and> validate_message (Some s) = Inl err \<longrightarrow>
            handle e d (PatchThought h i (Some s) unlike) =
              (Responded (json 400 False (ErrorObj ValidationError)
                 ''Validation failed for thought update.''), d))"
proof -
  have eq: "\<And>m unlike. handle e d (PatchThought h i m unlike) = patch_thought e d i m unlike u"
    using a by (simp add: protected_Inr)
  have c1: "patch_thought e d i None False u =
           (Responded (json 200 True (ThoughtDoc t)
              ''No valid update fields provided, thought not modified.''), d)"
    by (simp add: patch_thought_found [OF t])
  have c2: "user_id u \<noteq> userId t \<longrightarrow>
            patch_thought e d i (Some s) unlike u =
              (Responded (json 403 False Null
                 ''You are not authorized to edit this thought's message.''), d)"
    by (simp add: patch_thought_found [OF t])
  have c3: "\<exists>msg d'. patch_thought e d i None True u =
              (Responded (json 200 True (ThoughtDoc (t\<lparr>hearts := max 0 (hearts t - 1)\<rparr>)) msg), d') \<and>
            users d' = users d \<and>
            findById e d' i = Inr (Some (t\<lparr>hearts := max 0 (hearts t - 1)\<rparr>))"
    using patch_thought_result [OF t, of None u v True] by auto
  have c4: "user_id u = userId t \<and> validate_message (Some s) = Inr v \<longrightarrow>
            (\<exists>d'. patch_thought e d i (Some s) unlike u =
               (Responded (json 200 True
                  (ThoughtDoc (t\<lparr>message := v,
                     hearts := (if unlike then max 0 (hearts t - 1) else hearts t)\<rparr>))
                  ''Thought was successfully updated.''), d') \<and>
             users d' = users d \<and>
             findById e d' i =
               Inr (Some (t\<lparr>message := v,
                     hearts := (if unlike then max 0 (hearts t - 1) else hearts t)\<rparr>)))"
    using patch_thought_result [OF t, of "Some s" u v unlike] by auto
  have c5: "user_id u = userId t \<and> validate_message (Some s) = Inl err \<longrightarrow>
            patch_thought e d i (Some s) unlike u =
              (Responded (json 400 False (ErrorObj ValidationError)
                 ''Validation failed for thought update.''), d)"
    using patch_thought_invalid [OF t] by blast
  show ?thesis unfolding eq by (intro conjI c1 c2 c3 c4 c5)
qed

lemma findById_t2: "findById env0 db0 ''t2'' = Inr (Some t2)"
  by (simp add: findById_def env0_def db0_def has_id_def t1_def t2_def)

lemma alice_not_owner_t2: "user_id alice \<noteq> userId t2"
  by (simp add: alice_def t2_def)

lemma validate_ok: "validate_message (Some ''  new message '') = Inr ''new message''"
  by (simp add: validate_message_def trim_def isWhiteSpace_def)

theorem patch_suboperations_witness:
  "findById env0 db0 ''t2'' = Inr (Some t2) \<and>
   authenticateUser db0 (Some ''Bearer abc'') = Inr alice \<and> user_id alice \<noteq> userId t2 \<and>
   handle env0 db0 (PatchThought (Some ''Bearer abc'') ''t2'' None False) =
     (Responded (json 200 True (ThoughtDoc t2)
        ''No valid update fields provided, thought not modified.''), db0) \<and>
   handle env0 db0 (PatchThought (Some ''Bearer abc'') ''t2'' (Some ''  new message '') True) =
     (Responded (json 403 False Null
        ''You are not authorized to edit this thought's message.''), db0) \<and>
   (\<exists>msg d'. handle env0 db0 (PatchThought (Some ''Bearer abc'') ''t2'' None True) =
      (Responded (json 200 True (ThoughtDoc (t2\<lparr>hearts := 2\<rparr>)) msg), d') \<and>
      findById env0 d' ''t2'' = Inr (Some (t2\<lparr>hearts := 2\<rparr>))) \<and>
   authenticateUser db0 (Some ''Bearer def'') = Inr bob \<and> user_id bob = userId t2 \<and>
   validate_message (Some ''  new message '') = Inr ''new message'' \<and>
   (\<exists>d'. handle env0 db0 (PatchThought (Some ''Bearer def'') ''t2'' (Some ''  new message '') True) =
      (Responded (json 200 True (ThoughtDoc (t2\<lparr>message := ''new message'', hearts := 2\<rparr>))
         ''Thought was successfully updated.''), d'))"
proof -
  have h: "max 0 (hearts t2 - 1) = 2" by (simp add: t2_def)
  have own: "user_id bob = userId t2" by (simp add: bob_def t2_def)
  note wa = patch_suboperations [OF findById_t2 auth_alice, of "''  new message ''" True
      "''new message''" ValidationError]
  note wb = patch_suboperations [OF findById_t2 auth_bob, of "''  new message ''" True
      "''new message''" ValidationError]
  from wa have a1: "handle env0 db0 (PatchThought (Some ''Bearer abc'') ''t2'' None False) =
     (Responded (json 200 True (ThoughtDoc t2)
        ''No valid update fields provided, thought not modified.''), db0)"
    by blast
  from wa alice_not_owner_t2 have a2:
    "handle env0 db0 (PatchThought (Some ''Bearer abc'') ''t2'' (Some ''  new message '') True) =
     (Responded (json 403 False Null
        ''You are not authorized to edit this thought's message.''), db0)"
    by blast
  from wa have a3: "\<exists>msg d'. handle env0 db0 (PatchThought (Some ''Bearer abc'') ''t2'' None True) =
      (Responded (json 200 True (ThoughtDoc (t2\<lparr>hearts := 2\<rparr>)) msg), d') \<and>
      findById env0 d' ''t2'' = Inr (Some (t2\<lparr>hearts := 2\<rparr>))"
    unfolding h by blast
  from wb own validate_ok have b1:
    "\<exists>d'. handle env0 db0 (PatchThought (Some ''Bearer def'') ''t2'' (Some ''  new message '') True) =
      (Responded (json 200 True (ThoughtDoc (t2\<lparr>message := ''new message'', hearts := 2\<rparr>))
         ''Thought was successfully updated.''), d')"
    unfolding h by auto
  from a1 a2 a3 b1 findById_t2 auth_alice auth_bob alice_not_owner_t2 own validate_ok
  show ?thesis by blast
qed

lemma delete_by_bob:
  "handle env0 db0 (DeleteThought (Some ''Bearer def'') ''t1'') =
     (Responded (json 403 False Null ''You are not authorized to delete this thought.''), db0)"
  using auth_bob findById_t1 bob_not_owner by (simp add: protected_Inr delete_not_owner)

section \<open>Paging\<close>

lemma filter_upt_range: "filter (\<lambda>i. a \<le> i \<and> i < b) [0..<n] = [a..<min b n]"
proof (induction n)
  case 0
  then show ?case by simp
next
  case (Suc n)
  show ?case
  proof (cases "a \<le> n \<and> n < b")
    case True
    then have "min b (Suc n) = Suc n" "min b n = n" by simp_all
    with Suc True show ?thesis by simp
  next
    case False
    then have "[a..<min b (Suc n)] = [a..<min b n]"
      by (cases "n < b") (simp_all add: min_def)
    with Suc False show ?thesis by auto
  qed
qed

lemma map_nth_range: "map (\<lambda>i. xs ! i) [a..<min b (length xs)] = take (b - a) (drop a xs)"
proof (rule nth_equalityI)
  show "length (map (\<lambda>i. xs ! i) [a..<min b (length xs)]) = length (take (b - a) (drop a xs))"
    by auto
next
  fix i assume "i < length (map (\<lambda>i. xs ! i) [a..<min b (length xs)])"
  then have i: "a + i < b" "a + i < length xs" by auto
  then show "map (\<lambda>i. xs ! i) [a..<min b (length xs)] ! i = take (b - a) (drop a xs) ! i"
    by simp
qed

lemma window_products:
  assumes "1 \<le> p" "1 \<le> l"
  shows "(p - 1) * l = int (nat ((p - 1) * l))" "p * l = int (nat ((p - 1) * l)) + int (nat l)"
proof -
  from assms have nn: "0 \<le> (p - 1) * l" by simp
  then show "(p - 1) * l = int (nat ((p - 1) * l))" by simp
  have "p * l = (p - 1) * l + l" by (simp add: algebra_simps)
  with nn assms show "p * l = int (nat ((p - 1) * l)) + int (nat l)" by simp
qed

lemma spec_window_nat:
  "map (\<lambda>i. xs ! i) (filter (\<lambda>i. int a \<le> int i \<and> int i < int a + int n) [0..<length xs]) =
     take n (drop a xs)"
proof -
  have "(\<lambda>i. int a \<le> int i \<and> int i < int a + int n) = (\<lambda>i. a \<le> i \<and> i < a + n)"
    by auto
  then show ?thesis
    using map_nth_range [of xs a "a + n"] by (simp add: filter_upt_range)
qed

lemma spec_window_take_drop:
  assumes "1 \<le> p" "1 \<le> l"
  shows "spec_window p l xs = take (nat l) (drop (nat ((p - 1) * l)) xs)"
  unfolding spec_window_def
  by (subst window_products(2) [OF assms], subst window_products(1) [OF assms])
     (rule spec_window_nat)

lemma slice_nat: "slice xs (int a) (int a + int n) = take n (drop a xs)"
proof (cases "a \<le> length xs")
  case True
  then have "slice xs (int a) (int a + int n) = take (min n (length xs - a)) (drop a xs)"
    by (auto simp: slice_def Let_def min_def max_def intro!: arg_cong2 [of _ _ _ _ take])
  also have "\<dots> = take n (drop a xs)"
    by (cases "n \<le> length xs - a") (simp_all add: min_def)
  finally show ?thesis .
next
  case False
  then show ?thesis by (simp add: slice_def Let_def min_def max_def)
qed

lemma slice_take_drop:
  assumes "1 \<le> p" "1 \<le> l"
  shows "slice xs ((p - 1) * l) (p * l) = take (nat l) (drop (nat ((p - 1) * l)) xs)"
  by (subst window_products(2) [OF assms], subst window_products(1) [OF assms])
     (rule slice_nat)

section \<open>The list handler, step by step\<close>

lemma get_thoughts_unfold:
  "get_thoughts e d q =
     (if truthy (q_hearts q) \<and> parseInt (the (q_hearts q)) = None then
        (Responded invalid_hearts_reply, d)
      else if truthy (q_message q) \<and> newRegExp e (the (q_message q)) = None then (Unhandled, d)
      else (case sort_options (q_sort q) of
              None \<Rightarrow> (Responded invalid_sort_reply, d)
            | Some so \<Rightarrow>
                respond_page e d q
                  \<lparr>f_id = (if truthy (q_id q) then q_id q else None),
                   f_hearts = (if truthy (q_hearts q) then parseInt (the (q_hearts q)) else None),
                   f_message = (if truthy (q_message q) then newRegExp e (the (q_message q))
                                else None)\<rparr> so))"
  by (simp add: get_thoughts_def Let_def cong: option.case_cong)

lemma get_thoughts_server_unfold:
  "get_thoughts_server e d q =
     (if truthy (q_hearts q) \<and> parseInt (the (q_hearts q)) = None then
        (Responded invalid_hearts_reply, d)
      else if truthy (q_message q) \<and> newRegExp e (the (q_message q)) = None then (Unhandled, d)
      else (case sort_options_server (q_sort q) of
              None \<Rightarrow> (Responded invalid_sort_reply_server, d)
            | Some so \<Rightarrow>
                respond_page e d q
                  \<lparr>f_id = None,
                   f_hearts = (if truthy (q_hearts q) then parseInt (the (q_hearts q)) else None),
                   f_message = (if truthy (q_message q) then newRegExp e (the (q_message q))
                                else None)\<rparr> so))"
  by (simp add: get_thoughts_server_def Let_def cong: option.case_cong)

lemma respond_page_cast_error:
  "cast_filter e f = Inl err \<Longrightarrow>
   respond_page e d q f so =
     (Responded (json 500 False (ErrorObj err) ''Failed to retrieve thoughts.''), d)"
  by (simp add: respond_page_def countDocuments_def Let_def)

lemma respond_page_skip_error:
  "cast_filter e f = Inr oid \<Longrightarrow> (parseInt_or (q_page q) 1 - 1) * parseInt_or (q_limit q) 10 < 0 \<Longrightarrow>
   respond_page e d q f so =
     (Responded (json 500 False (ErrorObj SkipError) ''Failed to retrieve thoughts.''), d)"
  by (simp add: respond_page_def countDocuments_def find_page_def Let_def)

lemma respond_page_ok:
  "cast_filter e f = Inr oid \<Longrightarrow> 0 \<le> (parseInt_or (q_page q) 1 - 1) * parseInt_or (q_limit q) 10 \<Longrightarrow>
   respond_page e d q f so =
     (Responded (json 200 True
        (ThoughtPage
           \<lparr>totalResults = length (filter (matches oid f) (thoughts d)),
            currentPage = parseInt_or (q_page q) 1,
            resultsPerPage = length (take (nat \<bar>parseInt_or (q_limit q) 10\<bar>)
               (drop (nat ((parseInt_or (q_page q) 1 - 1) * parseInt_or (q_limit q) 10))
                  (sort_by so (filter (matches oid f) (thoughts d))))),
            page_thoughts = take (nat \<bar>parseInt_or (q_limit q) 10\<bar>)
               (drop (nat ((parseInt_or (q_page q) 1 - 1) * parseInt_or (q_limit q) 10))
                  (sort_by so (filter (matches oid f) (thoughts d))))\<rparr>)
        ''Thoughts retrieved successfully.''), d)"
  by (simp add: respond_page_def countDocuments_def find_page_def Let_def)

lemma respond_page_succeeded:
  assumes "succeeded (fst (respond_page e d q f so))"
  shows "\<exists>oid. cast_filter e f = Inr oid"
proof (cases "cast_filter e f")
  case (Inl err)
  with assms show ?thesis
    by (simp add: respond_page_cast_error succeeded_def success_json)
qed simp

lemma respond_page_valid:
  assumes c: "cast_filter e f = Inr oid"
    and p: "1 \<le> parseInt_or (q_page q) 1" and l: "1 \<le> parseInt_or (q_limit q) 10"
  shows "respond_page e d q f so =
     (Responded (json 200 True
        (ThoughtPage
           \<lparr>totalResults = length (filter (matches oid f) (thoughts d)),
            currentPage = parseInt_or (q_page q) 1,
            resultsPerPage = length (spec_window (parseInt_or (q_page q) 1)
               (parseInt_or (q_limit q) 10) (sort_by so (filter (matches oid f) (thoughts d)))),
            page_thoughts = spec_window (parseInt_or (q_page q) 1)
               (parseInt_or (q_limit q) 10) (sort_by so (filter (matches oid f) (thoughts d)))\<rparr>)
        ''Thoughts retrieved successfully.''), d)"
proof -
  from p l have nn: "0 \<le> (parseInt_or (q_page q) 1 - 1) * parseInt_or (q_limit q) 10" by simp
  from l have ab: "\<bar>parseInt_or (q_limit q) 10\<bar> = parseInt_or (q_limit q) 10" by simp
  show ?thesis
    unfolding spec_window_take_drop [OF p l] respond_page_ok [OF c nn] ab ..
qed

lemma length_spec_window:
  "1 \<le> p \<Longrightarrow> 1 \<le> l \<Longrightarrow> length (spec_window p l xs) \<le> nat l"
  by (simp add: spec_window_take_drop)

lemma length_sort_by: "length (sort_by so xs) = length xs"
  by (cases so) (simp_all add: sort_by_def)

lemma set_sort_by: "set (sort_by so xs) = set xs"
  by (cases so) (simp_all add: sort_by_def)

lemma parseInt_or_None: "parseInt_or None dflt = dflt"
  by (simp add: parseInt_or_def)

lemma parseInt_or_NaN: "parseInt s = None \<Longrightarrow> parseInt_or (Some s) dflt = dflt"
  by (simp add: parseInt_or_def)

lemma matches_spec:
  assumes h: "\<not> (truthy (q_hearts q) \<and> parseInt (the (q_hearts q)) = None)"
    and m: "\<not> (truthy (q_message q) \<and> newRegExp e (the (q_message q)) = None)"
    and c: "cast_filter e
       \<lparr>f_id = (if truthy (q_id q) then q_id q else None),
        f_hearts = (if truthy (q_hearts q) then parseInt (the (q_hearts q)) else None),
        f_message = (if truthy (q_message q) then newRegExp e (the (q_message q)) else None)\<rparr>
      = Inr oid"
  shows "matches oid
       \<lparr>f_id = (if truthy (q_id q) then q_id q else None),
        f_hearts = (if truthy (q_hearts q) then parseInt (the (q_hearts q)) else None),
        f_message = (if truthy (q_message q) then newRegExp e (the (q_message q)) else None)\<rparr> t
     = spec_matches e q t"
proof -
  have i: "(case oid of None \<Rightarrow> True | Some x \<Rightarrow> thought_id t = x) =
      (if truthy (q_id q) then castObjectId e (the (q_id q)) = Some (thought_id t) else True)"
  proof (cases "truthy (q_id q)")
    case False
    with c show ?thesis by (simp add: cast_filter_def)
  next
    case True
    then obtain x where x: "q_id q = Some x" by (cases "q_id q") (simp_all add: truthy_def)
    show ?thesis
    proof (cases "castObjectId e x")
      case None
      with c True x show ?thesis by (simp add: cast_filter_def)
    next
      case (Some y)
      with c True x have "oid = Some y" by (simp add: cast_filter_def)
      with True x Some show ?thesis by auto
    qed
  qed
  have hh: "(case (if truthy (q_hearts q) then parseInt (the (q_hearts q)) else None) of
        None \<Rightarrow> True | Some n \<Rightarrow> n \<le> hearts t) =
      (if truthy (q_hearts q)
       then (case parseInt (the (q_hearts q)) of None \<Rightarrow> False | Some n \<Rightarrow> n \<le> hearts t)
       else True)"
    using h by (auto split: option.splits)
  have mm: "(case (if truthy (q_message q) then newRegExp e (the (q_message q)) else None) of
        None \<Rightarrow> True | Some rx \<Rightarrow> rx (message t)) =
      (if truthy (q_message q)
       then (case newRegExp e (the (q_message q)) of None \<Rightarrow> False | Some rx \<Rightarrow> rx (message t))
       else True)"
    using m by (auto split: option.splits)
  show ?thesis
    unfolding matches_def spec_matches_def by (simp only: i hh mm filter.simps)
qed

lemma mset_sort_by: "mset (sort_by so xs) = mset xs"
  by (cases so) (simp_all add: sort_by_def)

lemma spec_ordered_sort_by:
  assumes "sort_options s = Some so"
  shows "spec_ordered s (sort_by so xs)"
proof (cases "truthy s")
  case False
  then have "s = None \<or> s = Some []" by (auto simp: truthy_def split: option.splits)
  then show ?thesis by (auto simp: spec_ordered_def)
next
  case True
  with assms consider
      (desc) "s = Some ''createdAt_desc'' \<or> s = Some ''createdAt''" "so = CreatedAtDesc"
    | (asc) "s = Some ''createdAt_asc''" "so = CreatedAtAsc"
    | (hearts) "s = Some ''hearts''" "so = HeartsDesc"
    by (auto simp: sort_options_def split: if_splits)
  then show ?thesis
  proof cases
    case desc
    then show ?thesis
      using sorted_sort_key [of "\<lambda>t. - createdAt t" xs]
      by (auto simp: spec_ordered_def sort_by_def sorted_map)
  next
    case asc
    then show ?thesis
      using sorted_sort_key [of createdAt xs]
      by (simp add: spec_ordered_def sort_by_def sorted_map)
  next
    case hearts
    then show ?thesis
      using sorted_sort_key [of "\<lambda>t. - hearts t" xs]
      by (simp add: spec_ordered_def sort_by_def sorted_map)
  qed
qed

lemma sort_by_absent: "\<not> truthy s \<Longrightarrow> sort_options s = Some so \<Longrightarrow> sort_by so xs = xs"
  by (simp add: sort_options_def sort_by_def)

lemma get_thoughts_pages:
  assumes s: "succeeded (fst (get_thoughts e d q))"
  shows "\<exists>all. mset all = mset (filter (spec_matches e q) (thoughts d)) \<and>
     spec_ordered (q_sort q) all \<and>
     (\<not> truthy (q_sort q) \<longrightarrow> all = filter (spec_matches e q) (thoughts d)) \<and>
     (\<forall>pg lm. 1 \<le> parseInt_or pg 1 \<and> 1 \<le> parseInt_or lm 10 \<longrightarrow>
        get_thoughts e d (q\<lparr>q_page := pg, q_limit := lm\<rparr>) =
          (Responded (json 200 True
             (ThoughtPage
                \<lparr>totalResults = length (filter (spec_matches e q) (thoughts d)),
                 currentPage = parseInt_or pg 1,
                 resultsPerPage = length (spec_window (parseInt_or pg 1) (parseInt_or lm 10) all),
                 page_thoughts = spec_window (parseInt_or pg 1) (parseInt_or lm 10) all\<rparr>)
             ''Thoughts retrieved successfully.''), d) \<and>
        length (spec_window (parseInt_or pg 1) (parseInt_or lm 10) all) \<le> nat (parseInt_or lm 10))"
proof -
  let ?f = "\<lparr>f_id = (if truthy (q_id q) then q_id q else None),
             f_hearts = (if truthy (q_hearts q) then parseInt (the (q_hearts q)) else None),
             f_message = (if truthy (q_message q) then newRegExp e (the (q_message q))
                          else None)\<rparr>"
  have h: "\<not> (truthy (q_hearts q) \<and> parseInt (the (q_hearts q)) = None)"
  proof
    assume "truthy (q_hearts q) \<and> parseInt (the (q_hearts q)) = None"
    then have "get_thoughts e d q = (Responded invalid_hearts_reply, d)"
      by (simp add: get_thoughts_unfold)
    with s show False
      by (simp add: succeeded_def invalid_hearts_reply_def success_json)
  qed
  have m: "\<not> (truthy (q_message q) \<and> newRegExp e (the (q_message q)) = None)"
  proof
    assume "truthy (q_message q) \<and> newRegExp e (the (q_message q)) = None"
    with h have "get_thoughts e d q = (Unhandled, d)"
      by (auto simp: get_thoughts_unfold)
    with s show False by (simp add: succeeded_def)
  qed
  obtain so where so: "sort_options (q_sort q) = Some so"
  proof (cases "sort_options (q_sort q)")
    case None
    with h m have "get_thoughts e d q = (Responded invalid_sort_reply, d)"
      by (auto simp: get_thoughts_unfold)
    with s show ?thesis
      by (simp add: succeeded_def invalid_sort_reply_def success_json)
  qed simp
  from h m so have "get_thoughts e d q = respond_page e d q ?f so"
    by (auto simp: get_thoughts_unfold)
  with s have "succeeded (fst (respond_page e d q ?f so))"
    by simp
  then obtain oid where c: "cast_filter e ?f = Inr oid"
    using respond_page_succeeded by blast
  have feq: "filter (matches oid ?f) (thoughts d) = filter (spec_matches e q) (thoughts d)"
    using matches_spec [OF h m c] by (intro filter_cong) auto
  define all where "all = sort_by so (filter (spec_matches e q) (thoughts d))"
  have page: "get_thoughts e d (q\<lparr>q_page := pg, q_limit := lm\<rparr>) =
       (Responded (json 200 True
          (ThoughtPage
             \<lparr>totalResults = length (filter (spec_matches e q) (thoughts d)),
              currentPage = parseInt_or pg 1,
              resultsPerPage = length (spec_window (parseInt_or pg 1) (parseInt_or lm 10) all),
              page_thoughts = spec_window (parseInt_or pg 1) (parseInt_or lm 10) all\<rparr>)
          ''Thoughts retrieved successfully.''), d)"
    if v: "1 \<le> parseInt_or pg 1" "1 \<le> parseInt_or lm 10" for pg lm
  proof -
    have "get_thoughts e d (q\<lparr>q_page := pg, q_limit := lm\<rparr>) =
        respond_page e d (q\<lparr>q_page := pg, q_limit := lm\<rparr>) ?f so"
      using h m so by (auto simp: get_thoughts_unfold)
    also have "\<dots> = (Responded (json 200 True
          (ThoughtPage
             \<lparr>totalResults = length (filter (spec_matches e q) (thoughts d)),
              currentPage = parseInt_or pg 1,
              resultsPerPage = length (spec_window (parseInt_or pg 1) (parseInt_or lm 10) all),
              page_thoughts = spec_window (parseInt_or pg 1) (parseInt_or lm 10) all\<rparr>)
          ''Thoughts retrieved successfully.''), d)"
      using respond_page_valid [OF c, of "q\<lparr>q_page := pg, q_limit := lm\<rparr>" d so] v
      by (simp add: feq all_def)
    finally show ?thesis .
  qed
  have a1: "mset all = mset (filter (spec_matches e q) (thoughts d))"
    by (simp add: all_def mset_sort_by)
  have a2: "spec_ordered (q_sort q) all"
    unfolding all_def using so by (rule spec_ordered_sort_by)
  have a3: "\<not> truthy (q_sort q) \<longrightarrow> all = filter (spec_matches e q) (thoughts d)"
    using so by (simp add: all_def sort_by_absent)
  from a1 a2 a3 page length_spec_window show ?thesis by blast
qed

section \<open>The oldest list handler\<close>

lemma get_thoughts_legacy_unfold:
  "get_thoughts_legacy td q =
     (if truthy (q_hearts q) \<and> parseInt (the (q_hearts q)) = None then
        LegacyError 400 ''Invalid hearts parameter. Must be a number''
      else if truthy (q_sort q) \<and> q_sort q \<noteq> Some ''createdAt'' \<and> q_sort q \<noteq> Some ''hearts'' then
        LegacyError 400 ''Invalid 'sort' parameter. Valid options are 'createdAt' or 'hearts'.''
      else
        LegacyPage
          \<lparr>totalResults = length (sort_by
             (if q_sort q = Some ''createdAt'' then CreatedAtDesc
              else if q_sort q = Some ''hearts'' then HeartsDesc else NoSort)
             (filter (\<lambda>t. \<not> truthy (q_message q) \<or>
                  includes_str (toLowerCase (message t)) (toLowerCase (the (q_message q))))
               (filter (\<lambda>t. \<not> truthy (q_hearts q) \<or> the (parseInt (the (q_hearts q))) \<le> hearts t)
                  td))),
           currentPage = parseInt_or (q_page q) 1,
           resultsPerPage = length (slice (sort_by
             (if q_sort q = Some ''createdAt'' then CreatedAtDesc
              else if q_sort q = Some ''hearts'' then HeartsDesc else NoSort)
             (filter (\<lambda>t. \<not> truthy (q_message q) \<or>
                  includes_str (toLowerCase (message t)) (toLowerCase (the (q_message q))))
               (filter (\<lambda>t. \<not> truthy (q_hearts q) \<or> the (parseInt (the (q_hearts q))) \<le> hearts t)
                  td)))
             ((parseInt_or (q_page q) 1 - 1) * parseInt_or (q_limit q) 10)
             (parseInt_or (q_page q) 1 * parseInt_or (q_limit q) 10)),
           page_thoughts = slice (sort_by
             (if q_sort q = Some ''createdAt'' then CreatedAtDesc
              else if q_sort q = Some ''hearts'' then HeartsDesc else NoSort)
             (filter (\<lambda>t. \<not> truthy (q_message q) \<or>
                  includes_str (toLowerCase (message t)) (toLowerCase (the (q_message q))))
               (filter (\<lambda>t. \<not> truthy (q_hearts q) \<or> the (parseInt (the (q_hearts q))) \<le> hearts t)
                  td)))
             ((parseInt_or (q_page q) 1 - 1) * parseInt_or (q_limit q) 10)
             (parseInt_or (q_page q) 1 * parseInt_or (q_limit q) 10)\<rparr>)"
  by (simp add: get_thoughts_legacy_def Let_def sort_by_def)

lemma get_thoughts_legacy_pages:
  assumes s: "get_thoughts_legacy td q = LegacyPage p0"
  shows "\<exists>all. mset all = mset (filter (spec_matches_legacy q) td) \<and>
     spec_ordered (q_sort q) all \<and>
     (\<not> truthy (q_sort q) \<longrightarrow> all = filter (spec_matches_legacy q) td) \<and>
     (\<forall>pg lm. 1 \<le> parseInt_or pg 1 \<and> 1 \<le> parseInt_or lm 10 \<longrightarrow>
        get_thoughts_legacy td (q\<lparr>q_page := pg, q_limit := lm\<rparr>) =
          LegacyPage
            \<lparr>totalResults = length (filter (spec_matches_legacy q) td),
             currentPage = parseInt_or pg 1,
             resultsPerPage = length (spec_window (parseInt_or pg 1) (parseInt_or lm 10) all),
             page_thoughts = spec_window (parseInt_or pg 1) (parseInt_or lm 10) all\<rparr> \<and>
        length (spec_window (parseInt_or pg 1) (parseInt_or lm 10) all) \<le> nat (parseInt_or lm 10))"
proof -
  let ?so = "if q_sort q = Some ''createdAt'' then CreatedAtDesc
             else if q_sort q = Some ''hearts'' then HeartsDesc else NoSort"
  have h: "\<not> (truthy (q_hearts q) \<and> parseInt (the (q_hearts q)) = None)"
  proof
    assume "truthy (q_hearts q) \<and> parseInt (the (q_hearts q)) = None"
    then have "get_thoughts_legacy td q = LegacyError 400 ''Invalid hearts parameter. Must be a number''"
      by (simp add: get_thoughts_legacy_unfold)
    with s show False by simp
  qed
  have so: "\<not> (truthy (q_sort q) \<and> q_sort q \<noteq> Some ''createdAt'' \<and> q_sort q \<noteq> Some ''hearts'')"
  proof
    assume "truthy (q_sort q) \<and> q_sort q \<noteq> Some ''createdAt'' \<and> q_sort q \<noteq> Some ''hearts''"
    with h have "get_thoughts_legacy td q =
       LegacyError 400 ''Invalid 'sort' parameter. Valid options are 'createdAt' or 'hearts'.''"
      by (auto simp: get_thoughts_legacy_unfold)
    with s show False by simp
  qed
  have feq: "filter (\<lambda>t. \<not> truthy (q_message q) \<or>
                  includes_str (toLowerCase (message t)) (toLowerCase (the (q_message q))))
               (filter (\<lambda>t. \<not> truthy (q_hearts q) \<or> the (parseInt (the (q_hearts q))) \<le> hearts t)
                  td) = filter (spec_matches_legacy q) td"
    using h by (auto simp: spec_matches_legacy_def intro!: filter_cong split: option.splits)
  define all where "all = sort_by ?so (filter (spec_matches_legacy q) td)"
  have page: "get_thoughts_legacy td (q\<lparr>q_page := pg, q_limit := lm\<rparr>) =
       LegacyPage
         \<lparr>totalResults = length (filter (spec_matches_legacy q) td),
          currentPage = parseInt_or pg 1,
          resultsPerPage = length (spec_window (parseInt_or pg 1) (parseInt_or lm 10) all),
          page_thoughts = spec_window (parseInt_or pg 1) (parseInt_or lm 10) all\<rparr>"
    if v: "1 \<le> parseInt_or pg 1" "1 \<le> parseInt_or lm 10" for pg lm
  proof -
    have "get_thoughts_legacy td (q\<lparr>q_page := pg, q_limit := lm\<rparr>) =
       LegacyPage
         \<lparr>totalResults = length all,
          currentPage = parseInt_or pg 1,
          resultsPerPage = length (spec_window (parseInt_or pg 1) (parseInt_or lm 10) all),
          page_thoughts = spec_window (parseInt_or pg 1) (parseInt_or lm 10) all\<rparr>"
      unfolding spec_window_take_drop [OF v] slice_take_drop [OF v, symmetric] all_def
        feq [symmetric]
      using h so by (auto simp: get_thoughts_legacy_unfold)
    then show ?thesis by (simp add: all_def length_sort_by)
  qed
  have a1: "mset all = mset (filter (spec_matches_legacy q) td)"
    by (simp add: all_def mset_sort_by)
  have a2: "spec_ordered (q_sort q) all"
  proof (cases "truthy (q_sort q)")
    case False
    then have "q_sort q = None \<or> q_sort q = Some []"
      by (auto simp: truthy_def split: option.splits)
    then show ?thesis by (auto simp: spec_ordered_def)
  next
    case True
    with so have "q_sort q = Some ''createdAt'' \<or> q_sort q = Some ''hearts''" by blast
    then show ?thesis
    proof
      assume "q_sort q = Some ''createdAt''"
      then show ?thesis
        using sorted_sort_key [of "\<lambda>t. - createdAt t" "filter (spec_matches_legacy q) td"]
        by (simp add: all_def spec_ordered_def sort_by_def sorted_map)
    next
      assume "q_sort q = Some ''hearts''"
      then show ?thesis
        using sorted_sort_key [of "\<lambda>t. - hearts t" "filter (spec_matches_legacy q) td"]
        by (simp add: all_def spec_ordered_def sort_by_def sorted_map)
    qed
  qed
  have a3: "\<not> truthy (q_sort q) \<longrightarrow> all = filter (spec_matches_legacy q) td"
    by (auto simp: all_def sort_by_def truthy_def)
  from a1 a2 a3 page length_spec_window show ?thesis by blast
qed

lemma parseInt_no_number:
  "s = [] \<or> (\<not> isWhiteSpace (hd s) \<and> hd s \<noteq> CHR ''+'' \<and> hd s \<noteq> CHR ''-'' \<and> \<not> isDigit (hd s)) \<Longrightarrow>
   parseInt s = None"
  by (cases s) (auto simp: parseInt_def Let_def)

lemma parseInt_or_zero: "parseInt s = Some 0 \<Longrightarrow> parseInt_or (Some s) dflt = dflt"
  by (simp add: parseInt_or_def)

lemma parseInt_or_number: "parseInt s = Some n \<Longrightarrow> n \<noteq> 0 \<Longrightarrow> parseInt_or (Some s) dflt = n"
  by (simp add: parseInt_or_def)

text \<open>
  C7 as stated fails: \<^verbatim>\<open>page=2abc\<close> is not a number, yet it is not replaced by the default
  1 but read as page 2.
\<close>

theorem page_fallback_counterexample:
  "get_thoughts env0 db0 (q0\<lparr>q_page := Some ''2abc'', q_limit := Some ''1''\<rparr>) =
     (Responded (json 200 True
        (ThoughtPage \<lparr>totalResults = 2, currentPage = 2, resultsPerPage = 1,
                       page_thoughts = [t2]\<rparr>)
        ''Thoughts retrieved successfully.''), db0) \<and>
   get_thoughts env0 db0 (q0\<lparr>q_page := None, q_limit := Some ''1''\<rparr>) =
     (Responded (json 200 True
        (ThoughtPage \<lparr>totalResults = 2, currentPage = 1, resultsPerPage = 1,
                       page_thoughts = [t1]\<rparr>)
        ''Thoughts retrieved successfully.''), db0)"
proof -
  have p: "parseInt ''2abc'' = Some 2" "parseInt ''1'' = Some 1"
    by (simp_all add: parseInt_def isWhiteSpace_def isDigit_def digitsValue_def)
  have c: "cast_filter env0 \<lparr>f_id = None, f_hearts = None, f_message = None\<rparr> = Inr None"
    by (simp add: cast_filter_def)
  have m: "\<And>t. matches None \<lparr>f_id = None, f_hearts = None, f_message = None\<rparr> t"
    by (simp add: matches_def)
  have "get_thoughts env0 db0 (q0\<lparr>q_page := Some ''2abc'', q_limit := Some ''1''\<rparr>) =
      respond_page env0 db0 (q0\<lparr>q_page := Some ''2abc'', q_limit := Some ''1''\<rparr>)
        \<lparr>f_id = None, f_hearts = None, f_message = None\<rparr> NoSort"
    by (simp add: get_thoughts_unfold q0_def truthy_def sort_options_def)
  moreover have "respond_page env0 db0 (q0\<lparr>q_page := Some ''2abc'', q_limit := Some ''1''\<rparr>)
        \<lparr>f_id = None, f_hearts = None, f_message = None\<rparr> NoSort =
     (Responded (json 200 True
        (ThoughtPage \<lparr>totalResults = 2, currentPage = 2, resultsPerPage = 1,
                       page_thoughts = [t2]\<rparr>)
        ''Thoughts retrieved successfully.''), db0)"
    by (simp add: respond_page_ok [OF c] q0_def parseInt_or_def p m sort_by_def db0_def json_def)
  moreover have "get_thoughts env0 db0 (q0\<lparr>q_page := None, q_limit := Some ''1''\<rparr>) =
      respond_page env0 db0 (q0\<lparr>q_page := None, q_limit := Some ''1''\<rparr>)
        \<lparr>f_id = None, f_hearts = None, f_message = None\<rparr> NoSort"
    by (simp add: get_thoughts_unfold q0_def truthy_def sort_options_def)
  moreover have "respond_page env0 db0 (q0\<lparr>q_page := None, q_limit := Some ''1''\<rparr>)
        \<lparr>f_id = None, f_hearts = None, f_message = None\<rparr> NoSort =
     (Responded (json 200 True
        (ThoughtPage \<lparr>totalResults = 2, currentPage = 1, resultsPerPage = 1,
                       page_thoughts = [t1]\<rparr>)
        ''Thoughts retrieved successfully.''), db0)"
    by (simp add: respond_page_ok [OF c] q0_def parseInt_or_def p m sort_by_def db0_def json_def)
  ultimately show ?thesis by (simp only: simp_thms)
qed

text \<open>
  C7, as amended. For \<^verbatim>\<open>GET /thoughts\<close> of \<^verbatim>\<open>src/unnamed/part_001\<close> and of
  \<^verbatim>\<open>src/unnamed/part_000\<close>, on a query that is answered with a page, let \<open>all\<close> be the
  records that the query's \<^verbatim>\<open>id\<close>, \<^verbatim>\<open>hearts\<close> and \<^verbatim>\<open>message\<close> select, in the order that its
  \<^verbatim>\<open>sort\<close> asks for (the storage order without a sort). For every page and limit that
  read as numbers from 1 on, the reply holds the window \<open>[(page - 1) * limit, page * limit)\<close>
  of \<open>all\<close>, at most \<open>limit\<close> records, and as the total the number of selected records,
  whatever the page and the limit. A page or limit that is absent, or from which
  \<^verbatim>\<open>parseInt\<close> reads no number (an empty value, a value that begins with a letter) or
  reads 0, is replaced by 1 or 10 without an error; a value with a leading integer,
  like \<^verbatim>\<open>2abc\<close>, is read as that integer.
\<close>

theorem page_window:
  "(succeeded (fst (get_thoughts e d q)) \<longrightarrow>
     (\<exists>all. mset all = mset (filter (spec_matches e q) (thoughts d)) \<and>
        spec_ordered (q_sort q) all \<and>
        (\<not> truthy (q_sort q) \<longrightarrow> all = filter (spec_matches e q) (thoughts d)) \<and>
        (\<forall>pg lm. 1 \<le> parseInt_or pg 1 \<and> 1 \<le> parseInt_or lm 10 \<longrightarrow>
           get_thoughts e d (q\<lparr>q_page := pg, q_limit := lm\<rparr>) =
             (Responded (json 200 True
                (ThoughtPage
                   \<lparr>totalResults = length (filter (spec_matches e q) (thoughts d)),
                    currentPage = parseInt_or pg 1,
                    resultsPerPage =
                      length (spec_window (parseInt_or pg 1) (parseInt_or lm 10) all),
                    page_thoughts = spec_window (parseInt_or pg 1) (parseInt_or lm 10) all\<rparr>)
                ''Thoughts retrieved successfully.''), d) \<and>
           length (spec_window (parseInt_or pg 1) (parseInt_or lm 10) all) \<le>
             nat (parseInt_or lm 10)))) \<and>
   (get_thoughts_legacy td q = LegacyPage p0 \<longrightarrow>
     (\<exists>all. mset all = mset (filter (spec_matches_legacy q) td) \<and>
        spec_ordered (q_sort q) all \<and>
        (\<not> truthy (q_sort q) \<longrightarrow> all = filter (spec_matches_legacy q) td) \<and>
        (\<forall>pg lm. 1 \<le> parseInt_or pg 1 \<and> 1 \<le> parseInt_or lm 10 \<longrightarrow>
           get_thoughts_legacy td (q\<lparr>q_page := pg, q_limit := lm\<rparr>) =
             LegacyPage
               \<lparr>totalResults = length (filter (spec_matches_legacy q) td),
                currentPage = parseInt_or pg 1,
                resultsPerPage = length (spec_window (parseInt_or pg 1) (parseInt_or lm 10) all),
                page_thoughts = spec_window (parseInt_or pg 1) (parseInt_or lm 10) all\<rparr> \<and>
           length (spec_window (parseInt_or pg 1) (parseInt_or lm 10) all) \<le>
             nat (parseInt_or lm 10)))) \<and>
   parseInt_or None 1 = 1 \<and> parseInt_or None 10 = 10 \<and>
   (parseInt s = None \<or> parseInt s = Some 0 \<longrightarrow>
      parseInt_or (Some s) 1 = 1 \<and> parseInt_or (Some s) 10 = 10) \<and>
   (s = [] \<or> (\<not> isWhiteSpace (hd s) \<and> hd s \<noteq> CHR ''+'' \<and> hd s \<noteq> CHR ''-'' \<and> \<not> isDigit (hd s)) \<longrightarrow>
      parseInt s = None) \<and>
   (parseInt s = Some n \<and> n \<noteq> 0 \<longrightarrow> parseInt_or (Some s) 1 = n \<and> parseInt_or (Some s) 10 = n)"
proof (intro conjI)
  show "succeeded (fst (get_thoughts e d q)) \<longrightarrow>
     (\<exists>all. mset all = mset (filter (spec_matches e q) (thoughts d)) \<and>
        spec_ordered (q_sort q) all \<and>
        (\<not> truthy (q_sort q) \<longrightarrow> all = filter (spec_matches e q) (thoughts d)) \<and>
        (\<forall>pg lm. 1 \<le> parseInt_or pg 1 \<and> 1 \<le> parseInt_or lm 10 \<longrightarrow>
           get_thoughts e d (q\<lparr>q_page := pg, q_limit := lm\<rparr>) =
             (Responded (json 200 True
                (ThoughtPage
                   \<lparr>totalResults = length (filter (spec_matches e q) (thoughts d)),
                    currentPage = parseInt_or pg 1,
                    resultsPerPage =
                      length (spec_window (parseInt_or pg 1) (parseInt_or lm 10) all),
                    page_thoughts = spec_window (parseInt_or pg 1) (parseInt_or lm 10) all\<rparr>)
                ''Thoughts retrieved successfully.''), d) \<and>
           length (spec_window (parseInt_or pg 1) (parseInt_or lm 10) all) \<le>
             nat (parseInt_or lm 10)))"
    by (rule impI) (rule get_thoughts_pages)
  show "get_thoughts_legacy td q = LegacyPage p0 \<longrightarrow>
     (\<exists>all. mset all = mset (filter (spec_matches_legacy q) td) \<and>
        spec_ordered (q_sort q) all \<and>
        (\<not> truthy (q_sort q) \<longrightarrow> all = filter (spec_matches_legacy q) td) \<and>
        (\<forall>pg lm. 1 \<le> parseInt_or pg 1 \<and> 1 \<le> parseInt_or lm 10 \<longrightarrow>
           get_thoughts_legacy td (q\<lparr>q_page := pg, q_limit := lm\<rparr>) =
             LegacyPage
               \<lparr>totalResults = length (filter (spec_matches_legacy q) td),
                currentPage = parseInt_or pg 1,
                resultsPerPage = length (spec_window (parseInt_or pg 1) (parseInt_or lm 10) all),
                page_thoughts = spec_window (parseInt_or pg 1) (parseInt_or lm 10) all\<rparr> \<and>
           length (spec_window (parseInt_or pg 1) (parseInt_or lm 10) all) \<le>
             nat (parseInt_or lm 10)))"
    by (rule impI) (rule get_thoughts_legacy_pages)
  show "parseInt_or None 1 = 1" "parseInt_or None 10 = 10"
    by (rule parseInt_or_None)+
  show "parseInt s = None \<or> parseInt s = Some 0 \<longrightarrow>
      parseInt_or (Some s) 1 = 1 \<and> parseInt_or (Some s) 10 = 10"
    using parseInt_or_NaN [of s] parseInt_or_zero [of s] by blast
  show "s = [] \<or> (\<not> isWhiteSpace (hd s) \<and> hd s \<noteq> CHR ''+'' \<and> hd s \<noteq> CHR ''-'' \<and> \<not> isDigit (hd s)) \<longrightarrow>
      parseInt s = None"
    by (rule impI) (rule parseInt_no_number)
  show "parseInt s = Some n \<and> n \<noteq> 0 \<longrightarrow> parseInt_or (Some s) 1 = n \<and> parseInt_or (Some s) 10 = n"
    by (simp add: parseInt_or_number)
qed

section \<open>Concrete runs of the list handlers\<close>

lemma parseInt_2: "parseInt ''2'' = Some 2"
  by (simp add: parseInt_def isWhiteSpace_def isDigit_def digitsValue_def)

lemma parseInt_1: "parseInt ''1'' = Some 1"
  by (simp add: parseInt_def isWhiteSpace_def isDigit_def digitsValue_def)

lemma parseInt_x: "parseInt ''x'' = None"
  by (simp add: parseInt_def isWhiteSpace_def isDigit_def digitsValue_def)

lemma cast_filter_none: "cast_filter e \<lparr>f_id = None, f_hearts = h, f_message = m\<rparr> = Inr None"
  by (simp add: cast_filter_def)

lemma matches_none: "matches None \<lparr>f_id = None, f_hearts = None, f_message = None\<rparr> t"
  by (simp add: matches_def)

lemma get_thoughts_q0:
  "get_thoughts env0 db0 q0 =
     (Responded (json 200 True
        (ThoughtPage \<lparr>totalResults = 2, currentPage = 1, resultsPerPage = 2,
                       page_thoughts = [t1, t2]\<rparr>)
        ''Thoughts retrieved successfully.''), db0)"
proof -
  have "get_thoughts env0 db0 q0 =
      respond_page env0 db0 q0 \<lparr>f_id = None, f_hearts = None, f_message = None\<rparr> NoSort"
    by (simp add: get_thoughts_unfold q0_def truthy_def sort_options_def)
  also have "\<dots> = (Responded (json 200 True
        (ThoughtPage \<lparr>totalResults = 2, currentPage = 1, resultsPerPage = 2,
                       page_thoughts = [t1, t2]\<rparr>)
        ''Thoughts retrieved successfully.''), db0)"
    by (simp add: respond_page_ok [OF cast_filter_none] q0_def parseInt_or_None matches_none
        sort_by_def db0_def json_def)
  finally show ?thesis .
qed

lemma get_thoughts_page2:
  "get_thoughts env0 db0 (q0\<lparr>q_page := Some ''2'', q_limit := Some ''1''\<rparr>) =
     (Responded (json 200 True
        (ThoughtPage \<lparr>totalResults = 2, currentPage = 2, resultsPerPage = 1,
                       page_thoughts = [t2]\<rparr>)
        ''Thoughts retrieved successfully.''), db0)"
proof -
  have "get_thoughts env0 db0 (q0\<lparr>q_page := Some ''2'', q_limit := Some ''1''\<rparr>) =
      respond_page env0 db0 (q0\<lparr>q_page := Some ''2'', q_limit := Some ''1''\<rparr>)
        \<lparr>f_id = None, f_hearts = None, f_message = None\<rparr> NoSort"
    by (simp add: get_thoughts_unfold q0_def truthy_def sort_options_def)
  also have "\<dots> = (Responded (json 200 True
        (ThoughtPage \<lparr>totalResults = 2, currentPage = 2, resultsPerPage = 1,
                       page_thoughts = [t2]\<rparr>)
        ''Thoughts retrieved successfully.''), db0)"
    by (simp add: respond_page_ok [OF cast_filter_none] q0_def parseInt_or_def parseInt_2
        parseInt_1 matches_none sort_by_def db0_def json_def)
  finally show ?thesis .
qed

lemma legacy_q0:
  "get_thoughts_legacy [t1, t2] q0 =
     LegacyPage \<lparr>totalResults = 2, currentPage = 1, resultsPerPage = 2,
                  page_thoughts = [t1, t2]\<rparr>"
  by (simp add: get_thoughts_legacy_unfold q0_def truthy_def parseInt_or_None sort_by_def
      slice_def)

lemma legacy_page2:
  "get_thoughts_legacy [t1, t2] (q0\<lparr>q_page := Some ''2'', q_limit := Some ''1''\<rparr>) =
     LegacyPage \<lparr>totalResults = 2, currentPage = 2, resultsPerPage = 1,
                  page_thoughts = [t2]\<rparr>"
  by (simp add: get_thoughts_legacy_unfold q0_def truthy_def parseInt_or_def parseInt_2
      parseInt_1 sort_by_def slice_def)

lemma get_thoughts_newest_page2:
  "get_thoughts env0 db0
     (q0\<lparr>q_hearts := Some ''0'', q_sort := Some ''createdAt'', q_page := Some ''2'',
         q_limit := Some ''1''\<rparr>) =
     (Responded (json 200 True
        (ThoughtPage \<lparr>totalResults = 2, currentPage = 2, resultsPerPage = 1,
                       page_thoughts = [t1]\<rparr>)
        ''Thoughts retrieved successfully.''), db0)"
proof -
  have p0: "parseInt ''0'' = Some 0"
    by (simp add: parseInt_def isWhiteSpace_def isDigit_def digitsValue_def)
  have "get_thoughts env0 db0
     (q0\<lparr>q_hearts := Some ''0'', q_sort := Some ''createdAt'', q_page := Some ''2'',
         q_limit := Some ''1''\<rparr>) =
      respond_page env0 db0
        (q0\<lparr>q_hearts := Some ''0'', q_sort := Some ''createdAt'', q_page := Some ''2'',
            q_limit := Some ''1''\<rparr>)
        \<lparr>f_id = None, f_hearts = Some 0, f_message = None\<rparr> CreatedAtDesc"
    by (simp add: get_thoughts_unfold q0_def truthy_def sort_options_def p0)
  also have "\<dots> = (Responded (json 200 True
        (ThoughtPage \<lparr>totalResults = 2, currentPage = 2, resultsPerPage = 1,
                       page_thoughts = [t1]\<rparr>)
        ''Thoughts retrieved successfully.''), db0)"
    by (simp add: respond_page_ok [OF cast_filter_none] q0_def parseInt_or_def parseInt_2
        parseInt_1 matches_def sort_by_def db0_def json_def t1_def t2_def)
  finally show ?thesis .
qed

lemma get_thoughts_newest_succeeds:
  "succeeded (fst (get_thoughts env0 db0 (q0\<lparr>q_hearts := Some ''0'', q_sort := Some ''createdAt''\<rparr>)))"
proof -
  have p0: "parseInt ''0'' = Some 0"
    by (simp add: parseInt_def isWhiteSpace_def isDigit_def digitsValue_def)
  have "get_thoughts env0 db0 (q0\<lparr>q_hearts := Some ''0'', q_sort := Some ''createdAt''\<rparr>) =
      respond_page env0 db0 (q0\<lparr>q_hearts := Some ''0'', q_sort := Some ''createdAt''\<rparr>)
        \<lparr>f_id = None, f_hearts = Some 0, f_message = None\<rparr> CreatedAtDesc"
    by (simp add: get_thoughts_unfold q0_def truthy_def sort_options_def p0)
  then show ?thesis
    by (simp add: respond_page_ok [OF cast_filter_none] q0_def parseInt_or_None succeeded_def
        success_json)
qed

theorem page_window_witness:
  "succeeded (fst (get_thoughts env0 db0 (q0\<lparr>q_hearts := Some ''0'', q_sort := Some ''createdAt''\<rparr>))) \<and>
   1 \<le> parseInt_or (Some ''2'') 1 \<and> 1 \<le> parseInt_or (Some ''1'') 10 \<and>
   parseInt ''x'' = None \<and> parseInt_or (Some ''x'') 1 = 1 \<and> parseInt_or (Some ''x'') 10 = 10 \<and>
   (\<exists>all. mset all =
        mset (filter (spec_matches env0 (q0\<lparr>q_hearts := Some ''0'', q_sort := Some ''createdAt''\<rparr>))
                (thoughts db0)) \<and>
      sorted_wrt (\<lambda>a b. createdAt b \<le> createdAt a) all \<and>
      get_thoughts env0 db0
        (q0\<lparr>q_hearts := Some ''0'', q_sort := Some ''createdAt'', q_page := Some ''2'',
            q_limit := Some ''1''\<rparr>) =
      (Responded (json 200 True
         (ThoughtPage
            \<lparr>totalResults =
               length (filter (spec_matches env0
                   (q0\<lparr>q_hearts := Some ''0'', q_sort := Some ''createdAt''\<rparr>)) (thoughts db0)),
             currentPage = 2,
             resultsPerPage = length (spec_window 2 1 all),
             page_thoughts = spec_window 2 1 all\<rparr>)
         ''Thoughts retrieved successfully.''), db0) \<and>
      get_thoughts env0 db0
        (q0\<lparr>q_hearts := Some ''0'', q_sort := Some ''createdAt'', q_page := Some ''x'',
            q_limit := Some ''x''\<rparr>) =
      (Responded (json 200 True
         (ThoughtPage
            \<lparr>totalResults =
               length (filter (spec_matches env0
                   (q0\<lparr>q_hearts := Some ''0'', q_sort := Some ''createdAt''\<rparr>)) (thoughts db0)),
             currentPage = 1,
             resultsPerPage = length (spec_window 1 10 all),
             page_thoughts = spec_window 1 10 all\<rparr>)
         ''Thoughts retrieved successfully.''), db0)) \<and>
   get_thoughts env0 db0
     (q0\<lparr>q_hearts := Some ''0'', q_sort := Some ''createdAt'', q_page := Some ''2'',
         q_limit := Some ''1''\<rparr>) =
     (Responded (json 200 True
        (ThoughtPage \<lparr>totalResults = 2, currentPage = 2, resultsPerPage = 1,
                       page_thoughts = [t1]\<rparr>)
        ''Thoughts retrieved successfully.''), db0) \<and>
   (\<exists>all. mset all = mset (filter (spec_matches_legacy q0) [t1, t2]) \<and>
      get_thoughts_legacy [t1, t2] (q0\<lparr>q_page := Some ''2'', q_limit := Some ''1''\<rparr>) =
      LegacyPage \<lparr>totalResults = length (filter (spec_matches_legacy q0) [t1, t2]),
         currentPage = 2,
         resultsPerPage = length (spec_window 2 1 all), page_thoughts = spec_window 2 1 all\<rparr>) \<and>
   get_thoughts_legacy [t1, t2] (q0\<lparr>q_page := Some ''2'', q_limit := Some ''1''\<rparr>) =
     LegacyPage \<lparr>totalResults = 2, currentPage = 2, resultsPerPage = 1,
                  page_thoughts = [t2]\<rparr>"
proof -
  let ?q = "q0\<lparr>q_hearts := Some ''0'', q_sort := Some ''createdAt''\<rparr>"
  have qs: "q_sort ?q = Some ''createdAt''" by simp
  have p2: "parseInt_or (Some ''2'') 1 = 2" and p1: "parseInt_or (Some ''1'') 10 = 1"
    by (simp_all add: parseInt_or_def parseInt_2 parseInt_1)
  have px: "parseInt_or (Some ''x'') 1 = 1" "parseInt_or (Some ''x'') 10 = 10"
    by (simp_all add: parseInt_or_NaN parseInt_x)
  from page_window [of env0 db0 ?q "[t1, t2]"
      "\<lparr>totalResults = 2, currentPage = 1, resultsPerPage = 2, page_thoughts = [t1, t2]\<rparr>"
      "''x''" 1, THEN conjunct1, THEN mp, OF get_thoughts_newest_succeeds]
  obtain all where a:
    "mset all = mset (filter (spec_matches env0 ?q) (thoughts db0))"
    "spec_ordered (q_sort ?q) all"
    "\<forall>pg lm. 1 \<le> parseInt_or pg 1 \<and> 1 \<le> parseInt_or lm 10 \<longrightarrow>
        get_thoughts env0 db0 (?q\<lparr>q_page := pg, q_limit := lm\<rparr>) =
          (Responded (json 200 True
             (ThoughtPage
                \<lparr>totalResults = length (filter (spec_matches env0 ?q) (thoughts db0)),
                 currentPage = parseInt_or pg 1,
                 resultsPerPage = length (spec_window (parseInt_or pg 1) (parseInt_or lm 10) all),
                 page_thoughts = spec_window (parseInt_or pg 1) (parseInt_or lm 10) all\<rparr>)
             ''Thoughts retrieved successfully.''), db0) \<and>
        length (spec_window (parseInt_or pg 1) (parseInt_or lm 10) all) \<le> nat (parseInt_or lm 10)"
    by (elim exE conjE) (rule that, assumption+)
  from a(2) have so: "sorted_wrt (\<lambda>a b. createdAt b \<le> createdAt a) all"
    unfolding qs by (simp add: spec_ordered_def)
  have v: "1 \<le> parseInt_or (Some ''2'') 1" "1 \<le> parseInt_or (Some ''1'') 10"
    by (simp_all add: p2 p1)
  have vx: "1 \<le> parseInt_or (Some ''x'') 1" "1 \<le> parseInt_or (Some ''x'') 10"
    by (simp_all add: px)
  note pages1 = a(3) [rule_format, OF conjI [OF v], THEN conjunct1, unfolded p2 p1]
  note pages2 = a(3) [rule_format, OF conjI [OF vx], THEN conjunct1, unfolded px]
  have b: "\<exists>all. mset all = mset (filter (spec_matches env0 ?q) (thoughts db0)) \<and>
      sorted_wrt (\<lambda>a b. createdAt b \<le> createdAt a) all \<and>
      get_thoughts env0 db0
        (q0\<lparr>q_hearts := Some ''0'', q_sort := Some ''createdAt'', q_page := Some ''2'',
            q_limit := Some ''1''\<rparr>) =
      (Responded (json 200 True
         (ThoughtPage
            \<lparr>totalResults = length (filter (spec_matches env0 ?q) (thoughts db0)),
             currentPage = 2,
             resultsPerPage = length (spec_window 2 1 all),
             page_thoughts = spec_window 2 1 all\<rparr>)
         ''Thoughts retrieved successfully.''), db0) \<and>
      get_thoughts env0 db0
        (q0\<lparr>q_hearts := Some ''0'', q_sort := Some ''createdAt'', q_page := Some ''x'',
            q_limit := Some ''x''\<rparr>) =
      (Responded (json 200 True
         (ThoughtPage
            \<lparr>totalResults = length (filter (spec_matches env0 ?q) (thoughts db0)),
             currentPage = 1,
             resultsPerPage = length (spec_window 1 10 all),
             page_thoughts = spec_window 1 10 all\<rparr>)
         ''Thoughts retrieved successfully.''), db0)"
    by (intro exI [of _ all] conjI a(1) so pages1 pages2)
  from page_window [of env0 db0 q0 "[t1, t2]"
      "\<lparr>totalResults = 2, currentPage = 1, resultsPerPage = 2, page_thoughts = [t1, t2]\<rparr>"
      "''x''" 1, THEN conjunct2, THEN conjunct1, THEN mp, OF legacy_q0]
  obtain alll where c:
    "mset alll = mset (filter (spec_matches_legacy q0) [t1, t2])"
    "\<forall>pg lm. 1 \<le> parseInt_or pg 1 \<and> 1 \<le> parseInt_or lm 10 \<longrightarrow>
        get_thoughts_legacy [t1, t2] (q0\<lparr>q_page := pg, q_limit := lm\<rparr>) =
          LegacyPage
            \<lparr>totalResults = length (filter (spec_matches_legacy q0) [t1, t2]),
             currentPage = parseInt_or pg 1,
             resultsPerPage = length (spec_window (parseInt_or pg 1) (parseInt_or lm 10) alll),
             page_thoughts = spec_window (parseInt_or pg 1) (parseInt_or lm 10) alll\<rparr> \<and>
        length (spec_window (parseInt_or pg 1) (parseInt_or lm 10) alll) \<le>
          nat (parseInt_or lm 10)"
    by (elim exE conjE) (rule that, assumption+)
  note lpage = c(2) [rule_format, OF conjI [OF v], THEN conjunct1, unfolded p2 p1]
  have d: "\<exists>all. mset all = mset (filter (spec_matches_legacy q0) [t1, t2]) \<and>
      get_thoughts_legacy [t1, t2] (q0\<lparr>q_page := Some ''2'', q_limit := Some ''1''\<rparr>) =
      LegacyPage \<lparr>totalResults = length (filter (spec_matches_legacy q0) [t1, t2]),
         currentPage = 2,
         resultsPerPage = length (spec_window 2 1 all), page_thoughts = spec_window 2 1 all\<rparr>"
    by (intro exI [of _ alll] conjI c(1) lpage)
  show ?thesis
    by (intro conjI get_thoughts_newest_succeeds v parseInt_x px b d get_thoughts_newest_page2
        legacy_page2)
qed

section \<open>The hearts filter\<close>

lemma parseInt_Nil: "parseInt [] = None"
  by (simp add: parseInt_def)

lemma truthy_Some: "truthy (Some s) = (s \<noteq> [])"
  by (simp add: truthy_def)

lemma truthy_None: "\<not> truthy None"
  by (simp add: truthy_def)

lemma set_slice: "set (slice xs a b) \<subseteq> set xs"
proof -
  have "set (take n (drop k xs)) \<subseteq> set xs" for n k
    using set_take_subset [of n "drop k xs"] set_drop_subset [of k xs] by blast
  then show ?thesis by (simp add: slice_def Let_def)
qed

lemma respond_page_members:
  assumes r: "respond_page e d q f so = (Responded r, d')" and p: "response r = ThoughtPage p"
  shows "\<exists>oid. set (page_thoughts p) \<subseteq> set (filter (matches oid f) (thoughts d))"
proof (cases "cast_filter e f")
  case (Inl err)
  with r p show ?thesis by (auto simp: respond_page_cast_error json_def)
next
  case (Inr oid)
  show ?thesis
  proof (cases "(parseInt_or (q_page q) 1 - 1) * parseInt_or (q_limit q) 10 < 0")
    case True
    with Inr r p show ?thesis by (auto simp: respond_page_skip_error json_def)
  next
    case False
    then have nn: "0 \<le> (parseInt_or (q_page q) 1 - 1) * parseInt_or (q_limit q) 10" by simp
    have sub: "set (take n (drop k (sort_by so xs))) \<subseteq> set xs" for n k xs
      using set_take_subset [of n "drop k (sort_by so xs)"] set_drop_subset [of k "sort_by so xs"]
      by (auto simp: set_sort_by)
    from r p have "page_thoughts p = take (nat \<bar>parseInt_or (q_limit q) 10\<bar>)
               (drop (nat ((parseInt_or (q_page q) 1 - 1) * parseInt_or (q_limit q) 10))
                  (sort_by so (filter (matches oid f) (thoughts d))))"
      unfolding respond_page_ok [OF Inr nn] by (auto simp: json_def)
    with sub show ?thesis by metis
  qed
qed

lemma get_thoughts_invalid_hearts:
  assumes "q_hearts q = Some s" "s \<noteq> []" "parseInt s = None"
  shows "get_thoughts e d q =
     (Responded (json 400 False Null ''Invalid 'hearts' parameter. Must be a number.''), d)"
  using assms by (simp add: get_thoughts_unfold truthy_def invalid_hearts_reply_def)

lemma get_thoughts_legacy_invalid_hearts:
  assumes "q_hearts q = Some s" "s \<noteq> []" "parseInt s = None"
  shows "get_thoughts_legacy td q = LegacyError 400 ''Invalid hearts parameter. Must be a number''"
  using assms by (simp add: get_thoughts_legacy_unfold truthy_def)

lemma respond_page_query:
  "q_page q' = q_page q \<Longrightarrow> q_limit q' = q_limit q \<Longrightarrow>
   respond_page e d q' f so = respond_page e d q f so"
  by (simp add: respond_page_def)

lemma get_thoughts_empty_hearts:
  assumes "q_hearts q = Some []"
  shows "get_thoughts e d q = get_thoughts e d (q\<lparr>q_hearts := None\<rparr>)"
  using assms
  by (simp add: get_thoughts_unfold truthy_def respond_page_query [of "q\<lparr>q_hearts := None\<rparr>" q]
      cong: option.case_cong)

lemma get_thoughts_legacy_empty_hearts:
  assumes "q_hearts q = Some []"
  shows "get_thoughts_legacy td q = get_thoughts_legacy td (q\<lparr>q_hearts := None\<rparr>)"
  using assms by (simp add: get_thoughts_legacy_unfold truthy_def)

lemma get_thoughts_page_source:
  assumes r: "get_thoughts e d q = (Responded r, d')" and p: "response r = ThoughtPage p"
  shows "\<exists>so. sort_options (q_sort q) = Some so \<and>
     respond_page e d q
       \<lparr>f_id = (if truthy (q_id q) then q_id q else None),
        f_hearts = (if truthy (q_hearts q) then parseInt (the (q_hearts q)) else None),
        f_message = (if truthy (q_message q) then newRegExp e (the (q_message q)) else None)\<rparr>
       so = (Responded r, d')"
proof -
  have h: "\<not> (truthy (q_hearts q) \<and> parseInt (the (q_hearts q)) = None)"
  proof
    assume "truthy (q_hearts q) \<and> parseInt (the (q_hearts q)) = None"
    then have "get_thoughts e d q = (Responded invalid_hearts_reply, d)"
      by (simp add: get_thoughts_unfold)
    with r have "r = invalid_hearts_reply" by simp
    with p show False by (simp add: invalid_hearts_reply_def json_def)
  qed
  have m: "\<not> (truthy (q_message q) \<and> newRegExp e (the (q_message q)) = None)"
  proof
    assume "truthy (q_message q) \<and> newRegExp e (the (q_message q)) = None"
    with h have "get_thoughts e d q = (Unhandled, d)"
      by (auto simp: get_thoughts_unfold)
    with r show False by simp
  qed
  show ?thesis
  proof (cases "sort_options (q_sort q)")
    case None
    with h m have "get_thoughts e d q = (Responded invalid_sort_reply, d)"
      by (auto simp: get_thoughts_unfold)
    with r have "r = invalid_sort_reply" by simp
    with p have False by (simp add: invalid_sort_reply_def json_def)
    then show ?thesis ..
  next
    case (Some so)
    with h m r show ?thesis by (auto simp: get_thoughts_unfold)
  qed
qed

lemma get_thoughts_hearts_bound:
  assumes h: "q_hearts q = Some s" "parseInt s = Some n"
    and r: "get_thoughts e d q = (Responded r, d')" and p: "response r = ThoughtPage p"
  shows "\<forall>t\<in>set (page_thoughts p). n \<le> hearts t"
proof -
  from h have ne: "s \<noteq> []" using parseInt_Nil by auto
  let ?f = "\<lparr>f_id = (if truthy (q_id q) then q_id q else None),
        f_hearts = (if truthy (q_hearts q) then parseInt (the (q_hearts q)) else None),
        f_message = (if truthy (q_message q) then newRegExp e (the (q_message q)) else None)\<rparr>"
  from get_thoughts_page_source [OF r p] obtain so where
    "respond_page e d q ?f so = (Responded r, d')" by blast
  from respond_page_members [OF this p] obtain oid where
    "set (page_thoughts p) \<subseteq> set (filter (matches oid ?f) (thoughts d))" ..
  with h ne show ?thesis by (auto simp: matches_def truthy_Some)
qed

lemma get_thoughts_legacy_hearts_bound:
  assumes h: "q_hearts q = Some s" "parseInt s = Some n"
    and r: "get_thoughts_legacy td q = LegacyPage p"
  shows "\<forall>t\<in>set (page_thoughts p). n \<le> hearts t"
proof -
  from h have ne: "s \<noteq> []" using parseInt_Nil by auto
  let ?all = "sort_by
             (if q_sort q = Some ''createdAt'' then CreatedAtDesc
              else if q_sort q = Some ''hearts'' then HeartsDesc else NoSort)
             (filter (\<lambda>t. \<not> truthy (q_message q) \<or>
                  includes_str (toLowerCase (message t)) (toLowerCase (the (q_message q))))
               (filter (\<lambda>t. \<not> truthy (q_hearts q) \<or> the (parseInt (the (q_hearts q))) \<le> hearts t)
                  td))"
  have so: "\<not> (truthy (q_sort q) \<and> q_sort q \<noteq> Some ''createdAt'' \<and> q_sort q \<noteq> Some ''hearts'')"
  proof
    assume "truthy (q_sort q) \<and> q_sort q \<noteq> Some ''createdAt'' \<and> q_sort q \<noteq> Some ''hearts''"
    with h have "get_thoughts_legacy td q =
       LegacyError 400 ''Invalid 'sort' parameter. Valid options are 'createdAt' or 'hearts'.''"
      by (auto simp: get_thoughts_legacy_unfold)
    with r show False by simp
  qed
  with h r have "page_thoughts p = slice ?all
      ((parseInt_or (q_page q) 1 - 1) * parseInt_or (q_limit q) 10)
      (parseInt_or (q_page q) 1 * parseInt_or (q_limit q) 10)"
    by (auto simp: get_thoughts_legacy_unfold)
  then have "set (page_thoughts p) \<subseteq> set ?all"
    using set_slice by metis
  with h ne show ?thesis
    by (auto simp: set_sort_by truthy_Some)
qed


section \<open>The sort values\<close>

lemma sort_options_values:
  "sort_options (Some ''createdAt'') = Some CreatedAtDesc"
  "sort_options (Some ''createdAt_desc'') = Some CreatedAtDesc"
  "sort_options (Some ''createdAt_asc'') = Some CreatedAtAsc"
  "sort_options (Some ''hearts'') = Some HeartsDesc"
  "sort_options (Some []) = Some NoSort"
  "sort_options None = Some NoSort"
  by (simp_all add: sort_options_def truthy_def)

lemma sort_options_None:
  "(sort_options (Some s) = None) =
     (s \<noteq> [] \<and> s \<noteq> ''createdAt'' \<and> s \<noteq> ''createdAt_desc'' \<and> s \<noteq> ''createdAt_asc'' \<and> s \<noteq> ''hearts'')"
  by (simp add: sort_options_def truthy_def)

lemma sort_options_server_values:
  "sort_options_server (Some ''createdAt'') = Some CreatedAtDesc"
  "sort_options_server (Some ''hearts'') = Some HeartsDesc"
  "sort_options_server (Some ''createdAt_desc'') = None"
  "sort_options_server (Some ''createdAt_asc'') = None"
  by (simp_all add: sort_options_server_def truthy_def)

lemma sort_options_server_None:
  "(sort_options_server (Some s) = None) = (s \<noteq> [] \<and> s \<noteq> ''createdAt'' \<and> s \<noteq> ''hearts'')"
  by (simp add: sort_options_server_def truthy_def)

lemma get_thoughts_bad_sort:
  assumes so: "sort_options (q_sort q) = None"
  shows "\<not> succeeded (fst (get_thoughts e d q))"
    and "\<not> (truthy (q_hearts q) \<and> parseInt (the (q_hearts q)) = None) \<Longrightarrow>
         \<not> (truthy (q_message q) \<and> newRegExp e (the (q_message q)) = None) \<Longrightarrow>
         get_thoughts e d q =
           (Responded (json 400 False Null
              ''Invalid 'sort' parameter. Valid options are 'createdAt_desc', 'createdAt_asc', or 'hearts'.''),
            d)"
proof -
  show "\<not> succeeded (fst (get_thoughts e d q))"
    using so
    by (simp add: get_thoughts_unfold succeeded_def success_json invalid_hearts_reply_def
        invalid_sort_reply_def)
  show "get_thoughts e d q =
           (Responded (json 400 False Null
              ''Invalid 'sort' parameter. Valid options are 'createdAt_desc', 'createdAt_asc', or 'hearts'.''),
            d)"
    if "\<not> (truthy (q_hearts q) \<and> parseInt (the (q_hearts q)) = None)"
      "\<not> (truthy (q_message q) \<and> newRegExp e (the (q_message q)) = None)"
    using that so by (auto simp: get_thoughts_unfold invalid_sort_reply_def)
qed

lemma get_thoughts_server_bad_sort:
  assumes so: "sort_options_server (q_sort q) = None"
  shows "\<not> succeeded (fst (get_thoughts_server e d q))"
    and "\<not> (truthy (q_hearts q) \<and> parseInt (the (q_hearts q)) = None) \<Longrightarrow>
         \<not> (truthy (q_message q) \<and> newRegExp e (the (q_message q)) = None) \<Longrightarrow>
         get_thoughts_server e d q =
           (Responded (json 400 False Null
              ''Invalid 'sort' parameter. Valid options are 'createdAt' or 'hearts'.''), d)"
proof -
  show "\<not> succeeded (fst (get_thoughts_server e d q))"
    using so
    by (simp add: get_thoughts_server_unfold succeeded_def success_json invalid_hearts_reply_def
        invalid_sort_reply_server_def)
  show "get_thoughts_server e d q =
           (Responded (json 400 False Null
              ''Invalid 'sort' parameter. Valid options are 'createdAt' or 'hearts'.''), d)"
    if "\<not> (truthy (q_hearts q) \<and> parseInt (the (q_hearts q)) = None)"
      "\<not> (truthy (q_message q) \<and> newRegExp e (the (q_message q)) = None)"
    using that so by (auto simp: get_thoughts_server_unfold invalid_sort_reply_server_def)
qed

lemma get_thoughts_legacy_bad_sort:
  assumes "q_sort q = Some s" "s \<noteq> []" "s \<noteq> ''createdAt''" "s \<noteq> ''hearts''"
    and "\<not> (truthy (q_hearts q) \<and> parseInt (the (q_hearts q)) = None)"
  shows "get_thoughts_legacy td q =
     LegacyError 400 ''Invalid 'sort' parameter. Valid options are 'createdAt' or 'hearts'.''"
  using assms by (auto simp: get_thoughts_legacy_unfold truthy_Some)

lemma get_thoughts_empty_sort:
  assumes "q_sort q = Some []"
  shows "get_thoughts e d q = get_thoughts e d (q\<lparr>q_sort := None\<rparr>)"
  using assms
  by (simp add: get_thoughts_unfold sort_options_values
      respond_page_query [of "q\<lparr>q_sort := None\<rparr>" q])

lemma get_thoughts_alias:
  "get_thoughts e d (q\<lparr>q_sort := Some ''createdAt''\<rparr>) =
   get_thoughts e d (q\<lparr>q_sort := Some ''createdAt_desc''\<rparr>)"
  by (simp add: get_thoughts_unfold sort_options_values
      respond_page_query [of "q\<lparr>q_sort := Some ''createdAt''\<rparr>" "q\<lparr>q_sort := Some ''createdAt_desc''\<rparr>"])

lemma sorted_newest_first:
  "sorted_wrt (\<lambda>a b. createdAt b \<le> createdAt a) (sort_by CreatedAtDesc xs)"
  using sorted_sort_key [of "\<lambda>t. - createdAt t" xs]
  by (simp add: sort_by_def sorted_map)

lemma respond_page_newest_first:
  assumes r: "respond_page e d q f CreatedAtDesc = (Responded r, d')"
    and p: "response r = ThoughtPage p"
  shows "sorted_wrt (\<lambda>a b. createdAt b \<le> createdAt a) (page_thoughts p)"
proof (cases "cast_filter e f")
  case (Inl err)
  with r p show ?thesis by (auto simp: respond_page_cast_error json_def)
next
  case (Inr oid)
  show ?thesis
  proof (cases "(parseInt_or (q_page q) 1 - 1) * parseInt_or (q_limit q) 10 < 0")
    case True
    with Inr r p show ?thesis by (auto simp: respond_page_skip_error json_def)
  next
    case False
    then have nn: "0 \<le> (parseInt_or (q_page q) 1 - 1) * parseInt_or (q_limit q) 10" by simp
    from r p have "page_thoughts p = take (nat \<bar>parseInt_or (q_limit q) 10\<bar>)
               (drop (nat ((parseInt_or (q_page q) 1 - 1) * parseInt_or (q_limit q) 10))
                  (sort_by CreatedAtDesc (filter (matches oid f) (thoughts d))))"
      unfolding respond_page_ok [OF Inr nn] by (auto simp: json_def)
    then show ?thesis
      by (simp only: sorted_wrt_take sorted_wrt_drop sorted_newest_first)
  qed
qed

lemma get_thoughts_newest_first:
  assumes r: "get_thoughts e d (q\<lparr>q_sort := Some ''createdAt''\<rparr>) = (Responded r, d')"
    and p: "response r = ThoughtPage p"
  shows "sorted_wrt (\<lambda>a b. createdAt b \<le> createdAt a) (page_thoughts p)"
proof -
  from get_thoughts_page_source [OF r p] obtain f where
    "respond_page e d (q\<lparr>q_sort := Some ''createdAt''\<rparr>) f CreatedAtDesc = (Responded r, d')"
    by (auto simp: sort_options_values)
  from respond_page_newest_first [OF this p] show ?thesis .
qed

lemma parseInt_3: "parseInt ''3'' = Some 3"
  by (simp add: parseInt_def isWhiteSpace_def isDigit_def digitsValue_def)

lemma parseInt_minus_1: "parseInt ''-1'' = Some (- 1)"
  by (simp add: parseInt_def isWhiteSpace_def isDigit_def digitsValue_def)

lemma q0_hearts_None: "q0\<lparr>q_hearts := None\<rparr> = q0"
  by (simp add: q0_def)

lemma q0_sort_None: "q0\<lparr>q_sort := None\<rparr> = q0"
  by (simp add: q0_def)

lemma get_thoughts_hearts_3:
  "get_thoughts env0 db0 (q0\<lparr>q_hearts := Some ''3''\<rparr>) =
     (Responded (json 200 True
        (ThoughtPage \<lparr>totalResults = 1, currentPage = 1, resultsPerPage = 1,
                       page_thoughts = [t2]\<rparr>)
        ''Thoughts retrieved successfully.''), db0)"
proof -
  have "get_thoughts env0 db0 (q0\<lparr>q_hearts := Some ''3''\<rparr>) =
      respond_page env0 db0 (q0\<lparr>q_hearts := Some ''3''\<rparr>)
        \<lparr>f_id = None, f_hearts = Some 3, f_message = None\<rparr> NoSort"
    by (simp add: get_thoughts_unfold q0_def truthy_def sort_options_def parseInt_3)
  also have "\<dots> = (Responded (json 200 True
        (ThoughtPage \<lparr>totalResults = 1, currentPage = 1, resultsPerPage = 1,
                       page_thoughts = [t2]\<rparr>)
        ''Thoughts retrieved successfully.''), db0)"
    by (simp add: respond_page_ok [OF cast_filter_none] q0_def parseInt_or_None matches_def
        sort_by_def db0_def json_def t1_def t2_def)
  finally show ?thesis .
qed

lemma get_thoughts_hearts_minus_1:
  "get_thoughts env0 db0 (q0\<lparr>q_hearts := Some ''-1''\<rparr>) =
     (Responded (json 200 True
        (ThoughtPage \<lparr>totalResults = 2, currentPage = 1, resultsPerPage = 2,
                       page_thoughts = [t1, t2]\<rparr>)
        ''Thoughts retrieved successfully.''), db0)"
proof -
  have "get_thoughts env0 db0 (q0\<lparr>q_hearts := Some ''-1''\<rparr>) =
      respond_page env0 db0 (q0\<lparr>q_hearts := Some ''-1''\<rparr>)
        \<lparr>f_id = None, f_hearts = Some (- 1), f_message = None\<rparr> NoSort"
    by (simp add: get_thoughts_unfold q0_def truthy_def sort_options_def parseInt_minus_1)
  also have "\<dots> = (Responded (json 200 True
        (ThoughtPage \<lparr>totalResults = 2, currentPage = 1, resultsPerPage = 2,
                       page_thoughts = [t1, t2]\<rparr>)
        ''Thoughts retrieved successfully.''), db0)"
    by (simp add: respond_page_ok [OF cast_filter_none] q0_def parseInt_or_None matches_def
        sort_by_def db0_def json_def t1_def t2_def)
  finally show ?thesis .
qed

text \<open>
  C4 as stated fails: an empty \<^verbatim>\<open>hearts\<close> value is not numeric and is answered 200 with
  every thought, and \<^verbatim>\<open>-1\<close>, which is not a non-negative integer, is accepted as a
  threshold.
\<close>

theorem hearts_parameter_counterexample:
  "parseInt '''' = None \<and>
   get_thoughts env0 db0 (q0\<lparr>q_hearts := Some ''''\<rparr>) =
     (Responded (json 200 True
        (ThoughtPage \<lparr>totalResults = 2, currentPage = 1, resultsPerPage = 2,
                       page_thoughts = [t1, t2]\<rparr>)
        ''Thoughts retrieved successfully.''), db0) \<and>
   parseInt ''-1'' = Some (- 1) \<and>
   get_thoughts env0 db0 (q0\<lparr>q_hearts := Some ''-1''\<rparr>) =
     (Responded (json 200 True
        (ThoughtPage \<lparr>totalResults = 2, currentPage = 1, resultsPerPage = 2,
                       page_thoughts = [t1, t2]\<rparr>)
        ''Thoughts retrieved successfully.''), db0)"
  by (simp add: parseInt_Nil parseInt_minus_1 get_thoughts_hearts_minus_1
      get_thoughts_empty_hearts q0_hearts_None get_thoughts_q0)

text \<open>
  C4, as amended. A \<^verbatim>\<open>hearts\<close> value that is not empty is read with \<^verbatim>\<open>parseInt\<close>. When
  that gives no number, the reply is 400 with the message
  "Invalid 'hearts' parameter. Must be a number." (in \<^verbatim>\<open>src/unnamed/part_000\<close>:
  \<^verbatim>\<open>{error: "Invalid hearts parameter. Must be a number"}\<close>). When it gives the integer
  \<open>n\<close>, negative or not, every thought of a returned page has at least \<open>n\<close> hearts. An
  empty value is treated as an absent one.
\<close>

theorem hearts_parameter:
  "(q_hearts q = Some s \<and> s \<noteq> [] \<and> parseInt s = None \<longrightarrow>
      get_thoughts e d q =
        (Responded (json 400 False Null ''Invalid 'hearts' parameter. Must be a number.''), d) \<and>
      get_thoughts_legacy td q =
        LegacyError 400 ''Invalid hearts parameter. Must be a number'') \<and>
   (q_hearts q = Some s \<and> parseInt s = Some n \<longrightarrow>
      (\<forall>r d' p. get_thoughts e d q = (Responded r, d') \<and> response r = ThoughtPage p \<longrightarrow>
         (\<forall>t\<in>set (page_thoughts p). n \<le> hearts t)) \<and>
      (\<forall>p. get_thoughts_legacy td q = LegacyPage p \<longrightarrow>
         (\<forall>t\<in>set (page_thoughts p). n \<le> hearts t))) \<and>
   (q_hearts q = Some [] \<longrightarrow>
      get_thoughts e d q = get_thoughts e d (q\<lparr>q_hearts := None\<rparr>) \<and>
      get_thoughts_legacy td q = get_thoughts_legacy td (q\<lparr>q_hearts := None\<rparr>))"
proof -
  have c1: "q_hearts q = Some s \<and> s \<noteq> [] \<and> parseInt s = None \<longrightarrow>
      get_thoughts e d q =
        (Responded (json 400 False Null ''Invalid 'hearts' parameter. Must be a number.''), d) \<and>
      get_thoughts_legacy td q =
        LegacyError 400 ''Invalid hearts parameter. Must be a number''"
    using get_thoughts_invalid_hearts [of q s e d] get_thoughts_legacy_invalid_hearts [of q s td]
    by blast
  have c2: "q_hearts q = Some s \<and> parseInt s = Some n \<longrightarrow>
      (\<forall>r d' p. get_thoughts e d q = (Responded r, d') \<and> response r = ThoughtPage p \<longrightarrow>
         (\<forall>t\<in>set (page_thoughts p). n \<le> hearts t)) \<and>
      (\<forall>p. get_thoughts_legacy td q = LegacyPage p \<longrightarrow>
         (\<forall>t\<in>set (page_thoughts p). n \<le> hearts t))"
    using get_thoughts_hearts_bound [of q s n e d] get_thoughts_legacy_hearts_bound [of q s n td]
    by blast
  have c3: "q_hearts q = Some [] \<longrightarrow>
      get_thoughts e d q = get_thoughts e d (q\<lparr>q_hearts := None\<rparr>) \<and>
      get_thoughts_legacy td q = get_thoughts_legacy td (q\<lparr>q_hearts := None\<rparr>)"
    using get_thoughts_empty_hearts [of q e d] get_thoughts_legacy_empty_hearts [of q td]
    by blast
  show ?thesis by (intro conjI c1 c2 c3)
qed

theorem hearts_parameter_witness:
  "parseInt ''x'' = None \<and>
   get_thoughts env0 db0 (q0\<lparr>q_hearts := Some ''x''\<rparr>) =
     (Responded (json 400 False Null ''Invalid 'hearts' parameter. Must be a number.''), db0) \<and>
   get_thoughts_legacy [t1, t2] (q0\<lparr>q_hearts := Some ''x''\<rparr>) =
     LegacyError 400 ''Invalid hearts parameter. Must be a number'' \<and>
   parseInt ''3'' = Some 3 \<and>
   get_thoughts env0 db0 (q0\<lparr>q_hearts := Some ''3''\<rparr>) =
     (Responded (json 200 True
        (ThoughtPage \<lparr>totalResults = 1, currentPage = 1, resultsPerPage = 1,
                       page_thoughts = [t2]\<rparr>)
        ''Thoughts retrieved successfully.''), db0) \<and>
   list_all (\<lambda>t. 3 \<le> hearts t) [t2] \<and>
   get_thoughts env0 db0 (q0\<lparr>q_hearts := Some ''''\<rparr>) = get_thoughts env0 db0 q0"
proof -
  have hx: "q_hearts (q0\<lparr>q_hearts := Some ''x''\<rparr>) = Some ''x'' \<and> ''x'' \<noteq> [] \<and> parseInt ''x'' = None"
    by (simp add: parseInt_x)
  have h3: "q_hearts (q0\<lparr>q_hearts := Some ''3''\<rparr>) = Some ''3'' \<and> parseInt ''3'' = Some 3"
    by (simp add: parseInt_3)
  have he: "q_hearts (q0\<lparr>q_hearts := Some ''''\<rparr>) = Some []"
    by simp
  have r3: "response (json 200 True
        (ThoughtPage \<lparr>totalResults = 1, currentPage = 1, resultsPerPage = 1,
                       page_thoughts = [t2]\<rparr>)
        ''Thoughts retrieved successfully.'') =
      ThoughtPage \<lparr>totalResults = 1, currentPage = 1, resultsPerPage = 1, page_thoughts = [t2]\<rparr>"
    by (simp add: json_def)
  from hearts_parameter [of "q0\<lparr>q_hearts := Some ''x''\<rparr>" "''x''" env0 db0 "[t1, t2]" 0] hx
  have a: "get_thoughts env0 db0 (q0\<lparr>q_hearts := Some ''x''\<rparr>) =
     (Responded (json 400 False Null ''Invalid 'hearts' parameter. Must be a number.''), db0) \<and>
   get_thoughts_legacy [t1, t2] (q0\<lparr>q_hearts := Some ''x''\<rparr>) =
     LegacyError 400 ''Invalid hearts parameter. Must be a number''"
    by blast
  from hearts_parameter [of "q0\<lparr>q_hearts := Some ''3''\<rparr>" "''3''" env0 db0 "[t1, t2]" 3] h3
    get_thoughts_hearts_3 r3
  have "\<forall>t\<in>set (page_thoughts \<lparr>totalResults = 1, currentPage = 1, resultsPerPage = 1,
      page_thoughts = [t2]\<rparr>). 3 \<le> hearts t"
    by blast
  then have b: "list_all (\<lambda>t. 3 \<le> hearts t) [t2]" by simp
  from hearts_parameter [of "q0\<lparr>q_hearts := Some ''''\<rparr>" "''''" env0 db0 "[t1, t2]" 0] he
  have c: "get_thoughts env0 db0 (q0\<lparr>q_hearts := Some ''''\<rparr>) = get_thoughts env0 db0 q0"
    by (simp add: q0_hearts_None)
  from a b c hx h3 get_thoughts_hearts_3 show ?thesis by (simp only: simp_thms)
qed

lemma get_thoughts_server_createdAt:
  "get_thoughts_server env0 db0 (q0\<lparr>q_sort := Some ''createdAt''\<rparr>) =
     (Responded (json 200 True
        (ThoughtPage \<lparr>totalResults = 2, currentPage = 1, resultsPerPage = 2,
                       page_thoughts = [t2, t1]\<rparr>)
        ''Thoughts retrieved successfully.''), db0)"
proof -
  have "get_thoughts_server env0 db0 (q0\<lparr>q_sort := Some ''createdAt''\<rparr>) =
      respond_page env0 db0 (q0\<lparr>q_sort := Some ''createdAt''\<rparr>)
        \<lparr>f_id = None, f_hearts = None, f_message = None\<rparr> CreatedAtDesc"
    by (simp add: get_thoughts_server_unfold q0_def truthy_def sort_options_server_def)
  also have "\<dots> = (Responded (json 200 True
        (ThoughtPage \<lparr>totalResults = 2, currentPage = 1, resultsPerPage = 2,
                       page_thoughts = [t2, t1]\<rparr>)
        ''Thoughts retrieved successfully.''), db0)"
    by (simp add: respond_page_ok [OF cast_filter_none] q0_def parseInt_or_None matches_none
        sort_by_def db0_def json_def t1_def t2_def)
  finally show ?thesis .
qed

lemma get_thoughts_createdAt:
  "get_thoughts env0 db0 (q0\<lparr>q_sort := Some ''createdAt''\<rparr>) =
     (Responded (json 200 True
        (ThoughtPage \<lparr>totalResults = 2, currentPage = 1, resultsPerPage = 2,
                       page_thoughts = [t2, t1]\<rparr>)
        ''Thoughts retrieved successfully.''), db0)"
proof -
  have "get_thoughts env0 db0 (q0\<lparr>q_sort := Some ''createdAt''\<rparr>) =
      respond_page env0 db0 (q0\<lparr>q_sort := Some ''createdAt''\<rparr>)
        \<lparr>f_id = None, f_hearts = None, f_message = None\<rparr> CreatedAtDesc"
    by (simp add: get_thoughts_unfold q0_def truthy_def sort_options_def)
  also have "\<dots> = (Responded (json 200 True
        (ThoughtPage \<lparr>totalResults = 2, currentPage = 1, resultsPerPage = 2,
                       page_thoughts = [t2, t1]\<rparr>)
        ''Thoughts retrieved successfully.''), db0)"
    by (simp add: respond_page_ok [OF cast_filter_none] q0_def parseInt_or_None matches_none
        sort_by_def db0_def json_def t1_def t2_def)
  finally show ?thesis .
qed

lemma q0_checks:
  "\<not> (truthy (q_hearts (q0\<lparr>q_sort := v\<rparr>)) \<and> parseInt (the (q_hearts (q0\<lparr>q_sort := v\<rparr>))) = None)"
  "\<not> (truthy (q_message (q0\<lparr>q_sort := v\<rparr>)) \<and>
      newRegExp env0 (the (q_message (q0\<lparr>q_sort := v\<rparr>))) = None)"
  by (simp_all add: q0_def truthy_def)

text \<open>
  C5 as stated fails: the empty \<^verbatim>\<open>sort\<close> value is none of the four values and is answered
  200 with the thoughts in storage order.
\<close>

theorem sort_parameter_counterexample:
  "'''' \<noteq> ''createdAt'' \<and> '''' \<noteq> ''createdAt_desc'' \<and> '''' \<noteq> ''createdAt_asc'' \<and>
   '''' \<noteq> ''hearts'' \<and>
   get_thoughts env0 db0 (q0\<lparr>q_sort := Some ''''\<rparr>) =
     (Responded (json 200 True
        (ThoughtPage \<lparr>totalResults = 2, currentPage = 1, resultsPerPage = 2,
                       page_thoughts = [t1, t2]\<rparr>)
        ''Thoughts retrieved successfully.''), db0)"
  by (simp add: get_thoughts_empty_sort q0_sort_None get_thoughts_q0)

text \<open>
  C5, as amended. In \<^verbatim>\<open>src/unnamed/part_001\<close> the four values \<^verbatim>\<open>createdAt\<close>,
  \<^verbatim>\<open>createdAt_desc\<close>, \<^verbatim>\<open>createdAt_asc\<close> and \<^verbatim>\<open>hearts\<close> are the non-empty values that the
  sort handling accepts. Every other non-empty value gives no results: the reply is
  400 with the message that lists the options, unless the \<^verbatim>\<open>hearts\<close> check has
  answered before or the message pattern does not compile. An empty value is treated
  as an absent one. In \<^verbatim>\<open>src/server.js\<close> and \<^verbatim>\<open>src/unnamed/part_000\<close> the accepted
  non-empty values are \<^verbatim>\<open>createdAt\<close> and \<^verbatim>\<open>hearts\<close> only.
\<close>

theorem sort_parameter:
  "sort_options (Some ''createdAt'') = Some CreatedAtDesc \<and>
   sort_options (Some ''createdAt_desc'') = Some CreatedAtDesc \<and>
   sort_options (Some ''createdAt_asc'') = Some CreatedAtAsc \<and>
   sort_options (Some ''hearts'') = Some HeartsDesc \<and>
   (q_sort q = Some s \<and> s \<noteq> [] \<and> s \<noteq> ''createdAt'' \<and> s \<noteq> ''createdAt_desc'' \<and>
      s \<noteq> ''createdAt_asc'' \<and> s \<noteq> ''hearts'' \<longrightarrow>
      \<not> succeeded (fst (get_thoughts e d q)) \<and>
      (\<not> (truthy (q_hearts q) \<and> parseInt (the (q_hearts q)) = None) \<and>
       \<not> (truthy (q_message q) \<and> newRegExp e (the (q_message q)) = None) \<longrightarrow>
         get_thoughts e d q =
           (Responded (json 400 False Null
              ''Invalid 'sort' parameter. Valid options are 'createdAt_desc', 'createdAt_asc', or 'hearts'.''),
            d))) \<and>
   (q_sort q = Some [] \<longrightarrow> get_thoughts e d q = get_thoughts e d (q\<lparr>q_sort := None\<rparr>)) \<and>
   (q_sort q = Some s \<and> s \<noteq> [] \<and> s \<noteq> ''createdAt'' \<and> s \<noteq> ''hearts'' \<longrightarrow>
      \<not> succeeded (fst (get_thoughts_server e d q)) \<and>
      (\<not> (truthy (q_hearts q) \<and> parseInt (the (q_hearts q)) = None) \<and>
       \<not> (truthy (q_message q) \<and> newRegExp e (the (q_message q)) = None) \<longrightarrow>
         get_thoughts_server e d q =
           (Responded (json 400 False Null
              ''Invalid 'sort' parameter. Valid options are 'createdAt' or 'hearts'.''), d)) \<and>
      (\<not> (truthy (q_hearts q) \<and> parseInt (the (q_hearts q)) = None) \<longrightarrow>
         get_thoughts_legacy td q =
           LegacyError 400
             ''Invalid 'sort' parameter. Valid options are 'createdAt' or 'hearts'.''))"
proof -
  have c1: "q_sort q = Some s \<and> s \<noteq> [] \<and> s \<noteq> ''createdAt'' \<and> s \<noteq> ''createdAt_desc'' \<and>
      s \<noteq> ''createdAt_asc'' \<and> s \<noteq> ''hearts'' \<longrightarrow>
      \<not> succeeded (fst (get_thoughts e d q)) \<and>
      (\<not> (truthy (q_hearts q) \<and> parseInt (the (q_hearts q)) = None) \<and>
       \<not> (truthy (q_message q) \<and> newRegExp e (the (q_message q)) = None) \<longrightarrow>
         get_thoughts e d q =
           (Responded (json 400 False Null
              ''Invalid 'sort' parameter. Valid options are 'createdAt_desc', 'createdAt_asc', or 'hearts'.''),
            d))"
  proof (intro impI, elim conjE)
    assume "q_sort q = Some s" "s \<noteq> []" "s \<noteq> ''createdAt''" "s \<noteq> ''createdAt_desc''"
      "s \<noteq> ''createdAt_asc''" "s \<noteq> ''hearts''"
    then have "sort_options (q_sort q) = None"
      by (simp add: sort_options_None)
    from get_thoughts_bad_sort [OF this, of e d] show
      "\<not> succeeded (fst (get_thoughts e d q)) \<and>
      (\<not> (truthy (q_hearts q) \<and> parseInt (the (q_hearts q)) = None) \<and>
       \<not> (truthy (q_message q) \<and> newRegExp e (the (q_message q)) = None) \<longrightarrow>
         get_thoughts e d q =
           (Responded (json 400 False Null
              ''Invalid 'sort' parameter. Valid options are 'createdAt_desc', 'createdAt_asc', or 'hearts'.''),
            d))"
      by blast
  qed
  have c2: "q_sort q = Some [] \<longrightarrow> get_thoughts e d q = get_thoughts e d (q\<lparr>q_sort := None\<rparr>)"
    using get_thoughts_empty_sort by blast
  have c3: "q_sort q = Some s \<and> s \<noteq> [] \<and> s \<noteq> ''createdAt'' \<and> s \<noteq> ''hearts'' \<longrightarrow>
      \<not> succeeded (fst (get_thoughts_server e d q)) \<and>
      (\<not> (truthy (q_hearts q) \<and> parseInt (the (q_hearts q)) = None) \<and>
       \<not> (truthy (q_message q) \<and> newRegExp e (the (q_message q)) = None) \<longrightarrow>
         get_thoughts_server e d q =
           (Responded (json 400 False Null
              ''Invalid 'sort' parameter. Valid options are 'createdAt' or 'hearts'.''), d)) \<and>
      (\<not> (truthy (q_hearts q) \<and> parseInt (the (q_hearts q)) = None) \<longrightarrow>
         get_thoughts_legacy td q =
           LegacyError 400
             ''Invalid 'sort' parameter. Valid options are 'createdAt' or 'hearts'.'')"
  proof (intro impI, elim conjE)
    assume a: "q_sort q = Some s" "s \<noteq> []" "s \<noteq> ''createdAt''" "s \<noteq> ''hearts''"
    then have "sort_options_server (q_sort q) = None"
      by (simp add: sort_options_server_None)
    from get_thoughts_server_bad_sort [OF this, of e d] get_thoughts_legacy_bad_sort [OF a, of td]
    show "\<not> succeeded (fst (get_thoughts_server e d q)) \<and>
      (\<not> (truthy (q_hearts q) \<and> parseInt (the (q_hearts q)) = None) \<and>
       \<not> (truthy (q_message q) \<and> newRegExp e (the (q_message q)) = None) \<longrightarrow>
         get_thoughts_server e d q =
           (Responded (json 400 False Null
              ''Invalid 'sort' parameter. Valid options are 'createdAt' or 'hearts'.''), d)) \<and>
      (\<not> (truthy (q_hearts q) \<and> parseInt (the (q_hearts q)) = None) \<longrightarrow>
         get_thoughts_legacy td q =
           LegacyError 400
             ''Invalid 'sort' parameter. Valid options are 'createdAt' or 'hearts'.'')"
      by blast
  qed
  show ?thesis by (intro conjI sort_options_values(1-4) c1 c2 c3)
qed

theorem sort_parameter_witness:
  "get_thoughts env0 db0 (q0\<lparr>q_sort := Some ''newest''\<rparr>) =
     (Responded (json 400 False Null
        ''Invalid 'sort' parameter. Valid options are 'createdAt_desc', 'createdAt_asc', or 'hearts'.''),
      db0) \<and>
   get_thoughts_server env0 db0 (q0\<lparr>q_sort := Some ''newest''\<rparr>) =
     (Responded (json 400 False Null
        ''Invalid 'sort' parameter. Valid options are 'createdAt' or 'hearts'.''), db0) \<and>
   get_thoughts_legacy [t1, t2] (q0\<lparr>q_sort := Some ''newest''\<rparr>) =
     LegacyError 400 ''Invalid 'sort' parameter. Valid options are 'createdAt' or 'hearts'.'' \<and>
   get_thoughts env0 db0 (q0\<lparr>q_sort := Some ''''\<rparr>) = get_thoughts env0 db0 q0"
proof -
  have n: "q_sort (q0\<lparr>q_sort := Some ''newest''\<rparr>) = Some ''newest'' \<and> ''newest'' \<noteq> [] \<and>
      ''newest'' \<noteq> ''createdAt'' \<and> ''newest'' \<noteq> ''createdAt_desc'' \<and>
      ''newest'' \<noteq> ''createdAt_asc'' \<and> ''newest'' \<noteq> ''hearts''"
    by simp
  note w = sort_parameter [of "q0\<lparr>q_sort := Some ''newest''\<rparr>" "''newest''" env0 db0 "[t1, t2]"]
  from w n q0_checks [of "Some ''newest''"] have a:
    "get_thoughts env0 db0 (q0\<lparr>q_sort := Some ''newest''\<rparr>) =
     (Responded (json 400 False Null
        ''Invalid 'sort' parameter. Valid options are 'createdAt_desc', 'createdAt_asc', or 'hearts'.''),
      db0)"
    by blast
  from w n q0_checks [of "Some ''newest''"] have b:
    "get_thoughts_server env0 db0 (q0\<lparr>q_sort := Some ''newest''\<rparr>) =
     (Responded (json 400 False Null
        ''Invalid 'sort' parameter. Valid options are 'createdAt' or 'hearts'.''), db0) \<and>
     get_thoughts_legacy [t1, t2] (q0\<lparr>q_sort := Some ''newest''\<rparr>) =
     LegacyError 400 ''Invalid 'sort' parameter. Valid options are 'createdAt' or 'hearts'.''"
    by blast
  have e: "q_sort (q0\<lparr>q_sort := Some ''''\<rparr>) = Some []" by simp
  from sort_parameter [of "q0\<lparr>q_sort := Some ''''\<rparr>" "''''" env0 db0 "[t1, t2]"] e
  have c: "get_thoughts env0 db0 (q0\<lparr>q_sort := Some ''''\<rparr>) = get_thoughts env0 db0 q0"
    by (simp add: q0_sort_None)
  from a b c show ?thesis by (simp only: simp_thms)
qed

text \<open>
  C6 as stated fails on \<^verbatim>\<open>src/server.js\<close>: there \<^verbatim>\<open>sort=createdAt\<close> is answered with the
  thoughts newest first and \<^verbatim>\<open>sort=createdAt_desc\<close> with 400.
\<close>

theorem createdAt_alias_counterexample:
  "get_thoughts_server env0 db0 (q0\<lparr>q_sort := Some ''createdAt''\<rparr>) =
     (Responded (json 200 True
        (ThoughtPage \<lparr>totalResults = 2, currentPage = 1, resultsPerPage = 2,
                       page_thoughts = [t2, t1]\<rparr>)
        ''Thoughts retrieved successfully.''), db0) \<and>
   get_thoughts_server env0 db0 (q0\<lparr>q_sort := Some ''createdAt_desc''\<rparr>) =
     (Responded (json 400 False Null
        ''Invalid 'sort' parameter. Valid options are 'createdAt' or 'hearts'.''), db0)"
  using get_thoughts_server_bad_sort(2) [of "q0\<lparr>q_sort := Some ''createdAt_desc''\<rparr>" env0 db0]
    q0_checks [of "Some ''createdAt_desc''"]
  by (simp add: get_thoughts_server_createdAt sort_options_server_values)

text \<open>
  C6, as amended. In \<^verbatim>\<open>src/unnamed/part_001\<close>, for every store and every combination of
  the other parameters, \<^verbatim>\<open>sort=createdAt\<close> and \<^verbatim>\<open>sort=createdAt_desc\<close> give the same
  reply, and a page returned for them is ordered newest first. In \<^verbatim>\<open>src/server.js\<close>
  \<^verbatim>\<open>sort=createdAt_desc\<close> is not a sort value and gives no results.
\<close>

theorem createdAt_alias:
  "get_thoughts e d (q\<lparr>q_sort := Some ''createdAt''\<rparr>) =
     get_thoughts e d (q\<lparr>q_sort := Some ''createdAt_desc''\<rparr>) \<and>
   (get_thoughts e d (q\<lparr>q_sort := Some ''createdAt''\<rparr>) = (Responded r, d') \<and>
      response r = ThoughtPage p \<longrightarrow>
      sorted_wrt (\<lambda>a b. createdAt b \<le> createdAt a) (page_thoughts p)) \<and>
   \<not> succeeded (fst (get_thoughts_server e d (q\<lparr>q_sort := Some ''createdAt_desc''\<rparr>)))"
proof (intro conjI)
  show "get_thoughts e d (q\<lparr>q_sort := Some ''createdAt''\<rparr>) =
     get_thoughts e d (q\<lparr>q_sort := Some ''createdAt_desc''\<rparr>)"
    by (rule get_thoughts_alias)
  show "get_thoughts e d (q\<lparr>q_sort := Some ''createdAt''\<rparr>) = (Responded r, d') \<and>
      response r = ThoughtPage p \<longrightarrow>
      sorted_wrt (\<lambda>a b. createdAt b \<le> createdAt a) (page_thoughts p)"
    using get_thoughts_newest_first by blast
  show "\<not> succeeded (fst (get_thoughts_server e d (q\<lparr>q_sort := Some ''createdAt_desc''\<rparr>)))"
    by (rule get_thoughts_server_bad_sort(1)) (simp add: sort_options_server_values)
qed

theorem createdAt_alias_witness:
  "get_thoughts env0 db0 (q0\<lparr>q_sort := Some ''createdAt_desc''\<rparr>) =
     (Responded (json 200 True
        (ThoughtPage \<lparr>totalResults = 2, currentPage = 1, resultsPerPage = 2,
                       page_thoughts = [t2, t1]\<rparr>)
        ''Thoughts retrieved successfully.''), db0) \<and>
   sorted_wrt (\<lambda>a b. createdAt b \<le> createdAt a) [t2, t1]"
proof -
  have r: "response (json 200 True
        (ThoughtPage \<lparr>totalResults = 2, currentPage = 1, resultsPerPage = 2,
                       page_thoughts = [t2, t1]\<rparr>)
        ''Thoughts retrieved successfully.'') =
      ThoughtPage \<lparr>totalResults = 2, currentPage = 1, resultsPerPage = 2,
                    page_thoughts = [t2, t1]\<rparr>"
    by (simp add: json_def)
  note w = createdAt_alias [of env0 db0 q0 "json 200 True
        (ThoughtPage \<lparr>totalResults = 2, currentPage = 1, resultsPerPage = 2,
                       page_thoughts = [t2, t1]\<rparr>)
        ''Thoughts retrieved successfully.''" db0
      "\<lparr>totalResults = 2, currentPage = 1, resultsPerPage = 2, page_thoughts = [t2, t1]\<rparr>"]
  from w get_thoughts_createdAt have a:
    "get_thoughts env0 db0 (q0\<lparr>q_sort := Some ''createdAt_desc''\<rparr>) =
     (Responded (json 200 True
        (ThoughtPage \<lparr>totalResults = 2, currentPage = 1, resultsPerPage = 2,
                       page_thoughts = [t2, t1]\<rparr>)
        ''Thoughts retrieved successfully.''), db0)"
    by simp
  from w get_thoughts_createdAt r have
    "sorted_wrt (\<lambda>a b. createdAt b \<le> createdAt a)
       (page_thoughts \<lparr>totalResults = 2, currentPage = 1, resultsPerPage = 2,
          page_thoughts = [t2, t1]\<rparr>)"
    by blast
  then have b: "sorted_wrt (\<lambda>a b. createdAt b \<le> createdAt a) [t2, t1]" by simp
  from a b show ?thesis by (simp only: simp_thms)
qed

section \<open>Which requests are answered\<close>

lemma status_json: "status (json n s r m) = n"
  by (simp add: json_def)

lemma get_root_responds:
  "\<exists>r. fst (get_root d) = Responded r \<and> (success r \<or> 400 \<le> status r)"
  by (simp add: get_root_def success_json)

lemma post_users_responds:
  "\<exists>r. fst (post_users e d n em pw) = Responded r \<and> (success r \<or> 400 \<le> status r)"
  by (simp add: post_users_def success_json status_json split: sum.splits prod.splits)

lemma get_secrets_responds:
  "\<exists>r. fst (get_secrets d u) = Responded r \<and> (success r \<or> 400 \<le> status r)"
  by (simp add: get_secrets_def success_json)

lemma post_sessions_responds:
  "\<exists>r. fst (post_sessions e d em pw) = Responded r \<and> (success r \<or> 400 \<le> status r)"
  by (simp add: post_sessions_def success_json status_json split: option.splits)

lemma get_thought_responds:
  "\<exists>r. fst (get_thought e d i) = Responded r \<and> (success r \<or> 400 \<le> status r)"
  by (simp add: get_thought_def success_json status_json split: sum.splits option.splits)

lemma post_thoughts_responds:
  "\<exists>r. fst (post_thoughts e d m u) = Responded r \<and> (success r \<or> 400 \<le> status r)"
  by (simp add: post_thoughts_def success_json status_json split: sum.splits prod.splits)

lemma delete_thought_responds:
  "\<exists>r. fst (delete_thought e d i u) = Responded r \<and> (success r \<or> 400 \<le> status r)"
  by (simp add: delete_thought_def success_json status_json
      split: sum.splits prod.splits option.splits)

lemma like_thought_responds:
  "\<exists>r. fst (like_thought e d i) = Responded r \<and> (success r \<or> 400 \<le> status r)"
  by (simp add: like_thought_def success_json status_json
      split: sum.splits prod.splits option.splits)

lemma patch_thought_responds:
  "\<exists>r. fst (patch_thought e d i m unlike u) = Responded r \<and> (success r \<or> 400 \<le> status r)"
proof (cases "findById e d i")
  case (Inl err)
  then show ?thesis by (simp add: patch_thought_def success_json status_json)
next
  case (Inr found)
  show ?thesis
  proof (cases found)
    case None
    with Inr show ?thesis by (simp add: patch_thought_def success_json status_json)
  next
    case (Some t)
    define uf where "uf = \<lparr>uf_message = m,
      uf_hearts = (if unlike \<and> max 0 (hearts t - 1) \<noteq> hearts t
                   then Some (max 0 (hearts t - 1)) else None)\<rparr>"
    from Inr Some have f: "findById e d i = Inr (Some t)" by simp
    note eq = patch_thought_found [OF f, of m unlike u, folded uf_def]
    show ?thesis
    proof (cases "findByIdAndUpdate_validated e d i uf")
      case (Inl err)
      then show ?thesis
        by (simp add: eq success_json status_json)
    next
      case upd: (Inr res)
      obtain r' d' where res: "res = (r', d')" by (cases res)
      show ?thesis
      proof (cases r')
        case None
        with upd res show ?thesis
          by (simp add: eq success_json status_json)
      next
        case (Some t')
        with upd res show ?thesis
          by (simp add: eq success_json status_json)
      qed
    qed
  qed
qed

lemma protected_responds:
  assumes "\<And>u. \<exists>r. fst (handler u) = Responded r \<and> (success r \<or> 400 \<le> status r)"
  shows "\<exists>r. fst (protected d h handler) = Responded r \<and> (success r \<or> 400 \<le> status r)"
proof (cases "authenticateUser d h")
  case (Inl r)
  then have "r = no_token_reply \<or> r = bad_token_reply"
    by (auto simp: authenticateUser_def split: option.splits if_splits)
  then have "400 \<le> status r"
    by (auto simp: no_token_reply_def bad_token_reply_def status_json)
  with Inl show ?thesis by (simp add: protected_def)
next
  case (Inr u)
  with assms [of u] show ?thesis by (simp add: protected_def)
qed

lemma respond_page_responds:
  "\<exists>r. fst (respond_page e d q f so) = Responded r \<and> (success r \<or> 400 \<le> status r)"
  by (simp add: respond_page_def Let_def success_json status_json split: sum.splits)

lemma get_thoughts_responds:
  assumes "\<not> (truthy (q_message q) \<and> newRegExp e (the (q_message q)) = None) \<or>
    (truthy (q_hearts q) \<and> parseInt (the (q_hearts q)) = None)"
  shows "\<exists>r. fst (get_thoughts e d q) = Responded r \<and> (success r \<or> 400 \<le> status r)"
proof (cases "truthy (q_hearts q) \<and> parseInt (the (q_hearts q)) = None")
  case True
  then have "get_thoughts e d q = (Responded invalid_hearts_reply, d)"
    by (auto simp: get_thoughts_unfold)
  then show ?thesis by (simp add: invalid_hearts_reply_def status_json)
next
  case h: False
  with assms have m: "\<not> (truthy (q_message q) \<and> newRegExp e (the (q_message q)) = None)"
    by blast
  show ?thesis
  proof (cases "sort_options (q_sort q)")
    case None
    with h m have "get_thoughts e d q = (Responded invalid_sort_reply, d)"
      by (auto simp: get_thoughts_unfold)
    then show ?thesis by (simp add: invalid_sort_reply_def status_json)
  next
    case (Some so)
    with h m obtain f where "get_thoughts e d q = respond_page e d q f so"
      by (auto simp: get_thoughts_unfold)
    then show ?thesis by (simp add: respond_page_responds)
  qed
qed

lemma get_thoughts_throws:
  assumes "\<not> (truthy (q_hearts q) \<and> parseInt (the (q_hearts q)) = None)"
    and "truthy (q_message q)" and "newRegExp e (the (q_message q)) = None"
  shows "get_thoughts e d q = (Unhandled, d)"
  using assms by (auto simp: get_thoughts_unfold)

lemma handle_responds:
  assumes "\<And>q. req = GetThoughts q \<Longrightarrow>
    \<not> (truthy (q_message q) \<and> newRegExp e (the (q_message q)) = None) \<or>
    (truthy (q_hearts q) \<and> parseInt (the (q_hearts q)) = None)"
  shows "\<exists>r. fst (handle e d req) = Responded r \<and> (success r \<or> 400 \<le> status r)"
proof (cases req)
  case GetRoot
  then show ?thesis by (simp add: get_root_responds)
next
  case (PostUsers n em pw)
  then show ?thesis by (simp add: post_users_responds)
next
  case (GetSecrets h)
  then show ?thesis using protected_responds [of "get_secrets d" d h]
    by (simp add: get_secrets_responds)
next
  case (PostSessions em pw)
  then show ?thesis by (simp add: post_sessions_responds)
next
  case (GetThoughts q)
  with assms [of q] show ?thesis by (simp add: get_thoughts_responds)
next
  case (GetThought i)
  then show ?thesis by (simp add: get_thought_responds)
next
  case (PostThoughts h m)
  then show ?thesis using protected_responds [of "post_thoughts e d m" d h]
    by (simp add: post_thoughts_responds)
next
  case (DeleteThought h i)
  then show ?thesis using protected_responds [of "delete_thought e d i" d h]
    by (simp add: delete_thought_responds)
next
  case (LikeThought i)
  then show ?thesis by (simp add: like_thought_responds)
next
  case (PatchThought h i m unlike)
  then show ?thesis using protected_responds [of "patch_thought e d i m unlike" d h]
    by (simp add: patch_thought_responds)
qed

text \<open>
  C9. A request that is not answered with a success leaves the store as it was, and a
  handler that answers does so with a success or with an error reply (a status from 400
  on). Not every request is answered: \<^verbatim>\<open>GET /thoughts\<close> with a \<^verbatim>\<open>message\<close> that is not a
  regular expression throws in \<^verbatim>\<open>new RegExp\<close>, which is called before the \<^verbatim>\<open>try\<close> block,
  and the handler writes no reply at all. That is the only such request; every other call
  that can throw is inside a \<^verbatim>\<open>try\<close> whose \<^verbatim>\<open>catch\<close> answers.
\<close>

theorem handle_outcomes:
  "(succeeded (fst (handle e d req)) \<or> snd (handle e d req) = d) \<and>
   (fst (handle e d req) = Unhandled \<or>
    (\<exists>r. fst (handle e d req) = Responded r \<and> (success r \<or> 400 \<le> status r))) \<and>
   ((fst (handle e d req) = Unhandled) =
    (\<exists>q. req = GetThoughts q \<and>
       \<not> (truthy (q_hearts q) \<and> parseInt (the (q_hearts q)) = None) \<and>
       truthy (q_message q) \<and> newRegExp e (the (q_message q)) = None))"
proof -
  let ?throws = "\<exists>q. req = GetThoughts q \<and>
       \<not> (truthy (q_hearts q) \<and> parseInt (the (q_hearts q)) = None) \<and>
       truthy (q_message q) \<and> newRegExp e (the (q_message q)) = None"
  have a: "succeeded (fst (handle e d req)) \<or> snd (handle e d req) = d"
    by (rule handle_atomic)
  have t: "fst (handle e d req) = Unhandled" if ?throws
  proof -
    from that obtain q where q: "req = GetThoughts q"
      "\<not> (truthy (q_hearts q) \<and> parseInt (the (q_hearts q)) = None)"
      "truthy (q_message q)" "newRegExp e (the (q_message q)) = None"
      by blast
    from get_thoughts_throws [OF q(2-4), of d] q(1) show ?thesis by simp
  qed
  have r: "\<exists>r. fst (handle e d req) = Responded r \<and> (success r \<or> 400 \<le> status r)"
    if n: "\<not> ?throws"
  proof (rule handle_responds)
    fix q
    assume "req = GetThoughts q"
    with n show "\<not> (truthy (q_message q) \<and> newRegExp e (the (q_message q)) = None) \<or>
      (truthy (q_hearts q) \<and> parseInt (the (q_hearts q)) = None)"
      by blast
  qed
  have b: "fst (handle e d req) = Unhandled \<or>
    (\<exists>r. fst (handle e d req) = Responded r \<and> (success r \<or> 400 \<le> status r))"
    using t r by blast
  have c: "(fst (handle e d req) = Unhandled) = ?throws"
  proof
    assume u: "fst (handle e d req) = Unhandled"
    show ?throws
    proof (rule ccontr)
      assume "\<not> ?throws"
      from r [OF this] u show False by simp
    qed
  next
    assume ?throws
    then show "fst (handle e d req) = Unhandled" by (rule t)
  qed
  from a b c show ?thesis by (intro conjI)
qed

theorem handle_outcomes_witness:
  "truthy (q_message (q0\<lparr>q_message := Some ''(''\<rparr>)) \<and>
   newRegExp env0 (the (q_message (q0\<lparr>q_message := Some ''(''\<rparr>))) = None \<and>
   handle env0 db0 (GetThoughts (q0\<lparr>q_message := Some ''(''\<rparr>)) = (Unhandled, db0) \<and>
   get_thoughts_server env0 db0 (q0\<lparr>q_message := Some ''(''\<rparr>) = (Unhandled, db0) \<and>
   (\<exists>r. fst (handle env0 db0 (GetThoughts (q0\<lparr>q_message := Some ''()''\<rparr>))) = Responded r \<and>
        (success r \<or> 400 \<le> status r))"
proof -
  let ?q = "q0\<lparr>q_message := Some ''(''\<rparr>"
  have m: "truthy (q_message ?q)" by (simp add: truthy_def q0_def)
  have n: "newRegExp env0 (the (q_message ?q)) = None" by (simp add: env0_def q0_def)
  have h: "\<not> (truthy (q_hearts ?q) \<and> parseInt (the (q_hearts ?q)) = None)"
    by (simp add: truthy_def q0_def)
  note w = handle_outcomes [of env0 db0 "GetThoughts ?q"]
  have ex: "\<exists>q. GetThoughts ?q = GetThoughts q \<and>
       \<not> (truthy (q_hearts q) \<and> parseInt (the (q_hearts q)) = None) \<and>
       truthy (q_message q) \<and> newRegExp env0 (the (q_message q)) = None"
    by (rule exI [of _ ?q]) (intro conjI refl h m n)
  from w [THEN conjunct2, THEN conjunct2] ex
  have u: "fst (handle env0 db0 (GetThoughts ?q)) = Unhandled"
    by (rule iffD2)
  then have ns: "\<not> succeeded (fst (handle env0 db0 (GetThoughts ?q)))"
    by (simp add: succeeded_def)
  with w [THEN conjunct1] have s: "snd (handle env0 db0 (GetThoughts ?q)) = db0"
    by blast
  from u s have p: "handle env0 db0 (GetThoughts ?q) = (Unhandled, db0)"
    by (simp add: prod_eq_iff)
  have nr: "get_thoughts_server env0 db0 ?q = (Unhandled, db0)"
    by (simp add: get_thoughts_server_unfold truthy_def q0_def env0_def)
  let ?q2 = "q0\<lparr>q_message := Some ''()''\<rparr>"
  note w2 = handle_outcomes [of env0 db0 "GetThoughts ?q2"]
  have n2: "newRegExp env0 (the (q_message ?q2)) \<noteq> None" by (simp add: env0_def q0_def)
  have "\<not> (\<exists>q. GetThoughts ?q2 = GetThoughts q \<and>
       \<not> (truthy (q_hearts q) \<and> parseInt (the (q_hearts q)) = None) \<and>
       truthy (q_message q) \<and> newRegExp env0 (the (q_message q)) = None)"
    using n2 by simp
  with w2 [THEN conjunct2, THEN conjunct2]
  have "fst (handle env0 db0 (GetThoughts ?q2)) \<noteq> Unhandled"
    by blast
  with w2 [THEN conjunct2, THEN conjunct1]
  have r2: "\<exists>r. fst (handle env0 db0 (GetThoughts ?q2)) = Responded r \<and>
        (success r \<or> 400 \<le> status r)"
    by blast
  show ?thesis by (intro conjI m n p nr r2)
qed

end
